(* ===== verification/Prelude.thy ===== *)
theory Prelude
  imports Complex_Main "HOL-Library.Word" "HOL-Library.Sublist"
begin

text \<open>
  Shared vocabulary of the escrow development: the types that name the values the
  TypeScript code handles (addresses and hashes as strings, JavaScript numbers, the
  symbol-sdk \<open>UInt64\<close> as a 64-bit word), the error values that stand for the
  exceptions the code can raise, the sequencing combinator \<open>bindE\<close> that threads
  them the way \<open>await\<close> propagates a rejection, and the symbol-sdk helpers the
  sources call (\<open>UInt64.fromUint\<close>, \<open>UInt64.compact\<close>, reading \<open>xs[i].field\<close>).

  JavaScript numbers are modelled as exact rationals: the code only multiplies and
  divides decimal prices by powers of ten and by the fee rate, and the rounding of
  IEEE doubles is not modelled.
\<close>

named_theorems js_simps "evaluation rules of the JavaScript and symbol-sdk helpers"

type_synonym u64 = "64 word"
type_synonym address = string
type_synonym hash = string
type_synonym jsnum = rat

text \<open>
  Every exception an operation of the sources can raise, as a value. The rejection
  of an awaited promise is the same value: \<open>await\<close> rethrows it.
\<close>

datatype error =
    NegativeUInt          \<comment> \<open>\<open>UInt64.fromUint\<close> of a negative number\<close>
  | CompactOverflow       \<comment> \<open>\<open>UInt64.compact\<close> of a value of 2^53 or more\<close>
  | InvalidMosaicId       \<comment> \<open>\<open>new MosaicId(s)\<close> with \<open>s\<close> not 16 hexadecimal digits\<close>
  | InvalidAddress        \<comment> \<open>\<open>Address.createFromRawAddress\<close> of a malformed address\<close>
  | UndefinedProperty     \<comment> \<open>a property read on \<open>undefined\<close> (TypeError)\<close>
  | NotAggregateBonded    \<comment> \<open>\<open>HashLockTransaction.create\<close> over a non-bonded transaction\<close>
  | NetworkError          \<comment> \<open>a REST or WebSocket call of the ledger gateway failed\<close>
  | AccountNotFound       \<comment> \<open>\<open>getAccountInfo\<close> of an address the ledger does not know\<close>
  | SignerRejected        \<comment> \<open>the SSS signer refused or failed to sign\<close>

definition bindE :: "error + 'a \<Rightarrow> ('a \<Rightarrow> error + 'b) \<Rightarrow> error + 'b" where
  "bindE m f = (case m of Inl e \<Rightarrow> Inl e | Inr x \<Rightarrow> f x)"

subsection \<open>Property reads on array elements\<close>

text \<open>
  \<open>xs[i].field\<close> in JavaScript: out of range \<open>xs[i]\<close> is \<open>undefined\<close> and reading a
  field of it throws a TypeError.
\<close>

definition js_at :: "'a list \<Rightarrow> nat \<Rightarrow> error + 'a" where
  "js_at xs i = (if i < length xs then Inr (xs ! i) else Inl UndefinedProperty)"

subsection \<open>symbol-sdk UInt64\<close>

text \<open>
  \<open>UInt64.fromUint(x)\<close> throws on a negative argument; otherwise it splits the
  truncated value into two 32-bit halves, \<open>(x & 0xFFFFFFFF) >>> 0\<close> and
  \<open>(x / 0x100000000) >>> 0\<close>, so the stored value is \<open>\<lfloor>x\<rfloor> mod 2^64\<close>.
  \<open>compact()\<close> throws when the high half is \<open>0x00200000\<close> or more, that is when the
  value does not fit the 53 bits of a double's mantissa.
\<close>

definition fromUint :: "jsnum \<Rightarrow> error + u64" where
  "fromUint x = (if x < 0 then Inl NegativeUInt else Inr (word_of_nat (nat \<lfloor>x\<rfloor>)))"

definition compact_u64 :: "u64 \<Rightarrow> error + nat" where
  "compact_u64 w = (if 2 ^ 53 \<le> unat w then Inl CompactOverflow else Inr (unat w))"

subsection \<open>Lemmas on the helpers\<close>

lemma bindE_Inl [simp]: "bindE (Inl e) f = Inl e"
  by (simp add: bindE_def)

lemma bindE_Inr [simp]: "bindE (Inr x) f = f x"
  by (simp add: bindE_def)

lemma bindE_eq_Inr_iff: "bindE m f = Inr y \<longleftrightarrow> (\<exists>x. m = Inr x \<and> f x = Inr y)"
  by (cases m) auto

lemma bindE_eq_Inl_iff:
  "bindE m f = Inl e \<longleftrightarrow> m = Inl e \<or> (\<exists>x. m = Inr x \<and> f x = Inl e)"
  by (cases m) auto

lemma js_at_Cons_0 [simp, js_simps]: "js_at (x # xs) 0 = Inr x"
  by (simp add: js_at_def)

lemma js_at_Cons_Suc [simp, js_simps]: "js_at (x # xs) (Suc i) = js_at xs i"
  by (simp add: js_at_def)

lemma js_at_Nil [simp, js_simps]: "js_at [] i = Inl UndefinedProperty"
  by (simp add: js_at_def)

lemma js_at_eq_Inr_iff: "js_at xs i = Inr x \<longleftrightarrow> i < length xs \<and> xs ! i = x"
  by (auto simp: js_at_def)

lemma fromUint_Inr_iff: "fromUint x = Inr w \<longleftrightarrow> 0 \<le> x \<and> w = word_of_nat (nat \<lfloor>x\<rfloor>)"
  by (auto simp: fromUint_def)

lemma fromUint_Inl_iff: "fromUint x = Inl e \<longleftrightarrow> x < 0 \<and> e = NegativeUInt"
  by (auto simp: fromUint_def)

lemma unat_word_of_nat_u64: "unat (word_of_nat n :: u64) = n mod 2 ^ 64"
  by (simp only: unat_of_nat) simp

lemma unat_word_of_int_u64:
  assumes "0 \<le> k"
  shows "unat (word_of_int k :: u64) = nat k mod 2 ^ 64"
proof -
  have "unat (word_of_int k :: u64) = nat (uint (word_of_int k :: u64))"
    by (rule unat_eq_nat_uint)
  also have "uint (word_of_int k :: u64) = k mod 2 ^ 64"
    by (simp add: uint_word_of_int)
  also have "nat (k mod 2 ^ 64) = nat k mod 2 ^ 64"
    using assms by (simp add: nat_mod_distrib nat_power_eq)
  finally show ?thesis .
qed

lemma unat_fromUint_nat:
  assumes "k < 2 ^ 53"
  shows "unat (word_of_nat (nat \<lfloor>(of_nat k :: jsnum)\<rfloor>) :: u64) = k"
proof -
  have "k < 2 ^ 64" using assms by (rule less_le_trans) simp
  then show ?thesis by (simp add: unat_word_of_nat_u64 del: of_nat_power)
qed

lemma unat_fromUint:
  assumes "fromUint x = Inr w"
  shows "unat w = nat \<lfloor>x\<rfloor> mod 2 ^ 64"
proof -
  from assms have "w = word_of_nat (nat \<lfloor>x\<rfloor>)"
    by (simp add: fromUint_def split: if_splits)
  then show ?thesis by (simp only: unat_of_nat) simp
qed

lemma fromUint_of_nat [js_simps]:
  "fromUint (of_nat n) = Inr (word_of_nat n)"
  by (simp add: fromUint_def)

lemma compact_word_of_nat [js_simps]:
  "n < 2 ^ 53 \<Longrightarrow> compact_u64 (word_of_nat n) = Inr n"
  by (simp add: compact_u64_def unat_of_nat)

lemma compact_Inr_bound: "compact_u64 w = Inr n \<Longrightarrow> n < 2 ^ 53 \<and> unat w = n"
  by (auto simp: compact_u64_def split: if_splits)

text \<open>A \<open>fromUint\<close> followed by \<open>compact_u64\<close> gives back every natural number below 2^53.\<close>

lemma compact_fromUint_of_nat [js_simps]:
  "n < 2 ^ 53 \<Longrightarrow> bindE (fromUint (of_nat n)) compact_u64 = Inr n"
  by (simp add: fromUint_of_nat compact_word_of_nat)

end
