(* ===== verification/Codec.thy ===== *)
theory Codec
  imports Prelude
begin

text \<open>
  The two textual encodings the escrow protocol round-trips through the ledger:
  \<^item> the expiration instant, written into the payment's message with
    \<open>expirationTime.toString()\<close> (\<open>requestEscrowWithSSS.ts\<close>) and read back with
    \<open>Number(tx1.message.payload)\<close> (\<open>searchEscrow.ts\<close>);
  \<^item> the mosaic identifier, parsed by \<open>new MosaicId(hex)\<close> when the bundle is built
    and printed by \<open>mosaics[0].id.toHex()\<close> when it is reconstructed.
  Digits are read most significant first by \<open>parse_digits\<close>; numbers are written
  by \<open>dec_digits\<close> (no padding, as \<open>toString\<close>) and \<open>fixed_digits\<close> (padded to a
  width, as \<open>toHex\<close> pads to 16).
\<close>

definition digits_value :: "nat \<Rightarrow> nat \<Rightarrow> nat list \<Rightarrow> nat" where
  "digits_value b acc ds = foldl (\<lambda>a d. b * a + d) acc ds"

fun parse_digits :: "nat \<Rightarrow> (char \<Rightarrow> nat option) \<Rightarrow> nat \<Rightarrow> string \<Rightarrow> nat option" where
  "parse_digits b val acc [] = Some acc"
| "parse_digits b val acc (c # cs) =
     (case val c of None \<Rightarrow> None | Some d \<Rightarrow> parse_digits b val (b * acc + d) cs)"

fun dec_digits :: "nat \<Rightarrow> nat list" where
  "dec_digits n = (if n < 10 then [n] else dec_digits (n div 10) @ [n mod 10])"

declare dec_digits.simps [simp del]

fun fixed_digits :: "nat \<Rightarrow> nat \<Rightarrow> nat \<Rightarrow> nat list" where
  "fixed_digits b 0 n = []"
| "fixed_digits b (Suc k) n = fixed_digits b k (n div b) @ [n mod b]"

subsection \<open>Characters\<close>

definition hex_char :: "nat \<Rightarrow> char" where
  "hex_char d = char_of (if d < 10 then 48 + d else 55 + d)"

definition dec_val :: "char \<Rightarrow> nat option" where
  "dec_val c = (let n = of_char c in if 48 \<le> n \<and> n \<le> 57 then Some (n - 48) else None)"

text \<open>\<open>/^[0-9A-Fa-f]{16}$/\<close>: both cases are accepted.\<close>

definition hex_val :: "char \<Rightarrow> nat option" where
  "hex_val c = (let n = of_char c in
     if 48 \<le> n \<and> n \<le> 57 then Some (n - 48)
     else if 65 \<le> n \<and> n \<le> 70 then Some (n - 55)
     else if 97 \<le> n \<and> n \<le> 102 then Some (n - 87)
     else None)"

subsection \<open>JavaScript \<open>toString\<close> and \<open>Number\<close> on natural numbers\<close>

text \<open>
  \<open>n.toString()\<close> for a non-negative integer below 10^21 is its decimal digits.
  \<open>Number(s)\<close> is modelled on strings of decimal digits, the empty string giving 0
  as in JavaScript; any other string is \<open>NaN\<close>, here \<open>None\<close> (surrounding white
  space, signs, exponents and \<open>0x\<close> prefixes, which JavaScript also accepts, are not
  modelled: the payloads the code writes never contain them).
\<close>

definition num_toString :: "nat \<Rightarrow> string" where
  "num_toString n = map hex_char (dec_digits n)"

definition js_Number :: "string \<Rightarrow> nat option" where
  "js_Number s = parse_digits 10 dec_val 0 s"

subsection \<open>symbol-sdk \<open>MosaicId\<close>\<close>

definition mosaicId_create :: "string \<Rightarrow> error + u64" where
  "mosaicId_create s =
     (if length s = 16
      then (case parse_digits 16 hex_val 0 s of
              None \<Rightarrow> Inl InvalidMosaicId
            | Some n \<Rightarrow> Inr (word_of_nat n))
      else Inl InvalidMosaicId)"

definition mosaicId_toHex :: "u64 \<Rightarrow> string" where
  "mosaicId_toHex w = map hex_char (fixed_digits 16 16 (unat w))"

text \<open>Upper-case hexadecimal digits, the characters \<open>toHex\<close> prints.\<close>

definition is_upper_hex :: "char \<Rightarrow> bool" where
  "is_upper_hex c \<longleftrightarrow> (let n = (of_char c :: nat) in (48 \<le> n \<and> n \<le> 57) \<or> (65 \<le> n \<and> n \<le> 70))"

subsection \<open>Digit lemmas\<close>

lemma digits_value_snoc [simp]: "digits_value b acc (ds @ [d]) = b * digits_value b acc ds + d"
  by (simp add: digits_value_def)

lemma digits_value_Cons [simp]: "digits_value b acc (d # ds) = digits_value b (b * acc + d) ds"
  by (simp add: digits_value_def)

lemma digits_value_Nil [simp]: "digits_value b acc [] = acc"
  by (simp add: digits_value_def)

lemma parse_digits_map:
  assumes "\<forall>d \<in> set ds. val (chr d) = Some d"
  shows "parse_digits b val acc (map chr ds) = Some (digits_value b acc ds)"
  using assms by (induction ds arbitrary: acc) auto

lemma parse_digits_Some:
  "parse_digits b val acc s = Some n \<Longrightarrow>
     \<exists>ds. length ds = length s \<and> (\<forall>i < length s. val (s ! i) = Some (ds ! i))
        \<and> n = digits_value b acc ds"
proof (induction s arbitrary: acc)
  case Nil
  then show ?case by simp
next
  case (Cons c cs)
  then obtain d where d: "val c = Some d"
    and rest: "parse_digits b val (b * acc + d) cs = Some n"
    by (auto split: option.splits)
  from Cons.IH [OF rest] obtain ds where "length ds = length cs"
    and "\<forall>i < length cs. val (cs ! i) = Some (ds ! i)" and "n = digits_value b (b * acc + d) ds"
    by blast
  with d show ?case
    by (intro exI [of _ "d # ds"]) (auto simp: nth_Cons split: nat.splits)
qed

lemma dec_digits_bound: "\<forall>d \<in> set (dec_digits n). d < 10"
proof (induction n rule: dec_digits.induct)
  case (1 n)
  then show ?case by (subst dec_digits.simps) auto
qed

lemma digits_value_dec_digits: "digits_value 10 0 (dec_digits n) = n"
proof (induction n rule: dec_digits.induct)
  case (1 n)
  then show ?case by (subst dec_digits.simps) auto
qed

lemma fixed_digits_bound: "0 < b \<Longrightarrow> \<forall>d \<in> set (fixed_digits b k n). d < b"
  by (induction k arbitrary: n) auto

lemma length_fixed_digits [simp]: "length (fixed_digits b k n) = k"
  by (induction k arbitrary: n) auto

lemma digits_value_fixed_digits:
  "digits_value b 0 (fixed_digits b k n) = n mod b ^ k"
proof (induction k arbitrary: n)
  case 0
  then show ?case by simp
next
  case (Suc k)
  have "b * (n div b mod b ^ k) + n mod b = n mod (b * b ^ k)"
    by (simp add: mod_mult2_eq mult.commute)
  with Suc show ?case by simp
qed

lemma fixed_digits_value:
  assumes "\<forall>d \<in> set ds. d < b"
  shows "fixed_digits b (length ds) (digits_value b 0 ds) = ds"
  using assms
proof (induction ds rule: rev_induct)
  case Nil
  then show ?case by simp
next
  case (snoc d ds)
  then have "d < b" by simp
  then have "(b * digits_value b 0 ds + d) div b = digits_value b 0 ds"
    and "(b * digits_value b 0 ds + d) mod b = d"
    by simp_all
  with snoc show ?case by simp
qed

lemma digits_value_bound:
  assumes "0 < b" and "\<forall>d \<in> set ds. d < b"
  shows "digits_value b 0 ds < b ^ length ds"
proof -
  have "digits_value b 0 ds = digits_value b 0 (fixed_digits b (length ds) (digits_value b 0 ds))"
    using assms(2) by (simp only: fixed_digits_value)
  also have "\<dots> = digits_value b 0 ds mod b ^ length ds"
    by (rule digits_value_fixed_digits)
  finally show ?thesis using assms(1) by (metis mod_less_divisor zero_less_power)
qed

subsection \<open>Character lemmas\<close>

lemma dec_val_hex_char [simp]: "d < 10 \<Longrightarrow> dec_val (hex_char d) = Some d"
  by (simp add: dec_val_def hex_char_def)

lemma hex_val_hex_char [simp]: "d < 16 \<Longrightarrow> hex_val (hex_char d) = Some d"
  by (simp add: hex_val_def hex_char_def Let_def)

lemma hex_val_bound: "hex_val c = Some d \<Longrightarrow> d < 16"
  by (auto simp: hex_val_def Let_def split: if_splits)

lemma hex_char_hex_val:
  assumes "hex_val c = Some d" and "is_upper_hex c"
  shows "hex_char d = c"
proof -
  have "char_of (of_char c :: nat) = c" by simp
  with assms show ?thesis
    by (auto simp: hex_val_def hex_char_def is_upper_hex_def Let_def split: if_splits)
qed

lemma hex_char_is_upper_hex: "d < 16 \<Longrightarrow> is_upper_hex (hex_char d)"
  by (simp add: is_upper_hex_def hex_char_def Let_def)

lemma mosaicId_toHex_typed:
  "length (mosaicId_toHex w) = 16 \<and> (\<forall>c \<in> set (mosaicId_toHex w). is_upper_hex c)"
  using fixed_digits_bound [of 16 16 "unat w"]
  by (auto simp: mosaicId_toHex_def hex_char_is_upper_hex)

subsection \<open>Round trips\<close>

text \<open>The expiration instant written by \<open>toString\<close> is read back by \<open>Number\<close>.\<close>

theorem js_Number_num_toString: "js_Number (num_toString n) = Some n"
proof -
  have "\<forall>d \<in> set (dec_digits n). dec_val (hex_char d) = Some d"
    using dec_digits_bound by auto
  then have "js_Number (num_toString n) = Some (digits_value 10 0 (dec_digits n))"
    by (simp add: js_Number_def num_toString_def parse_digits_map)
  then show ?thesis by (simp add: digits_value_dec_digits)
qed

lemma unat_less_16_16: "unat (w :: u64) < 16 ^ 16"
proof -
  have "unat w < 2 ^ LENGTH(64)" by (rule unsigned_less)
  then show ?thesis by simp
qed

theorem mosaicId_create_toHex: "mosaicId_create (mosaicId_toHex w) = Inr w"
proof -
  have "\<forall>d \<in> set (fixed_digits 16 16 (unat w)). hex_val (hex_char d) = Some d"
    using fixed_digits_bound [of 16 16 "unat w"] by auto
  then have "parse_digits 16 hex_val 0 (mosaicId_toHex w) = Some (unat w mod 16 ^ 16)"
    by (simp add: mosaicId_toHex_def parse_digits_map digits_value_fixed_digits)
  moreover have "unat w mod 16 ^ 16 = unat w"
    using unat_less_16_16 by (rule mod_less)
  ultimately show ?thesis
    by (simp add: mosaicId_create_def mosaicId_toHex_def)
qed

theorem mosaicId_toHex_create:
  assumes "mosaicId_create s = Inr w" and "\<forall>c \<in> set s. is_upper_hex c"
  shows "mosaicId_toHex w = s"
proof -
  from assms(1) obtain n where len: "length s = 16"
    and parse: "parse_digits 16 hex_val 0 s = Some n" and w: "w = word_of_nat n"
    by (auto simp: mosaicId_create_def split: if_splits option.splits)
  from parse_digits_Some [OF parse] obtain ds where lds: "length ds = length s"
    and vals: "\<forall>i < length s. hex_val (s ! i) = Some (ds ! i)" and n: "n = digits_value 16 0 ds"
    by blast
  have small: "\<forall>d \<in> set ds. d < 16"
    using vals lds hex_val_bound by (metis in_set_conv_nth)
  have "n < 16 ^ 16"
    using digits_value_bound [OF _ small] n lds len by simp
  then have "unat w = n"
    by (simp add: w unat_of_nat)
  then have "fixed_digits 16 16 (unat w) = ds"
    using fixed_digits_value [OF small] n lds len by simp
  moreover have "map hex_char ds = s"
  proof (rule nth_equalityI)
    show "length (map hex_char ds) = length s" using lds by simp
  next
    fix i assume "i < length (map hex_char ds)"
    with lds have i: "i < length s" by simp
    with vals assms(2) show "map hex_char ds ! i = s ! i"
      using lds by (simp add: hex_char_hex_val)
  qed
  ultimately show ?thesis by (simp add: mosaicId_toHex_def)
qed

end
