(* ===== verification/Ledger.thy ===== *)
theory Ledger
  imports Codec
begin

text \<open>
  The data the escrow code exchanges with the Symbol ledger and with the SSS signer,
  as the symbol-sdk classes the sources construct and read
  (\<open>TransferTransaction\<close>, \<open>AggregateTransaction\<close>, \<open>HashLockTransaction\<close>,
  \<open>SignedTransaction\<close>, \<open>TransactionStatus\<close>), the protocol constants of
  \<open>consts/blockchainProperty\<close> as a configuration record, and the view of the ledger
  gateway the operations query (a node, its accounts, blocks, bonded transactions).
  Fields that no operation of the sources reads or sets (deadlines, fees, network
  type, signatures) are left out.
\<close>

subsection \<open>Transactions\<close>

record mosaic =
  mosaic_id :: u64
  mosaic_amount :: u64

text \<open>
  A transfer as an inner transaction of an aggregate: \<open>toAggregate(publicAccount)\<close>
  sets its signer; \<open>message.payload\<close> is the plain-message text (\<open>''\<close> for
  \<open>EmptyMessage\<close>).
\<close>

record transfer_tx =
  recipientAddress :: address
  mosaics :: "mosaic list"
  message_payload :: string
  tx_signer :: "address option"

text \<open>
  Inner transactions of bundles found on the ledger need not be transfers: the
  reconstructor casts them (\<open>as TransferTransaction\<close>) and reads \<open>message\<close>, which
  is \<open>undefined\<close> on any other kind.
\<close>

datatype inner_tx = TransferInner transfer_tx | OtherInner

datatype aggregate_type = AggregateBonded | AggregateComplete

record aggregate_tx =
  agg_type :: aggregate_type
  innerTransactions :: "inner_tx list"

record hash_lock_tx =
  lock_mosaic :: mosaic
  lock_duration :: u64
  lock_hash :: hash

datatype unsigned_tx = AggregateTx aggregate_tx | HashLockTx hash_lock_tx

text \<open>What the signer returns: the content hash and the transaction it signed.\<close>

record signed_tx =
  signed_hash :: hash
  signed_of :: unsigned_tx

definition is_bonded :: "unsigned_tx \<Rightarrow> bool" where
  "is_bonded tx = (case tx of AggregateTx a \<Rightarrow> agg_type a = AggregateBonded | HashLockTx _ \<Rightarrow> False)"

text \<open>\<open>TransactionStatus\<close> as the status endpoint returns it.\<close>

record tx_status =
  st_code :: string
  st_group :: string
  st_hash :: hash

definition is_success :: "tx_status \<Rightarrow> bool" where
  "is_success st \<longleftrightarrow> st_code st = ''Success''"

subsection \<open>Protocol constants\<close>

text \<open>
  \<open>consts/blockchainProperty\<close> is not part of the staged sources; its constants are
  parameters of every operation: the currency mosaic, the epoch adjustment (seconds),
  the lock duration (blocks, of 30 seconds each), the service fee rate and the
  service discriminator string.
\<close>

record config =
  currencyMosaicID :: string
  epochAdjustment :: nat
  hashLockTxDuration :: nat
  servieFee :: jsnum
  servieName :: string

subsection \<open>symbol-sdk address parsing\<close>

text \<open>
  \<open>Address.createFromRawAddress\<close> rejects a string that is not 39 characters long
  (the plain form of a Symbol address).
\<close>

definition address_create :: "string \<Rightarrow> error + address" where
  "address_create s = (if length s = 39 then Inr s else Inl InvalidAddress)"

subsection \<open>The ledger gateway\<close>

datatype tx_group = Partial | Confirmed

text \<open>
  A bonded aggregate as \<open>txRepo.search\<close> lists it: its \<open>transactionInfo\<close>, with the
  height of the block that holds it (0 while it waits for cosignatures).
\<close>

record tx_entry =
  entry_hash :: hash
  entry_height :: nat

text \<open>
  What the node answers, as functions of the query: \<open>connectNode\<close> gives the
  URL of a healthy node or \<open>''\<close>; \<open>getAccountInfo\<close> the account's canonical
  address, or a 404; \<open>getChainInfo\<close> the height; \<open>getBlockByHeight\<close> the
  block's timestamp (milliseconds since the network epoch); \<open>search\<close> the bonded
  aggregates of a group involving an address, newest first; \<open>getTransaction\<close>
  the full aggregate of a hash; \<open>/api/fetch-address\<close> the service address.
\<close>

record ledger =
  node_url :: string
  accounts :: "address \<Rightarrow> address option"
  chain_height :: nat
  block_timestamp :: "nat \<Rightarrow> u64 option"
  bonded_search :: "tx_group \<Rightarrow> address \<Rightarrow> tx_entry list"
  tx_detail :: "tx_group \<Rightarrow> hash \<Rightarrow> aggregate_tx option"
  admin_address :: string

definition getAccountInfo :: "ledger \<Rightarrow> string \<Rightarrow> error + address" where
  "getAccountInfo l raw =
     bindE (address_create raw)
       (\<lambda>a. case accounts l a of None \<Rightarrow> Inl AccountNotFound | Some c \<Rightarrow> Inr c)"

definition getBlockTimestamp :: "ledger \<Rightarrow> nat \<Rightarrow> error + u64" where
  "getBlockTimestamp l h = (case block_timestamp l h of None \<Rightarrow> Inl NetworkError | Some t \<Rightarrow> Inr t)"

definition getTransaction :: "ledger \<Rightarrow> tx_group \<Rightarrow> hash \<Rightarrow> error + aggregate_tx" where
  "getTransaction l g h = (case tx_detail l g h of None \<Rightarrow> Inl NetworkError | Some a \<Rightarrow> Inr a)"

lemma address_create_Inr_iff [simp]: "address_create s = Inr a \<longleftrightarrow> length s = 39 \<and> a = s"
  by (auto simp: address_create_def)

end
