(* ===== verification/Reconstructor.thy ===== *)
theory Reconstructor
  imports Ledger
begin

text \<open>
  The escrow reconstructor, \<open>utils/searchEscrow.ts\<close>: it lists the bonded aggregates
  of a party (one page of at most 100, newest first), fetches each one, keeps those
  whose third inner transfer carries the service name, and rebuilds an
  \<open>escrowAggregateTransaction\<close> record (\<open>types/escrowAggregateTransaction.ts\<close>)
  from the three inner transfers by position. Every exception raised while one
  bundle is processed is caught by the loop's \<open>try\<close> and the bundle is skipped.
\<close>

text \<open>
  The record of \<open>types/escrowAggregateTransaction.ts\<close>. \<open>signerAddress\<close> is
  \<open>tx1.signer?.address.plain()\<close>, which optional chaining makes \<open>undefined\<close> when
  the signer is absent; \<open>expirationTime\<close> is \<open>Number(...)\<close>, \<open>NaN\<close> (here
  \<open>None\<close>) on a payload that is not a number.
\<close>

record escrow_record =
  er_recipientAddress :: address
  er_signerAddress :: "address option"
  er_blockCreateTime :: nat
  er_expirationTime :: "nat option"
  er_mosaicId :: string
  er_amount :: nat
  er_price :: jsnum
  er_message :: string
  er_hash :: hash

text \<open>\<open>x as TransferTransaction\<close> followed by a read of a transfer field.\<close>

definition as_transfer :: "inner_tx \<Rightarrow> error + transfer_tx" where
  "as_transfer i = (case i of TransferInner t \<Rightarrow> Inr t | OtherInner \<Rightarrow> Inl UndefinedProperty)"

definition transfer_at :: "inner_tx list \<Rightarrow> nat \<Rightarrow> error + transfer_tx" where
  "transfer_at xs i = bindE (js_at xs i) as_transfer"

text \<open>Lines 48-54: the block time, 0 for a bundle that is not in a block yet.\<close>

definition block_create_time :: "config \<Rightarrow> ledger \<Rightarrow> tx_entry \<Rightarrow> error + nat" where
  "block_create_time cfg l e =
     (if 0 < entry_height e
      then bindE (getBlockTimestamp l (entry_height e)) (\<lambda>ts.
           bindE (compact_u64 ts) (\<lambda>t. Inr (t + epochAdjustment cfg * 1000)))
      else Inr 0)"

text \<open>
  Lines 47-79, the body of the \<open>try\<close>: \<open>Inl\<close> is an exception (the bundle is
  skipped), \<open>Inr None\<close> a bundle without the service name, \<open>Inr (Some r)\<close> the record
  pushed. The node is taken to answer \<open>getTransaction(h)\<close> with the transaction
  whose \<open>transactionInfo.hash\<close> is \<open>h\<close>, so the record's hash is the entry's.
\<close>

definition reconstruct_entry ::
  "config \<Rightarrow> ledger \<Rightarrow> tx_group \<Rightarrow> tx_entry \<Rightarrow> error + escrow_record option" where
  "reconstruct_entry cfg l g e =
     bindE (block_create_time cfg l e) (\<lambda>blockCreateTime.
     bindE (getTransaction l g (entry_hash e)) (\<lambda>txInfo.
     let inner = innerTransactions txInfo in
     bindE (transfer_at inner 2) (\<lambda>tx3.
     if message_payload tx3 = servieName cfg then
       bindE (transfer_at inner 0) (\<lambda>tx1.
       bindE (transfer_at inner 1) (\<lambda>tx2.
       bindE (js_at (mosaics tx2) 0) (\<lambda>m2.
       bindE (compact_u64 (mosaic_amount m2)) (\<lambda>amount.
       bindE (js_at (mosaics tx1) 0) (\<lambda>m1.
       bindE (compact_u64 (mosaic_amount m1)) (\<lambda>pay.
         Inr (Some \<lparr>er_recipientAddress = recipientAddress tx1,
                    er_signerAddress = tx_signer tx1,
                    er_blockCreateTime = blockCreateTime,
                    er_expirationTime = js_Number (message_payload tx1),
                    er_mosaicId = mosaicId_toHex (mosaic_id m2),
                    er_amount = amount,
                    er_price = of_nat pay / 1000000,
                    er_message = message_payload tx2,
                    er_hash = entry_hash e\<rparr>)))))))
     else Inr None)))"

text \<open>Lines 45-81: the loop, pushing in the order of the search result.\<close>

fun search_loop :: "config \<Rightarrow> ledger \<Rightarrow> tx_group \<Rightarrow> tx_entry list \<Rightarrow> escrow_record list" where
  "search_loop cfg l g [] = []"
| "search_loop cfg l g (e # es) =
     (case reconstruct_entry cfg l g e of
        Inr (Some r) \<Rightarrow> r # search_loop cfg l g es
      | _ \<Rightarrow> search_loop cfg l g es)"

text \<open>
  Lines 16-82: \<open>undefined\<close> (here \<open>Inr None\<close>) when no node is reachable, a
  rejected promise (\<open>Inl\<close>) when the party's account cannot be resolved, otherwise
  the records of the first page of the search.
\<close>

definition searchEscrow ::
  "config \<Rightarrow> ledger \<Rightarrow> string \<Rightarrow> tx_group \<Rightarrow> error + escrow_record list option" where
  "searchEscrow cfg l clientAddress g =
     (if node_url l = [] then Inr None
      else bindE (getAccountInfo l clientAddress) (\<lambda>addr.
           Inr (Some (search_loop cfg l g (take 100 (bonded_search l g addr))))))"

subsection \<open>Lemmas\<close>

lemma transfer_at_Inr_iff:
  "transfer_at xs i = Inr t \<longleftrightarrow> i < length xs \<and> xs ! i = TransferInner t"
  by (auto simp: transfer_at_def bindE_eq_Inr_iff js_at_eq_Inr_iff as_transfer_def
      split: inner_tx.splits)

lemma getTransaction_Inr_iff: "getTransaction l g h = Inr a \<longleftrightarrow> tx_detail l g h = Some a"
  by (auto simp: getTransaction_def split: option.splits)

lemma reconstruct_entry_Some:
  assumes "reconstruct_entry cfg l g e = Inr (Some r)"
  shows "\<exists>agg t3. tx_detail l g (entry_hash e) = Some agg \<and>
           transfer_at (innerTransactions agg) 2 = Inr t3 \<and> message_payload t3 = servieName cfg \<and>
           er_hash r = entry_hash e"
  using assms
  by (auto simp: reconstruct_entry_def bindE_eq_Inr_iff getTransaction_Inr_iff Let_def
      split: if_splits)

lemma search_loop_append:
  "search_loop cfg l g (xs @ ys) = search_loop cfg l g xs @ search_loop cfg l g ys"
  by (induction xs) (auto split: sum.splits option.splits)

lemma search_loop_mem:
  "r \<in> set (search_loop cfg l g es) \<Longrightarrow> \<exists>e \<in> set es. reconstruct_entry cfg l g e = Inr (Some r)"
  by (induction es) (auto split: sum.splits option.splits)

lemma search_loop_subseq:
  "subseq (map er_hash (search_loop cfg l g es)) (map entry_hash es)"
proof (induction es)
  case Nil
  then show ?case by simp
next
  case (Cons e es)
  show ?case
  proof (cases "reconstruct_entry cfg l g e")
    case (Inl err)
    with Cons show ?thesis by auto
  next
    case (Inr ro)
    show ?thesis
    proof (cases ro)
      case None
      with Cons Inr show ?thesis by auto
    next
      case (Some r)
      with Inr have "er_hash r = entry_hash e"
        using reconstruct_entry_Some by blast
      with Cons Inr Some show ?thesis by simp
    qed
  qed
qed

lemma length_search_loop: "length (search_loop cfg l g es) \<le> length es"
  by (induction es) (auto split: sum.splits option.splits)

lemma reconstruct_entry_wellformed:
  assumes "tx_detail l g (entry_hash e) = Some agg"
    and "innerTransactions agg = TransferInner t1 # TransferInner t2 # TransferInner t3 # rest"
    and "mosaics t1 = m1 # ms1" and "mosaics t2 = m2 # ms2"
    and "unat (mosaic_amount m1) < 2 ^ 53" and "unat (mosaic_amount m2) < 2 ^ 53"
    and "message_payload t3 = servieName cfg"
    and "block_create_time cfg l e = Inr bt"
  shows "reconstruct_entry cfg l g e = Inr (Some
           \<lparr>er_recipientAddress = recipientAddress t1, er_signerAddress = tx_signer t1,
            er_blockCreateTime = bt, er_expirationTime = js_Number (message_payload t1),
            er_mosaicId = mosaicId_toHex (mosaic_id m2), er_amount = unat (mosaic_amount m2),
            er_price = of_nat (unat (mosaic_amount m1)) / 1000000,
            er_message = message_payload t2, er_hash = entry_hash e\<rparr>)"
  using assms
  by (simp add: reconstruct_entry_def transfer_at_def as_transfer_def getTransaction_def Let_def js_at_def
      compact_u64_def)

lemma search_loop_mem_intro:
  "e \<in> set es \<Longrightarrow> reconstruct_entry cfg l g e = Inr (Some r) \<Longrightarrow> r \<in> set (search_loop cfg l g es)"
  by (induction es) (auto split: sum.splits option.splits)

lemma price_of_compact:
  assumes "n < 2 ^ 53"
  shows "0 \<le> (of_nat n :: jsnum) / 1000000 \<and> (of_nat n :: jsnum) / 1000000 * 1000000 < 2 ^ 53"
proof -
  have "(of_nat n :: jsnum) < of_nat (2 ^ 53)" using assms by (simp only: of_nat_less_iff)
  then show ?thesis by simp
qed

lemma reconstruct_entry_typed:
  assumes "reconstruct_entry cfg l g e = Inr (Some r)"
  shows "length (er_mosaicId r) = 16 \<and> (\<forall>c \<in> set (er_mosaicId r). is_upper_hex c)
         \<and> er_amount r < 2 ^ 53 \<and> 0 \<le> er_price r \<and> er_price r * 1000000 < 2 ^ 53"
proof -
  have "length (er_mosaicId r) = 16 \<and> (\<forall>c \<in> set (er_mosaicId r). is_upper_hex c)"
    using assms by (auto simp: reconstruct_entry_def bindE_eq_Inr_iff Let_def mosaicId_toHex_typed
      split: if_splits)
  moreover have "er_amount r < 2 ^ 53"
    using assms by (auto simp: reconstruct_entry_def bindE_eq_Inr_iff Let_def
      dest!: compact_Inr_bound split: if_splits)
  moreover have "0 \<le> er_price r \<and> er_price r * 1000000 < 2 ^ 53"
    using assms by (auto simp: reconstruct_entry_def bindE_eq_Inr_iff Let_def price_of_compact
      simp del: of_nat_unat dest!: compact_Inr_bound split: if_splits)
  ultimately show ?thesis by blast
qed

subsection \<open>Properties of the search\<close>

text \<open>
  \<open>searchEscrow\<close> returns \<open>undefined\<close> exactly when no node is
  reachable; a search that reached a node returns a list (possibly empty) or rejects,
  so a caller can tell "could not search" from "found nothing".
\<close>

theorem searchEscrow_undefined_iff:
  "searchEscrow cfg l c g = Inr None \<longleftrightarrow> node_url l = []"
  by (auto simp: searchEscrow_def bindE_eq_Inr_iff)

text \<open>
  A bundle whose processing throws (missing inner transaction, a
  non-transfer, no mosaic, an amount past 2^53, an unreachable block or transaction)
  is skipped and the scan goes on: the records are those of the bundles before it
  followed by those after it.
\<close>

theorem search_loop_skips_failed:
  assumes "isl (reconstruct_entry cfg l g e)"
  shows "search_loop cfg l g (xs @ e # ys) = search_loop cfg l g xs @ search_loop cfg l g ys"
  using assms by (auto simp: search_loop_append split: sum.splits)

text \<open>
  Claim C14: every record the search returns comes from a bundle of the first page of
  the party's bonded aggregates whose third inner transaction is a transfer carrying
  the service name, and carries that bundle's hash.
\<close>

theorem searchEscrow_records_marked:
  assumes "searchEscrow cfg l c g = Inr (Some rs)" and "r \<in> set rs"
  shows "\<exists>addr e agg t3. getAccountInfo l c = Inr addr \<and> e \<in> set (take 100 (bonded_search l g addr)) \<and>
           er_hash r = entry_hash e \<and> tx_detail l g (entry_hash e) = Some agg \<and>
           2 < length (innerTransactions agg) \<and> innerTransactions agg ! 2 = TransferInner t3 \<and>
           message_payload t3 = servieName cfg"
proof -
  from assms(1) obtain addr where addr: "getAccountInfo l c = Inr addr"
    and rs: "rs = search_loop cfg l g (take 100 (bonded_search l g addr))"
    by (auto simp: searchEscrow_def bindE_eq_Inr_iff split: if_splits)
  from search_loop_mem [of r] assms(2) rs obtain e where
    e: "e \<in> set (take 100 (bonded_search l g addr))" and re: "reconstruct_entry cfg l g e = Inr (Some r)"
    by blast
  from reconstruct_entry_Some [OF re] addr e show ?thesis
    by (auto simp: transfer_at_Inr_iff)
qed

text \<open>
  Claim C38: the search returns at most 100 records, in the ledger's order: their
  hashes form a subsequence of the hashes the ledger lists for the party.
\<close>

theorem searchEscrow_page_order:
  assumes "searchEscrow cfg l c g = Inr (Some rs)"
  shows "length rs \<le> 100 \<and>
         (\<exists>addr. getAccountInfo l c = Inr addr \<and> subseq (map er_hash rs) (map entry_hash (bonded_search l g addr)))"
proof -
  from assms obtain addr where addr: "getAccountInfo l c = Inr addr"
    and rs: "rs = search_loop cfg l g (take 100 (bonded_search l g addr))"
    by (auto simp: searchEscrow_def bindE_eq_Inr_iff split: if_splits)
  have "length rs \<le> 100"
    using rs length_search_loop [of cfg l g "take 100 (bonded_search l g addr)"] by simp
  moreover have "subseq (map er_hash rs) (map entry_hash (take 100 (bonded_search l g addr)))"
    using rs search_loop_subseq by simp
  then have "subseq (map er_hash rs) (map entry_hash (bonded_search l g addr))"
    by (metis subseq_order.dual_order.trans take_map prefix_imp_subseq take_is_prefix)
  ultimately show ?thesis using addr by blast
qed

text \<open>
  Claim C3: a bundle of the first page whose three first inner transactions are
  transfers, each of the first two with a mosaic whose amount fits 53 bits, and whose
  third carries the service name, always yields its record, read off the transfers
  by position.
\<close>

theorem searchEscrow_finds_wellformed:
  assumes "node_url l \<noteq> []" and "getAccountInfo l c = Inr addr"
    and "e \<in> set (take 100 (bonded_search l g addr))"
    and "tx_detail l g (entry_hash e) = Some agg"
    and "innerTransactions agg = TransferInner t1 # TransferInner t2 # TransferInner t3 # rest"
    and "mosaics t1 = m1 # ms1" and "mosaics t2 = m2 # ms2"
    and "unat (mosaic_amount m1) < 2 ^ 53" and "unat (mosaic_amount m2) < 2 ^ 53"
    and "message_payload t3 = servieName cfg"
    and "block_create_time cfg l e = Inr bt"
  shows "\<exists>rs. searchEscrow cfg l c g = Inr (Some rs) \<and>
           \<lparr>er_recipientAddress = recipientAddress t1, er_signerAddress = tx_signer t1,
            er_blockCreateTime = bt, er_expirationTime = js_Number (message_payload t1),
            er_mosaicId = mosaicId_toHex (mosaic_id m2), er_amount = unat (mosaic_amount m2),
            er_price = of_nat (unat (mosaic_amount m1)) / 1000000,
            er_message = message_payload t2, er_hash = entry_hash e\<rparr> \<in> set rs"
proof -
  have "reconstruct_entry cfg l g e = Inr (Some
           \<lparr>er_recipientAddress = recipientAddress t1, er_signerAddress = tx_signer t1,
            er_blockCreateTime = bt, er_expirationTime = js_Number (message_payload t1),
            er_mosaicId = mosaicId_toHex (mosaic_id m2), er_amount = unat (mosaic_amount m2),
            er_price = of_nat (unat (mosaic_amount m1)) / 1000000,
            er_message = message_payload t2, er_hash = entry_hash e\<rparr>)"
    using assms(4-) by (rule reconstruct_entry_wellformed)
  with assms(3) have "\<lparr>er_recipientAddress = recipientAddress t1, er_signerAddress = tx_signer t1,
            er_blockCreateTime = bt, er_expirationTime = js_Number (message_payload t1),
            er_mosaicId = mosaicId_toHex (mosaic_id m2), er_amount = unat (mosaic_amount m2),
            er_price = of_nat (unat (mosaic_amount m1)) / 1000000,
            er_message = message_payload t2, er_hash = entry_hash e\<rparr>
        \<in> set (search_loop cfg l g (take 100 (bonded_search l g addr)))"
    by (rule search_loop_mem_intro)
  with assms(1,2) show ?thesis by (simp add: searchEscrow_def)
qed


text \<open>
  Claim C27: every record the search returns is well formed: its asset id is 16
  upper-case hexadecimal digits (as \<open>toHex\<close> prints it), its amount is below 2^53,
  and its price is non-negative with a micro-unit value below 2^53 (what
  \<open>UInt64.compact\<close> lets through).
\<close>

theorem searchEscrow_records_typed:
  assumes "searchEscrow cfg l c g = Inr (Some rs)" and "r \<in> set rs"
  shows "length (er_mosaicId r) = 16 \<and> (\<forall>ch \<in> set (er_mosaicId r). is_upper_hex ch)
         \<and> er_amount r < 2 ^ 53 \<and> 0 \<le> er_price r \<and> er_price r * 1000000 < 2 ^ 53"
proof -
  from assms(1) obtain addr where "rs = search_loop cfg l g (take 100 (bonded_search l g addr))"
    by (auto simp: searchEscrow_def bindE_eq_Inr_iff split: if_splits)
  with search_loop_mem [of r] assms(2) obtain e where "reconstruct_entry cfg l g e = Inr (Some r)"
    by blast
  then show ?thesis by (rule reconstruct_entry_typed)
qed

end
