(* ===== verification/Builder.thy ===== *)
theory Builder
  imports Ledger
begin

text \<open>
  The transaction builder: the three-transfer bonded aggregate and the hash lock
  (collateral) that \<open>utils/requestEscrowWithSSS.ts\<close> constructs, the expiration
  instant it writes into the payment, and the older construction of
  \<open>utils/escrowRequestWithSSS.ts\<close> that the \<open>/escrow-request\<close> page still calls.
  Each \<open>new MosaicId\<close>, \<open>UInt64.fromUint\<close> and \<open>Address.createFromRawAddress\<close> may
  throw; the definitions evaluate them in the order the JavaScript evaluates the
  arguments, so the first failing one is the error returned.
\<close>

definition transfer_create :: "address \<Rightarrow> mosaic list \<Rightarrow> string \<Rightarrow> transfer_tx" where
  "transfer_create recipient ms payload =
     \<lparr>recipientAddress = recipient, mosaics = ms, message_payload = payload, tx_signer = None\<rparr>"

definition toAggregate :: "transfer_tx \<Rightarrow> address \<Rightarrow> inner_tx" where
  "toAggregate tx signer = TransferInner (tx\<lparr>tx_signer := Some signer\<rparr>)"

text \<open>
  \<open>currentTime = blockInfo.timestamp.compact() + epochAdjustment * 1000\<close> and
  \<open>expirationTime = hashLockTxDuration * 30 * 1000 + currentTime\<close>: the lock's
  lifetime in blocks of 30 seconds, added to the wall-clock time of the chain's last
  block, in milliseconds.
\<close>

definition escrow_expiration :: "config \<Rightarrow> u64 \<Rightarrow> error + nat" where
  "escrow_expiration cfg ts =
     bindE (compact_u64 ts) (\<lambda>t.
       Inr (hashLockTxDuration cfg * 30 * 1000 + (t + epochAdjustment cfg * 1000)))"

text \<open>
  \<open>requestEscrowWithSSS\<close>, lines 72-117: \<open>tx1\<close> pays the price (in micro-units of
  the currency) from the client to the target with the expiration instant as its
  message; \<open>tx2\<close> moves \<open>amount\<close> of the traded mosaic from the target to the
  client with the free-text message; \<open>tx3\<close> pays the fee (price times the fee rate)
  from the client to the service address with the service name as its message.
\<close>

definition build_escrow_aggregate ::
  "config \<Rightarrow> address \<Rightarrow> address \<Rightarrow> string \<Rightarrow> string \<Rightarrow> jsnum \<Rightarrow> jsnum \<Rightarrow> string \<Rightarrow> nat
     \<Rightarrow> error + aggregate_tx" where
  "build_escrow_aggregate cfg client target admin mosaicId amount price message expirationTime =
     bindE (mosaicId_create (currencyMosaicID cfg)) (\<lambda>cur.
     bindE (fromUint (price * 1000000)) (\<lambda>pay.
     bindE (mosaicId_create mosaicId) (\<lambda>mid.
     bindE (fromUint amount) (\<lambda>amt.
     bindE (address_create admin) (\<lambda>adm.
     bindE (fromUint (price * servieFee cfg * 1000000)) (\<lambda>fee.
       let tx1 = transfer_create target [\<lparr>mosaic_id = cur, mosaic_amount = pay\<rparr>]
                   (num_toString expirationTime);
           tx2 = transfer_create client [\<lparr>mosaic_id = mid, mosaic_amount = amt\<rparr>] message;
           tx3 = transfer_create adm [\<lparr>mosaic_id = cur, mosaic_amount = fee\<rparr>] (servieName cfg)
       in Inr \<lparr>agg_type = AggregateBonded,
               innerTransactions = [toAggregate tx1 client, toAggregate tx2 target,
                                    toAggregate tx3 client]\<rparr>))))))"

text \<open>
  \<open>escrowRequestWithSSS\<close>, lines 61-111: the same three transfers with the currency
  id, the fee rate 0.1 written as literals, and empty messages on \<open>tx1\<close> and
  \<open>tx3\<close>.
\<close>

definition legacy_currency :: string where
  "legacy_currency = ''72C0212E67A08BCE''"

definition build_escrow_aggregate_legacy ::
  "address \<Rightarrow> address \<Rightarrow> string \<Rightarrow> string \<Rightarrow> jsnum \<Rightarrow> jsnum \<Rightarrow> string \<Rightarrow> error + aggregate_tx" where
  "build_escrow_aggregate_legacy client target admin mosaicId amount price message =
     bindE (mosaicId_create legacy_currency) (\<lambda>cur.
     bindE (fromUint (price * 1000000)) (\<lambda>pay.
     bindE (mosaicId_create mosaicId) (\<lambda>mid.
     bindE (fromUint amount) (\<lambda>amt.
     bindE (address_create admin) (\<lambda>adm.
     bindE (fromUint (price * (1/10) * 1000000)) (\<lambda>fee.
       let tx1 = transfer_create target [\<lparr>mosaic_id = cur, mosaic_amount = pay\<rparr>] [];
           tx2 = transfer_create client [\<lparr>mosaic_id = mid, mosaic_amount = amt\<rparr>] message;
           tx3 = transfer_create adm [\<lparr>mosaic_id = cur, mosaic_amount = fee\<rparr>] []
       in Inr \<lparr>agg_type = AggregateBonded,
               innerTransactions = [toAggregate tx1 client, toAggregate tx2 target,
                                    toAggregate tx3 client]\<rparr>))))))"

text \<open>
  \<open>HashLockTransaction.create\<close> (lines 124-133 of \<open>requestEscrowWithSSS\<close>, 118-124 of
  \<open>escrowRequestWithSSS\<close>): a stake of 10 currency units locked for a duration,
  naming the signed aggregate by its hash; symbol-sdk refuses a signed transaction
  that is not an aggregate bonded one.
\<close>

definition build_hash_lock :: "string \<Rightarrow> nat \<Rightarrow> signed_tx \<Rightarrow> error + hash_lock_tx" where
  "build_hash_lock cur_id duration stx =
     bindE (mosaicId_create cur_id) (\<lambda>cur.
     bindE (fromUint (10 * 1000000)) (\<lambda>stake.
     bindE (fromUint (of_nat duration)) (\<lambda>dur.
       if is_bonded (signed_of stx)
       then Inr \<lparr>lock_mosaic = \<lparr>mosaic_id = cur, mosaic_amount = stake\<rparr>,
                 lock_duration = dur, lock_hash = signed_hash stx\<rparr>
       else Inl NotAggregateBonded)))"

subsection \<open>The bundle the builder produces\<close>

text \<open>
  The builder succeeds exactly when every conversion it calls succeeds, and then
  produces the three transfers below; all builder properties are read off these
  characterisations.
\<close>

lemma build_escrow_aggregate_eq_Inr:
  "build_escrow_aggregate cfg client target admin mid amount price message expiry = Inr agg \<longleftrightarrow>
    (\<exists>cur m. mosaicId_create (currencyMosaicID cfg) = Inr cur \<and> mosaicId_create mid = Inr m \<and>
       0 \<le> price \<and> 0 \<le> amount \<and> length admin = 39 \<and> 0 \<le> price * servieFee cfg \<and>
       agg = \<lparr>agg_type = AggregateBonded, innerTransactions =
         [TransferInner \<lparr>recipientAddress = target,
            mosaics = [\<lparr>mosaic_id = cur, mosaic_amount = word_of_nat (nat \<lfloor>price * 1000000\<rfloor>)\<rparr>],
            message_payload = num_toString expiry, tx_signer = Some client\<rparr>,
          TransferInner \<lparr>recipientAddress = client,
            mosaics = [\<lparr>mosaic_id = m, mosaic_amount = word_of_nat (nat \<lfloor>amount\<rfloor>)\<rparr>],
            message_payload = message, tx_signer = Some target\<rparr>,
          TransferInner \<lparr>recipientAddress = admin,
            mosaics = [\<lparr>mosaic_id = cur,
                        mosaic_amount = word_of_nat (nat \<lfloor>price * servieFee cfg * 1000000\<rfloor>)\<rparr>],
            message_payload = servieName cfg, tx_signer = Some client\<rparr>]\<rparr>)"
  by (auto simp: build_escrow_aggregate_def bindE_eq_Inr_iff fromUint_Inr_iff Let_def
      transfer_create_def toAggregate_def zero_le_mult_iff)

lemma build_escrow_aggregate_legacy_eq_Inr:
  "build_escrow_aggregate_legacy client target admin mid amount price message = Inr agg \<longleftrightarrow>
    (\<exists>cur m. mosaicId_create legacy_currency = Inr cur \<and> mosaicId_create mid = Inr m \<and>
       0 \<le> price \<and> 0 \<le> amount \<and> length admin = 39 \<and>
       agg = \<lparr>agg_type = AggregateBonded, innerTransactions =
         [TransferInner \<lparr>recipientAddress = target,
            mosaics = [\<lparr>mosaic_id = cur, mosaic_amount = word_of_nat (nat \<lfloor>price * 1000000\<rfloor>)\<rparr>],
            message_payload = [], tx_signer = Some client\<rparr>,
          TransferInner \<lparr>recipientAddress = client,
            mosaics = [\<lparr>mosaic_id = m, mosaic_amount = word_of_nat (nat \<lfloor>amount\<rfloor>)\<rparr>],
            message_payload = message, tx_signer = Some target\<rparr>,
          TransferInner \<lparr>recipientAddress = admin,
            mosaics = [\<lparr>mosaic_id = cur,
                        mosaic_amount = word_of_nat (nat \<lfloor>price * (1/10) * 1000000\<rfloor>)\<rparr>],
            message_payload = [], tx_signer = Some client\<rparr>]\<rparr>)"
  by (auto simp: build_escrow_aggregate_legacy_def bindE_eq_Inr_iff fromUint_Inr_iff Let_def
      transfer_create_def toAggregate_def)

lemma build_hash_lock_eq_Inr:
  "build_hash_lock cur_id duration stx = Inr lock \<longleftrightarrow>
    (\<exists>cur. mosaicId_create cur_id = Inr cur \<and> is_bonded (signed_of stx) \<and>
       lock = \<lparr>lock_mosaic = \<lparr>mosaic_id = cur, mosaic_amount = word_of_nat 10000000\<rparr>,
               lock_duration = word_of_nat duration, lock_hash = signed_hash stx\<rparr>)"
  by (auto simp: build_hash_lock_def bindE_eq_Inr_iff fromUint_Inr_iff)

text \<open>What a failing conversion implies, and the empty messages of the legacy bundle.\<close>

lemma build_escrow_aggregate_NegativeUInt:
  assumes "build_escrow_aggregate cfg client target admin mid amount price message expiry = Inl NegativeUInt"
  shows "price < 0 \<or> amount < 0 \<or> price * servieFee cfg < 0"
  using assms
  by (auto simp: build_escrow_aggregate_def bindE_eq_Inl_iff fromUint_def mosaicId_create_def
      address_create_def split: if_splits sum.splits option.splits)

lemma build_fails_on_mosaic:
  assumes "isl (mosaicId_create mid)"
  shows "build_escrow_aggregate cfg client target admin mid amount price message expiry \<noteq> Inr agg"
  using assms unfolding build_escrow_aggregate_eq_Inr by auto

lemma build_legacy_tx3:
  assumes "build_escrow_aggregate_legacy client target admin mid amount price message = Inr agg"
  shows "\<exists>t1 t2 t3. innerTransactions agg = [TransferInner t1, TransferInner t2, TransferInner t3]
           \<and> message_payload t3 = []"
  using assms unfolding build_escrow_aggregate_legacy_eq_Inr by auto

subsection \<open>Properties of the builder\<close>



text \<open>
  The hash lock the code creates locks 10 units (10000000 micro-units) of
  the currency for the configured number of blocks, on the hash of the signed bundle,
  and is only created for a signed aggregate-bonded transaction.
\<close>

theorem build_hash_lock_names_bundle:
  assumes "build_hash_lock cur_id duration stx = Inr lock"
  shows "lock_hash lock = signed_hash stx \<and> is_bonded (signed_of stx) \<and>
         unat (mosaic_amount (lock_mosaic lock)) = 10000000 \<and>
         unat (lock_duration lock) = duration mod 2 ^ 64"
  using assms by (auto simp: build_hash_lock_eq_Inr unat_word_of_nat_u64)

text \<open>
  \<open>HashLockTransaction.create\<close> throws when the signed transaction is not
  an aggregate-bonded one.
\<close>

theorem build_hash_lock_refuses_unbonded:
  assumes "mosaicId_create cur_id = Inr cur" and "\<not> is_bonded (signed_of stx)"
  shows "build_hash_lock cur_id duration stx = Inl NotAggregateBonded"
  using assms by (simp add: build_hash_lock_def fromUint_def)

text \<open>The expiration time in closed form, for the round trip through the reconstructor.\<close>

lemma escrow_expiration_eq:
  "escrow_expiration cfg ts =
     (if 2 ^ 53 \<le> unat ts then Inl CompactOverflow
      else Inr (hashLockTxDuration cfg * 30000 + epochAdjustment cfg * 1000 + unat ts))"
  by (simp add: escrow_expiration_def compact_u64_def)

end
