(* ===== verification/Tracker.thy ===== *)
theory Tracker
  imports Ledger
begin

text \<open>
  The confirmation tracker: the race the sources write out three times
  (\<open>requestEscrowWithSSS.ts\<close> lines 146-163 for the hash lock and 178-195 for the
  bonded bundle, \<open>cosignedEscrowWithSSS.ts\<close> lines 48-69 for the cosignature):
  \<^verbatim>\<open>
  await listener.open();
  status = await new Promise((resolve) => {
    listener.confirmed(addr, hash).subscribe(async () => {      // event branch
      const response = await getTransactionStatus(hash);
      listener.close(); resolve(response); });
    setTimeout(async function () {                              // poll branch
      const response = await getTransactionStatus(hash);
      if (response.code !== 'Success') { listener.close(); resolve(response); }
    }, 1000);
  });
  \<close>
  The race is a state (the promise's single-assignment result, the listener, the
  pending status requests, the timer) and an event-driven step function. The events
  are what the environment does: the node pushes a WebSocket message, a status
  request answers (or fails: the async callback then rejects and nothing else
  happens), the timer fires. The environment's choice of event order is the
  interleaving of the two branches.
\<close>

datatype channel = ConfirmedAdded | AggregateBondedAdded

text \<open>What \<open>listener.confirmed(addr, hash)\<close> or \<open>aggregateBondedAdded(addr, hash)\<close> filters on.\<close>

record watch =
  w_channel :: channel
  w_address :: address
  w_hash :: hash

datatype fetch_reply = Fetched tx_status | FetchFailed

datatype race_event =
    Message channel address hash    \<comment> \<open>a WebSocket message pushed by the node\<close>
  | HandlerReply fetch_reply        \<comment> \<open>the event handler's status request answers\<close>
  | TimerFires                      \<comment> \<open>the 1000 ms \<open>setTimeout\<close> callback starts\<close>
  | PollReply fetch_reply           \<comment> \<open>the timer callback's status request answers\<close>

datatype timer_phase = Armed | Polling | Done

record race =
  race_watch :: watch
  outcome :: "tx_status option"   \<comment> \<open>the promise: \<open>None\<close> while pending\<close>
  listening :: bool               \<comment> \<open>the listener is open\<close>
  closes :: nat                   \<comment> \<open>calls of \<open>listener.close()\<close>\<close>
  handlers :: nat                 \<comment> \<open>event handlers awaiting their status reply\<close>
  timer :: timer_phase
  late_fetches :: nat             \<comment> \<open>status requests issued after the promise resolved\<close>

text \<open>\<open>resolve\<close> of a JavaScript promise: only the first call has an effect.\<close>

fun resolve :: "tx_status option \<Rightarrow> tx_status \<Rightarrow> tx_status option" where
  "resolve None st = Some st"
| "resolve (Some s) st = Some s"

definition race_init :: "watch \<Rightarrow> race" where
  "race_init w = \<lparr>race_watch = w, outcome = None, listening = True, closes = 0,
                   handlers = 0, timer = Armed, late_fetches = 0\<rparr>"

definition matches :: "watch \<Rightarrow> channel \<Rightarrow> address \<Rightarrow> hash \<Rightarrow> bool" where
  "matches w c a h \<longleftrightarrow> w_channel w = c \<and> w_address w = a \<and> w_hash w = h"

definition issue_fetch :: "race \<Rightarrow> race" where
  "issue_fetch r = (if outcome r = None then r else r\<lparr>late_fetches := Suc (late_fetches r)\<rparr>)"

definition close_and_resolve :: "race \<Rightarrow> tx_status \<Rightarrow> race" where
  "close_and_resolve r st =
     r\<lparr>listening := False, closes := Suc (closes r), outcome := resolve (outcome r) st\<rparr>"

text \<open>
  An event that cannot occur in a state (a reply nobody waits for, a second firing
  of the timer, a message on a closed listener) leaves the state unchanged.
\<close>

fun race_step :: "race \<Rightarrow> race_event \<Rightarrow> race" where
  "race_step r (Message c a h) =
     (if listening r \<and> matches (race_watch r) c a h
      then issue_fetch (r\<lparr>handlers := Suc (handlers r)\<rparr>) else r)"
| "race_step r (HandlerReply rep) =
     (if handlers r = 0 then r
      else case rep of
        FetchFailed \<Rightarrow> r\<lparr>handlers := handlers r - 1\<rparr>
      | Fetched st \<Rightarrow> close_and_resolve (r\<lparr>handlers := handlers r - 1\<rparr>) st)"
| "race_step r TimerFires =
     (if timer r = Armed then issue_fetch (r\<lparr>timer := Polling\<rparr>) else r)"
| "race_step r (PollReply rep) =
     (if timer r \<noteq> Polling then r
      else case rep of
        FetchFailed \<Rightarrow> r\<lparr>timer := Done\<rparr>
      | Fetched st \<Rightarrow>
          if st_code st \<noteq> ''Success'' then close_and_resolve (r\<lparr>timer := Done\<rparr>) st
          else r\<lparr>timer := Done\<rparr>)"

definition race_run :: "race \<Rightarrow> race_event list \<Rightarrow> race" where
  "race_run r evs = foldl race_step r evs"

text \<open>The tracker's result: the value the awaited promise settles to, if it does.\<close>

definition track :: "watch \<Rightarrow> race_event list \<Rightarrow> tx_status option" where
  "track w evs = outcome (race_run (race_init w) evs)"

inductive race_reach :: "watch \<Rightarrow> race \<Rightarrow> bool" for w where
  start: "race_reach w (race_init w)"
| step: "race_reach w r \<Longrightarrow> race_reach w (race_step r e)"

text \<open>
  The invariant of the race: the promise is pending exactly while the listener has
  never been closed and is still open, and no status request is counted as late
  before the promise settles.
\<close>

definition race_inv :: "race \<Rightarrow> bool" where
  "race_inv r \<longleftrightarrow> (outcome r = None \<longleftrightarrow> closes r = 0) \<and> (listening r \<longleftrightarrow> closes r = 0)
     \<and> (outcome r = None \<longrightarrow> late_fetches r = 0)"

text \<open>
  An event is quiet for a watch when it is not the watched WebSocket message and is
  not a poll reply with a failure code: such events never settle a race that has no
  event handler in flight.
\<close>

definition quiet_for :: "watch \<Rightarrow> race_event \<Rightarrow> bool" where
  "quiet_for w e \<longleftrightarrow> e \<noteq> Message (w_channel w) (w_address w) (w_hash w) \<and>
     (\<forall>st. e = PollReply (Fetched st) \<longrightarrow> is_success st)"

subsection \<open>Lemmas on runs\<close>

lemmas race_defs = issue_fetch_def close_and_resolve_def matches_def

lemma resolve_Some_iff: "resolve r st = Some s \<longleftrightarrow> (r = None \<and> s = st) \<or> r = Some s"
  by (cases r) auto

lemma race_step_watch [simp]: "race_watch (race_step r e) = race_watch r"
  by (cases e) (auto simp: race_defs split: fetch_reply.splits)

lemma race_run_Cons [simp]: "race_run r (e # evs) = race_run (race_step r e) evs"
  by (simp add: race_run_def)

lemma race_run_Nil [simp]: "race_run r [] = r"
  by (simp add: race_run_def)

lemma race_run_append: "race_run r (evs @ later) = race_run (race_run r evs) later"
  by (simp add: race_run_def)

lemma race_run_watch [simp]: "race_watch (race_run r evs) = race_watch r"
  by (induction evs arbitrary: r) simp_all

lemma race_step_keeps_outcome: "outcome r = Some s \<Longrightarrow> outcome (race_step r e) = Some s"
  by (cases e) (auto simp: race_defs split: fetch_reply.splits)

lemma race_run_keeps_outcome: "outcome r = Some s \<Longrightarrow> outcome (race_run r evs) = Some s"
  by (induction evs arbitrary: r) (simp_all add: race_step_keeps_outcome)

lemma race_inv_init: "race_inv (race_init w)"
  by (simp add: race_inv_def race_init_def)

lemma race_inv_step: "race_inv r \<Longrightarrow> race_inv (race_step r e)"
  by (cases e) (auto simp: race_inv_def race_defs resolve_Some_iff split: fetch_reply.splits)

lemma race_reach_inv: "race_reach w r \<Longrightarrow> race_inv r"
  by (induction rule: race_reach.induct) (auto intro: race_inv_init race_inv_step)

lemma race_reach_run: "race_reach w r \<Longrightarrow> race_reach w (race_run r evs)"
  by (induction evs arbitrary: r) (auto intro: race_reach.step)

lemma race_step_outcome_source:
  "outcome (race_step r e) = Some st \<Longrightarrow>
     outcome r = Some st \<or> e = HandlerReply (Fetched st) \<or>
     (e = PollReply (Fetched st) \<and> \<not> is_success st)"
  by (cases e)
     (auto simp: race_defs is_success_def resolve_Some_iff split: fetch_reply.splits if_splits)

lemma race_run_outcome_source:
  "outcome (race_run r evs) = Some st \<Longrightarrow>
     outcome r = Some st \<or> HandlerReply (Fetched st) \<in> set evs \<or>
     (PollReply (Fetched st) \<in> set evs \<and> \<not> is_success st)"
proof (induction evs arbitrary: r)
  case Nil
  then show ?case by simp
next
  case (Cons e evs)
  then have "outcome (race_step r e) = Some st \<or> HandlerReply (Fetched st) \<in> set evs \<or>
     (PollReply (Fetched st) \<in> set evs \<and> \<not> is_success st)" by simp
  then show ?case using race_step_outcome_source by fastforce
qed

lemma race_step_quiet:
  "outcome r = None \<Longrightarrow> handlers r = 0 \<Longrightarrow> quiet_for (race_watch r) e \<Longrightarrow>
     outcome (race_step r e) = None \<and> handlers (race_step r e) = 0"
  by (cases e) (auto simp: race_defs quiet_for_def is_success_def split: fetch_reply.splits)

lemma race_run_quiet:
  "outcome r = None \<Longrightarrow> handlers r = 0 \<Longrightarrow> \<forall>e \<in> set evs. quiet_for (race_watch r) e \<Longrightarrow>
     outcome (race_run r evs) = None"
proof (induction evs arbitrary: r)
  case Nil
  then show ?case by simp
next
  case (Cons e evs)
  then have "outcome (race_step r e) = None \<and> handlers (race_step r e) = 0"
    by (intro race_step_quiet) auto
  with Cons show ?case by simp
qed

lemma track_Cons_Cons_settled:
  "outcome (race_step (race_step (race_init w) e1) e2) = Some st \<Longrightarrow>
     track w (e1 # e2 # evs) = Some st"
  by (simp add: track_def race_run_keeps_outcome)

lemma track_event_settles:
  "matches w c a h \<Longrightarrow> track w (Message c a h # HandlerReply (Fetched st) # evs) = Some st"
  by (rule track_Cons_Cons_settled) (simp add: race_init_def race_defs)

subsection \<open>Properties of the race\<close>

text \<open>
  Claim C5: when the watched message arrives and the event handler's status request
  answers, the tracker settles to that status, whatever happens afterwards (the
  timer's later poll cannot change it).
\<close>

theorem track_event_branch:
  "track w (Message (w_channel w) (w_address w) (w_hash w) # HandlerReply (Fetched st) # evs) = Some st"
  by (rule track_event_settles) (simp add: matches_def)

text \<open>
  Claim C32: when the timer fires first and its status request answers with a code
  other than \<open>Success\<close>, the tracker settles to that failure status.
\<close>

theorem track_poll_failure:
  assumes "\<not> is_success st"
  shows "track w (TimerFires # PollReply (Fetched st) # evs) = Some st"
  by (rule track_Cons_Cons_settled) (use assms in \<open>simp add: race_init_def race_defs is_success_def\<close>)

text \<open>
  The value the tracker settles to is a status one of the two branches
  fetched: the event handler's reply, or a failure reply of the poll.
\<close>

theorem track_result_was_fetched:
  assumes "track w evs = Some st"
  shows "HandlerReply (Fetched st) \<in> set evs \<or> (PollReply (Fetched st) \<in> set evs \<and> \<not> is_success st)"
  using race_run_outcome_source [of "race_init w" evs st] assms
  by (simp add: track_def race_init_def)

text \<open>
  Claim C6: once settled, the result is final: any further events leave the settled
  value unchanged (the single-assignment promise).
\<close>

theorem track_settled_value_final:
  assumes "track w evs = Some st"
  shows "track w (evs @ later) = Some st"
  using assms by (simp add: track_def race_run_append race_run_keeps_outcome)

text \<open>
  Claim C9: the tracker never settles without the watched message when the poll only
  sees \<open>Success\<close> (the transaction is still pending, or already confirmed) or cannot
  reach the node: the awaited promise then stays pending for ever. The spec asks for
  an \<open>Undetermined\<close> outcome; the code announces before it subscribes, so a
  confirmation pushed in between is never delivered.
\<close>

theorem track_hangs_without_event:
  assumes "\<forall>e \<in> set evs. quiet_for w e"
  shows "track w evs = None"
  using assms unfolding track_def
  by (intro race_run_quiet) (simp_all add: race_init_def)

text \<open>
  Claim C33: in every reachable state of the race the listener is open exactly while
  the promise is pending, and has been closed at least once after it settles.
\<close>

theorem race_reach_closed_iff_settled:
  assumes "race_reach w r"
  shows "(outcome r = None \<longleftrightarrow> listening r) \<and> (outcome r = None \<longleftrightarrow> closes r = 0)"
  using race_reach_inv [OF assms] by (auto simp: race_inv_def)



end
