(* ===== verification/Orchestrator.thy ===== *)
theory Orchestrator
  imports Builder Tracker
begin

text \<open>
  The escrow orchestrator: the three async functions of \<open>utils/\<close> that drive the
  signer and the ledger, \<open>requestEscrowWithSSS\<close> (create an escrow: build the bundle,
  sign it, sign and announce the hash lock, wait for it, announce the bundle, wait for
  it), the older \<open>escrowRequestWithSSS\<close> still used by the \<open>/escrow-request\<close> page,
  and \<open>cosignedEscrowWithSSS\<close> (the counterparty's cosignature).

  A run is an explicit sequence of effects, the action log, and an outcome. The
  environment fixes everything the code waits for: the ledger's answers, the signer's
  answers, whether an announcement is accepted, and for each listener subscription
  the events its race observes (\<open>Tracker\<close>). \<open>Pending\<close> is the outcome of a run
  whose awaited race never settles: the async function never returns.
\<close>

datatype action =
    SignRequest unsigned_tx        \<comment> \<open>\<open>window.SSS.setTransaction(tx); window.SSS.requestSign()\<close>\<close>
  | CosignRequest hash             \<comment> \<open>\<open>setTransactionByPayload; requestSignCosignatureTransaction()\<close>\<close>
  | Wait nat                       \<comment> \<open>a \<open>setTimeout\<close> delay, in milliseconds\<close>
  | Announce hash                  \<comment> \<open>\<open>txRepo.announce\<close>\<close>
  | AnnounceBonded hash            \<comment> \<open>\<open>txRepo.announceAggregateBonded\<close>\<close>
  | AnnounceCosignature hash       \<comment> \<open>\<open>txRepo.announceAggregateBondedCosignature\<close>\<close>
  | Subscribe watch                \<comment> \<open>\<open>listener.open()\<close> and the race of \<open>Tracker\<close>\<close>

datatype outcome =
    Undefined                      \<comment> \<open>\<open>return undefined\<close>: no node reachable\<close>
  | Threw error                    \<comment> \<open>the returned promise rejects\<close>
  | Pending                        \<comment> \<open>the returned promise never settles\<close>
  | Returned tx_status             \<comment> \<open>the returned promise resolves to a status\<close>

record env =
  env_ledger :: ledger
  sss_sign :: "unsigned_tx \<Rightarrow> hash option"     \<comment> \<open>the signed hash, or a rejection\<close>
  sss_cosign :: "hash \<Rightarrow> bool"                 \<comment> \<open>whether the user cosigns\<close>
  announce_ok :: "hash \<Rightarrow> bool"               \<comment> \<open>whether the node accepts the announcement\<close>
  race_events :: "watch \<Rightarrow> race_event list"   \<comment> \<open>what the race of a subscription observes\<close>

subsection \<open>Runs: an action log and a stop or a value\<close>

text \<open>
  \<open>Inl oc\<close> stops the async function with outcome \<open>oc\<close>; \<open>Inr v\<close> continues
  with \<open>v\<close>, as the value of an \<open>await\<close>.
\<close>

type_synonym 'a run = "action list \<times> (outcome + 'a)"

definition bindR :: "'a run \<Rightarrow> ('a \<Rightarrow> 'b run) \<Rightarrow> 'b run" where
  "bindR m f = (case m of
      (acts, Inl oc) \<Rightarrow> (acts, Inl oc)
    | (acts, Inr v) \<Rightarrow> (case f v of (acts', r) \<Rightarrow> (acts @ acts', r)))"

definition emit :: "action \<Rightarrow> unit run" where
  "emit a = ([a], Inr ())"

definition liftE :: "error + 'a \<Rightarrow> 'a run" where
  "liftE r = ([], case r of Inl e \<Rightarrow> Inl (Threw e) | Inr v \<Rightarrow> Inr v)"

definition stop :: "outcome \<Rightarrow> 'a run" where
  "stop oc = ([], Inl oc)"

text \<open>\<open>await new Promise(resolve => resolve(window.SSS.requestSign()))\<close>.\<close>

definition sign :: "env \<Rightarrow> unsigned_tx \<Rightarrow> signed_tx run" where
  "sign env tx =
     ([SignRequest tx],
      case sss_sign env tx of
        None \<Rightarrow> Inl (Threw SignerRejected)
      | Some h \<Rightarrow> Inr \<lparr>signed_hash = h, signed_of = tx\<rparr>)"

definition announce_with :: "(hash \<Rightarrow> action) \<Rightarrow> env \<Rightarrow> hash \<Rightarrow> unit run" where
  "announce_with act env h = ([act h], if announce_ok env h then Inr () else Inl (Threw NetworkError))"

text \<open>\<open>await listener.open(); await new Promise(...)\<close>: the race of \<open>Tracker\<close>.\<close>

definition await_race :: "env \<Rightarrow> watch \<Rightarrow> tx_status run" where
  "await_race env w =
     ([Subscribe w], case track w (race_events env w) of None \<Rightarrow> Inl Pending | Some st \<Rightarrow> Inr st)"

subsection \<open>\<open>requestEscrowWithSSS\<close>\<close>

text \<open>
  Lines 42-142: the node check, the expiration instant, the two accounts, the
  service address, the bundle, its signature, the hash lock and, one second later,
  its signature. The result is the client's address and the two signed transactions.
\<close>

definition request_prepare ::
  "config \<Rightarrow> env \<Rightarrow> string \<Rightarrow> string \<Rightarrow> string \<Rightarrow> jsnum \<Rightarrow> jsnum \<Rightarrow> string
     \<Rightarrow> (address \<times> signed_tx \<times> signed_tx) run" where
  "request_prepare cfg env clientAddress targetAddress mosaicId amount price message =
     (let l = env_ledger env in
      if node_url l = [] then stop Undefined else
      bindR (liftE (getBlockTimestamp l (chain_height l))) (\<lambda>ts.
      bindR (liftE (escrow_expiration cfg ts)) (\<lambda>expirationTime.
      bindR (liftE (getAccountInfo l targetAddress)) (\<lambda>target.
      bindR (liftE (getAccountInfo l clientAddress)) (\<lambda>client.
      bindR (liftE (build_escrow_aggregate cfg client target (admin_address l) mosaicId amount
                      price message expirationTime)) (\<lambda>aggregateTx.
      bindR (sign env (AggregateTx aggregateTx)) (\<lambda>signedAggregateTx.
      bindR (liftE (build_hash_lock (currencyMosaicID cfg) (hashLockTxDuration cfg)
                      signedAggregateTx)) (\<lambda>hashLockTx.
      bindR (emit (Wait 1000)) (\<lambda>_.
      bindR (sign env (HashLockTx hashLockTx)) (\<lambda>signedHashLockTx.
        ([], Inr (client, signedAggregateTx, signedHashLockTx))))))))))))"

text \<open>
  Lines 144-199: announce the lock, race for its confirmation, wait five seconds,
  announce the bundle, race for its arrival in the partial pool, return that status.
  The lock's status is not inspected: the bundle is announced whatever it is.
\<close>

definition request_announce :: "env \<Rightarrow> address \<Rightarrow> signed_tx \<Rightarrow> signed_tx \<Rightarrow> unit run" where
  "request_announce env client signedAggregateTx signedHashLockTx =
     bindR (announce_with Announce env (signed_hash signedHashLockTx)) (\<lambda>_.
     bindR (await_race env \<lparr>w_channel = ConfirmedAdded, w_address = client,
                            w_hash = signed_hash signedHashLockTx\<rparr>) (\<lambda>hashLockTransactionStatus.
     bindR (emit (Wait 5000)) (\<lambda>_.
     bindR (announce_with AnnounceBonded env (signed_hash signedAggregateTx)) (\<lambda>_.
     bindR (await_race env \<lparr>w_channel = AggregateBondedAdded, w_address = client,
                            w_hash = signed_hash signedAggregateTx\<rparr>) (\<lambda>aggregateBondedTransactionStatus.
       stop (Returned aggregateBondedTransactionStatus))))))"

definition requestEscrow ::
  "config \<Rightarrow> env \<Rightarrow> string \<Rightarrow> string \<Rightarrow> string \<Rightarrow> jsnum \<Rightarrow> jsnum \<Rightarrow> string \<Rightarrow> unit run" where
  "requestEscrow cfg env clientAddress targetAddress mosaicId amount price message =
     bindR (request_prepare cfg env clientAddress targetAddress mosaicId amount price message)
       (\<lambda>(client, signedAggregateTx, signedHashLockTx).
          request_announce env client signedAggregateTx signedHashLockTx)"

subsection \<open>\<open>escrowRequestWithSSS\<close>\<close>

text \<open>
  Lines 37-131: the same preparation with the legacy bundle (no expiration instant,
  no service name), the literal currency id and a lock duration of 480 blocks.
\<close>

definition escrowRequest_prepare ::
  "env \<Rightarrow> string \<Rightarrow> string \<Rightarrow> string \<Rightarrow> jsnum \<Rightarrow> jsnum \<Rightarrow> string
     \<Rightarrow> (address \<times> signed_tx \<times> signed_tx) run" where
  "escrowRequest_prepare env clientAddress targetAddress mosaicId amount price message =
     (let l = env_ledger env in
      if node_url l = [] then stop Undefined else
      bindR (liftE (getAccountInfo l targetAddress)) (\<lambda>target.
      bindR (liftE (getAccountInfo l clientAddress)) (\<lambda>client.
      bindR (liftE (build_escrow_aggregate_legacy client target (admin_address l) mosaicId amount
                      price message)) (\<lambda>aggregateTx.
      bindR (sign env (AggregateTx aggregateTx)) (\<lambda>signedAggregateTx.
      bindR (liftE (build_hash_lock legacy_currency 480 signedAggregateTx)) (\<lambda>hashLockTx.
      bindR (emit (Wait 1000)) (\<lambda>_.
      bindR (sign env (HashLockTx hashLockTx)) (\<lambda>signedHashLockTx.
        ([], Inr (client, signedAggregateTx, signedHashLockTx))))))))))"

text \<open>Lines 135-177: as \<open>request_announce\<close>, without the five-second settling delay.\<close>

definition escrowRequest_announce :: "env \<Rightarrow> address \<Rightarrow> signed_tx \<Rightarrow> signed_tx \<Rightarrow> unit run" where
  "escrowRequest_announce env client signedAggregateTx signedHashLockTx =
     bindR (announce_with Announce env (signed_hash signedHashLockTx)) (\<lambda>_.
     bindR (await_race env \<lparr>w_channel = ConfirmedAdded, w_address = client,
                            w_hash = signed_hash signedHashLockTx\<rparr>) (\<lambda>hashLockTransactionStatus.
     bindR (announce_with AnnounceBonded env (signed_hash signedAggregateTx)) (\<lambda>_.
     bindR (await_race env \<lparr>w_channel = AggregateBondedAdded, w_address = client,
                            w_hash = signed_hash signedAggregateTx\<rparr>) (\<lambda>aggregateBondedTransactionStatus.
       stop (Returned aggregateBondedTransactionStatus)))))"

definition escrowRequest ::
  "env \<Rightarrow> string \<Rightarrow> string \<Rightarrow> string \<Rightarrow> jsnum \<Rightarrow> jsnum \<Rightarrow> string \<Rightarrow> unit run" where
  "escrowRequest env clientAddress targetAddress mosaicId amount price message =
     bindR (escrowRequest_prepare env clientAddress targetAddress mosaicId amount price message)
       (\<lambda>(client, signedAggregateTx, signedHashLockTx).
          escrowRequest_announce env client signedAggregateTx signedHashLockTx)"

subsection \<open>\<open>cosignedEscrowWithSSS\<close>\<close>

text \<open>
  Lines 18-74: fetch the partial bundle by its hash, have the user cosign its
  serialized form, announce the cosignature, race for the confirmation of the parent
  bundle (the cosignature's \<open>parentHash\<close>, the hash of the fetched bundle).
\<close>

definition cosignedEscrow :: "env \<Rightarrow> string \<Rightarrow> hash \<Rightarrow> unit run" where
  "cosignedEscrow env clientAddress h =
     (let l = env_ledger env in
      if node_url l = [] then stop Undefined else
      bindR (liftE (getAccountInfo l clientAddress)) (\<lambda>client.
      bindR (liftE (getTransaction l Partial h)) (\<lambda>txInfo.
      bindR ([CosignRequest h], if sss_cosign env h then Inr h else Inl (Threw SignerRejected))
        (\<lambda>parentHash.
      bindR (announce_with AnnounceCosignature env parentHash) (\<lambda>_.
      bindR (await_race env \<lparr>w_channel = ConfirmedAdded, w_address = client, w_hash = parentHash\<rparr>)
        (\<lambda>status. stop (Returned status)))))))"

subsection \<open>Reading runs\<close>

text \<open>
  The subscriptions of \<open>requestEscrowWithSSS\<close>: the confirmation of the hash lock
  and the arrival of the bundle in the partial pool, both for the client's address.
  A run is \<open>never_undefined\<close> when it cannot end with \<open>return undefined\<close>.
\<close>

abbreviation lock_watch :: "address \<Rightarrow> signed_tx \<Rightarrow> watch" where
  "lock_watch client sl \<equiv> \<lparr>w_channel = ConfirmedAdded, w_address = client, w_hash = signed_hash sl\<rparr>"

abbreviation bundle_watch :: "address \<Rightarrow> signed_tx \<Rightarrow> watch" where
  "bundle_watch client sa \<equiv> \<lparr>w_channel = AggregateBondedAdded, w_address = client, w_hash = signed_hash sa\<rparr>"

definition never_undefined :: "'a run \<Rightarrow> bool" where
  "never_undefined r \<longleftrightarrow> snd r \<noteq> Inl Undefined"

text \<open>The run combinators compute on the values they are given.\<close>

lemma bindR_stop [simp]: "bindR (acts, Inl oc) f = (acts, Inl oc)"
  by (simp add: bindR_def)

lemma bindR_continue: "bindR (acts, Inr v) f = (acts @ fst (f v), snd (f v))"
  by (simp add: bindR_def split: prod.splits)

lemma liftE_Inr [simp]: "liftE (Inr v) = ([], Inr v)"
  by (simp add: liftE_def)

lemma liftE_Inl [simp]: "liftE (Inl e) = ([], Inl (Threw e))"
  by (simp add: liftE_def)

lemma emit_eq: "emit a = ([a], Inr ())"
  by (simp add: emit_def)

lemma stop_eq [simp]: "stop oc = ([], Inl oc)"
  by (simp add: stop_def)

lemma announce_with_ok [simp]: "announce_ok env h \<Longrightarrow> announce_with act env h = ([act h], Inr ())"
  by (simp add: announce_with_def)

lemma await_race_settled [simp]:
  "track w (race_events env w) = Some st \<Longrightarrow> await_race env w = ([Subscribe w], Inr st)"
  by (simp add: await_race_def)

lemma await_race_pending [simp]:
  "track w (race_events env w) = None \<Longrightarrow> await_race env w = ([Subscribe w], Inl Pending)"
  by (simp add: await_race_def)

lemma sign_eq_Inr:
  "sign env tx = (acts, Inr s) \<longleftrightarrow>
     (\<exists>h. sss_sign env tx = Some h \<and> acts = [SignRequest tx] \<and> s = \<lparr>signed_hash = h, signed_of = tx\<rparr>)"
  by (auto simp: sign_def split: option.splits)

lemma bindR_eq_Inr:
  "bindR m f = (acts, Inr v) \<longleftrightarrow>
     (\<exists>acts1 acts2 x. m = (acts1, Inr x) \<and> f x = (acts2, Inr v) \<and> acts = acts1 @ acts2)"
  by (cases m) (auto simp: bindR_def split: sum.splits prod.splits)

lemma liftE_eq_Inr: "liftE r = (acts, Inr v) \<longleftrightarrow> r = Inr v \<and> acts = []"
  by (auto simp: liftE_def split: sum.splits)

lemma never_undefined_bindR [intro]:
  "never_undefined m \<Longrightarrow> (\<And>x. never_undefined (f x)) \<Longrightarrow> never_undefined (bindR m f)"
  by (auto simp: never_undefined_def bindR_def split: prod.splits sum.splits) (metis snd_conv)

lemma never_undefined_basic [intro, simp]:
  "never_undefined (liftE r)" "never_undefined (sign env tx)" "never_undefined (emit a)"
  "never_undefined (announce_with act env h)" "never_undefined (await_race env w)"
  "never_undefined (stop (Returned st))" "never_undefined ([], Inr v)"
  by (auto simp: never_undefined_def liftE_def sign_def emit_def announce_with_def await_race_def
      split: sum.splits option.splits)

lemma request_announce_never_undefined: "never_undefined (request_announce env client sa sl)"
  unfolding request_announce_def by blast

text \<open>The preparation only signs and waits; it does not read the race events.\<close>

lemma bindR_log_within:
  "set (fst m) \<subseteq> S \<Longrightarrow> (\<And>x. set (fst (f x)) \<subseteq> S) \<Longrightarrow> set (fst (bindR m f)) \<subseteq> S"
  by (cases m) (auto simp: bindR_def split: sum.splits prod.splits, metis fst_conv subsetD)

lemma request_prepare_log:
  "set (fst (request_prepare cfg env c t mid amount price msg)) \<subseteq> range SignRequest \<union> {Wait 1000}"
  unfolding request_prepare_def Let_def
  by (simp; intro conjI impI bindR_log_within; simp add: liftE_def sign_def emit_def stop_def)

lemma request_prepare_race_events:
  "request_prepare cfg (env\<lparr>race_events := x\<rparr>) c t mid amount price msg = request_prepare cfg env c t mid amount price msg"
  by (simp add: request_prepare_def sign_def Let_def)

lemma escrowRequest_prepare_Inr:
  assumes "escrowRequest_prepare env c t mid amount price msg = (acts, Inr (client, sa, sl))"
  shows "\<exists>agg lock. acts = [SignRequest (AggregateTx agg), Wait 1000, SignRequest (HashLockTx lock)]
           \<and> signed_of sa = AggregateTx agg \<and> signed_of sl = HashLockTx lock
           \<and> build_hash_lock legacy_currency 480 sa = Inr lock"
  using assms
  by (auto simp: escrowRequest_prepare_def Let_def bindR_eq_Inr liftE_eq_Inr sign_eq_Inr emit_def
      split: if_splits)

subsection \<open>Properties of the escrow flows\<close>


text \<open>
  Claim C4: with both announcements accepted and the lock's race settled, the request
  performs exactly: announce the lock, subscribe for its confirmation, wait five
  seconds, announce the bundle, subscribe for it; and it returns the status of the
  bundle's race, or never returns when that race never settles.
\<close>

theorem request_announce_log:
  assumes "announce_ok env (signed_hash sl)" and "announce_ok env (signed_hash sa)"
    and "track (lock_watch client sl) (race_events env (lock_watch client sl)) = Some st"
  shows "request_announce env client sa sl =
           ([Announce (signed_hash sl), Subscribe (lock_watch client sl), Wait 5000,
             AnnounceBonded (signed_hash sa), Subscribe (bundle_watch client sa)],
            case track (bundle_watch client sa) (race_events env (bundle_watch client sa)) of
              None \<Rightarrow> Inl Pending | Some st' \<Rightarrow> Inl (Returned st'))"
  using assms by (simp add: request_announce_def await_race_def bindR_continue emit_eq split: option.splits)

text \<open>
  While the lock's race does not settle, the bundle is never announced and the
  request either never returns or throws the lock's announcement error.
\<close>

theorem request_announce_lock_pending:
  assumes "track (lock_watch client sl) (race_events env (lock_watch client sl)) = None"
  shows "(\<forall>h. AnnounceBonded h \<notin> set (fst (request_announce env client sa sl)))
         \<and> snd (request_announce env client sa sl) \<in> {Inl Pending, Inl (Threw NetworkError)}"
  using assms by (auto simp: request_announce_def announce_with_def bindR_continue emit_eq)


text \<open>
  Claim C24: \<open>requestEscrowWithSSS\<close> returns \<open>undefined\<close> exactly when no node is
  reachable; every other failure rejects the promise or leaves it pending.
\<close>

theorem requestEscrow_undefined_iff:
  "snd (requestEscrow cfg env c t mid amount price msg) = Inl Undefined \<longleftrightarrow>
     node_url (env_ledger env) = []"
proof
  assume "node_url (env_ledger env) = []"
  then show "snd (requestEscrow cfg env c t mid amount price msg) = Inl Undefined"
    by (simp add: requestEscrow_def request_prepare_def)
next
  assume up: "snd (requestEscrow cfg env c t mid amount price msg) = Inl Undefined"
  show "node_url (env_ledger env) = []"
  proof (rule ccontr)
    assume "node_url (env_ledger env) \<noteq> []"
    then have "never_undefined (request_prepare cfg env c t mid amount price msg)"
      unfolding request_prepare_def Let_def by (simp add: never_undefined_bindR)
    then have "never_undefined (requestEscrow cfg env c t mid amount price msg)"
      unfolding requestEscrow_def by (auto intro: request_announce_never_undefined split: prod.splits)
    with up show False by (simp add: never_undefined_def)
  qed
qed

text \<open>
  When the cosigning flow subscribes, it has cosigned and announced the fetched
  partial bundle and waits for the confirmation of that bundle's hash on the client's
  canonical address.
\<close>

theorem cosignedEscrow_watches_parent:
  assumes "Subscribe w \<in> set (fst (cosignedEscrow env c h))"
  shows "fst (cosignedEscrow env c h) = [CosignRequest h, AnnounceCosignature h, Subscribe w]
         \<and> w_channel w = ConfirmedAdded \<and> w_hash w = h
         \<and> getAccountInfo (env_ledger env) c = Inr (w_address w)
         \<and> tx_detail (env_ledger env) Partial h \<noteq> None"
  using assms
  by (auto simp: cosignedEscrow_def Let_def bindR_def liftE_def announce_with_def await_race_def
      getTransaction_def split: sum.splits if_splits option.splits prod.splits)

text \<open>
  Claim C25: the legacy \<open>escrowRequestWithSSS\<close> announces the bundle right after the
  lock's race settles, without the settling delay the specification requires
  between lock confirmation and the bundle's announcement.
\<close>

theorem escrowRequest_announce_log:
  assumes "announce_ok env (signed_hash sl)" and "announce_ok env (signed_hash sa)"
    and "track (lock_watch client sl) (race_events env (lock_watch client sl)) = Some st"
  shows "escrowRequest_announce env client sa sl =
           ([Announce (signed_hash sl), Subscribe (lock_watch client sl),
             AnnounceBonded (signed_hash sa), Subscribe (bundle_watch client sa)],
            case track (bundle_watch client sa) (race_events env (bundle_watch client sa)) of
              None \<Rightarrow> Inl Pending | Some st' \<Rightarrow> Inl (Returned st'))"
  using assms by (simp add: escrowRequest_announce_def await_race_def bindR_continue split: option.splits)

text \<open>
  Claim C28: \<open>requestEscrowWithSSS\<close> returns when both of its races see their
  watched message followed by the status reply: it then resolves to the bundle's
  status, whatever else the events hold.
\<close>

theorem requestEscrow_terminates:
  assumes "request_prepare cfg env c t mid amount price msg = (acts, Inr (client, sa, sl))"
    and "announce_ok env (signed_hash sl)" and "announce_ok env (signed_hash sa)"
    and "race_events env (lock_watch client sl) =
           Message ConfirmedAdded client (signed_hash sl) # HandlerReply (Fetched st1) # evs1"
    and "race_events env (bundle_watch client sa) =
           Message AggregateBondedAdded client (signed_hash sa) # HandlerReply (Fetched st2) # evs2"
  shows "snd (requestEscrow cfg env c t mid amount price msg) = Inl (Returned st2)"
  using assms
  by (simp add: requestEscrow_def bindR_continue request_announce_def announce_with_def await_race_def
      emit_eq track_event_settles matches_def)

end
