(* ===== verification/Pages.thy ===== *)
theory Pages
  imports Orchestrator Reconstructor
begin

text \<open>
  The page logic around the escrow core: the request form's validation rules and
  submit handler, the dialog's agree handlers of the \<open>/escrow\<close> and
  \<open>/escrow-request\<close> pages that await the orchestrator and turn its outcome into a
  snackbar, the \<open>/detail\<close> page that finds an escrow by its hash and cosigns it, the
  \<open>/history\<close> page that lists the confirmed escrows, and the role shown on an
  escrow card. React state is a record updated by each handler; the snackbar
  texts are the datatype \<open>snack_msg\<close> carrying the values the template strings
  interpolate. The text fields hand their values to the handlers as numbers for
  \<open>amount\<close> and \<open>price\<close> (the string-to-number coercion of \<open>value > 0\<close> and
  of the arithmetic in the utils is not modelled).
\<close>

subsection \<open>The request form\<close>

text \<open>\<open>EscrowRequestInputs\<close>, the values the form submits.\<close>

record escrow_inputs =
  in_targetAddress :: string
  in_mosaicId :: string
  in_amount :: jsnum
  in_price :: jsnum
  in_message :: string

datatype form_field = TargetAddressField | MosaicIdField | AmountField | PriceField | MessageField

datatype rule_error = Required | Pattern | NonZero | MaxLength

text \<open>The character class \<open>[A-Z0-9]\<close> of the two patterns.\<close>

definition is_upper_alnum :: "char \<Rightarrow> bool" where
  "is_upper_alnum c = (let n = (of_char c :: nat) in (48 \<le> n \<and> n \<le> 57) \<or> (65 \<le> n \<and> n \<le> 90))"

text \<open>\<open>/^([A-Z0-9]{n,n})$/.test(s)\<close>.\<close>

definition fixed_alnum :: "nat \<Rightarrow> string \<Rightarrow> bool" where
  "fixed_alnum n s \<longleftrightarrow> length s = n \<and> list_all is_upper_alnum s"

text \<open>
  \<open>validationRules\<close> (lines 56-89 of \<open>pages/escrow/index.tsx\<close>, 57-92 of
  \<open>pages/escrow-request/index.tsx\<close>): react-hook-form reports, per field, the first
  rule that fails, checking \<open>required\<close> before \<open>maxLength\<close>, \<open>pattern\<close> and
  \<open>validate\<close>; \<open>handleSubmit\<close> calls the submit handler only when no field has
  an error.
\<close>

definition text_rule :: "nat \<Rightarrow> string \<Rightarrow> rule_error option" where
  "text_rule n s = (if s = [] then Some Required else if fixed_alnum n s then None else Some Pattern)"

definition positive_rule :: "jsnum \<Rightarrow> rule_error option" where
  "positive_rule v = (if 0 < v then None else Some NonZero)"

definition message_rule :: "string \<Rightarrow> rule_error option" where
  "message_rule s = (if length s \<le> 300 then None else Some MaxLength)"

definition form_errors :: "escrow_inputs \<Rightarrow> (form_field \<times> rule_error) list" where
  "form_errors inp =
     List.map_filter (\<lambda>(f, r). map_option (Pair f) r)
       [(TargetAddressField, text_rule 39 (in_targetAddress inp)),
        (MosaicIdField, text_rule 16 (in_mosaicId inp)),
        (AmountField, positive_rule (in_amount inp)),
        (PriceField, positive_rule (in_price inp)),
        (MessageField, message_rule (in_message inp))]"

subsection \<open>Page state and handlers\<close>

datatype severity = SevError | SevSuccess

text \<open>
  The snackbar texts: \<open>'NODE...'\<close> (no node), \<open>`${group} TX...`\<close> (detected),
  \<open>`TX... ${code}`\<close> (failed), and the initial empty message.
\<close>

datatype snack_msg = NoSnack | NodeConnectFailed | TxDetected string | TxFailed string

text \<open>The React state of the request pages (\<open>useState\<close> hooks).\<close>

record page_state =
  progress :: bool
  openDialog :: bool
  inputData :: "escrow_inputs option"
  openSnackbar :: bool
  snackbarSeverity :: severity
  snackbarMessage :: snack_msg
  page_hash :: string

definition page_init :: page_state where
  "page_init = \<lparr>progress = False, openDialog = False, inputData = None, openSnackbar = False,
     snackbarSeverity = SevError, snackbarMessage = NoSnack, page_hash = []\<rparr>"

text \<open>\<open>onSubmit\<close>: keep the inputs and open the confirmation dialog.\<close>

definition onSubmit :: "escrow_inputs \<Rightarrow> page_state \<Rightarrow> page_state" where
  "onSubmit inp st = st\<lparr>inputData := Some inp, openDialog := True\<rparr>"

definition submit_form :: "escrow_inputs \<Rightarrow> page_state \<Rightarrow> page_state" where
  "submit_form inp st = (if form_errors inp = [] then onSubmit inp st else st)"

text \<open>
  What the awaited promise gives the handler: a function that ends without
  \<open>return\<close> resolves to \<open>undefined\<close>, as \<open>return undefined\<close> does.
\<close>

definition awaited :: "unit run \<Rightarrow> outcome" where
  "awaited r = (case snd r of Inl oc \<Rightarrow> oc | Inr _ \<Rightarrow> Undefined)"

text \<open>
  The body of \<open>handleAgreeClick\<close> after the await, with its \<open>catch\<close> (log only)
  and \<open>finally\<close> (\<open>setProgress(false)\<close>); an await that never settles leaves the
  spinner on.
\<close>

definition show_status :: "outcome \<Rightarrow> page_state \<Rightarrow> page_state" where
  "show_status oc st = (case oc of
      Pending \<Rightarrow> st
    | Threw e \<Rightarrow> st\<lparr>progress := False\<rparr>
    | Undefined \<Rightarrow> st\<lparr>snackbarSeverity := SevError, snackbarMessage := NodeConnectFailed,
                     openSnackbar := True, progress := False\<rparr>
    | Returned ts \<Rightarrow>
        (if st_code ts = ''Success''
         then st\<lparr>snackbarSeverity := SevSuccess, snackbarMessage := TxDetected (st_group ts),
                 openSnackbar := True, progress := False\<rparr>
         else st\<lparr>snackbarSeverity := SevError, snackbarMessage := TxFailed (st_code ts),
                 openSnackbar := True, progress := False\<rparr>))"

text \<open>
  \<open>pages/escrow-request\<close>, line 118: on \<open>Success\<close> the page also keeps the
  status's hash, which shows the explorer link.
\<close>

definition show_status_request :: "outcome \<Rightarrow> page_state \<Rightarrow> page_state" where
  "show_status_request oc st = (case oc of
      Returned ts \<Rightarrow> (if st_code ts = ''Success'' then (show_status oc st)\<lparr>page_hash := st_hash ts\<rparr>
                     else show_status oc st)
    | _ \<Rightarrow> show_status oc st)"

text \<open>
  The dialog's agree (\<open>handleAgreeClick(); setOpenDialog(false)\<close>): the spinner is
  set, the orchestrator is called on the kept inputs (\<open>inputData!\<close> of an
  undefined \<open>inputData\<close> throws inside the \<open>try\<close>), its outcome is shown, and
  the dialog closes. The result pairs the orchestrator's action log with the new
  state.
\<close>

definition escrow_agree :: "config \<Rightarrow> env \<Rightarrow> string \<Rightarrow> page_state \<Rightarrow> action list \<times> page_state" where
  "escrow_agree cfg env clientAddress st =
     (let st1 = st\<lparr>progress := True\<rparr> in
      case inputData st of
        None \<Rightarrow> ([], (show_status (Threw UndefinedProperty) st1)\<lparr>openDialog := False\<rparr>)
      | Some inp \<Rightarrow>
          (let r = requestEscrow cfg env clientAddress (in_targetAddress inp) (in_mosaicId inp)
                     (in_amount inp) (in_price inp) (in_message inp)
           in (fst r, (show_status (awaited r) st1)\<lparr>openDialog := False\<rparr>)))"

definition escrowRequest_agree :: "env \<Rightarrow> string \<Rightarrow> page_state \<Rightarrow> action list \<times> page_state" where
  "escrowRequest_agree env clientAddress st =
     (let st1 = st\<lparr>progress := True\<rparr> in
      case inputData st of
        None \<Rightarrow> ([], (show_status_request (Threw UndefinedProperty) st1)\<lparr>openDialog := False\<rparr>)
      | Some inp \<Rightarrow>
          (let r = escrowRequest env clientAddress (in_targetAddress inp) (in_mosaicId inp)
                     (in_amount inp) (in_price inp) (in_message inp)
           in (fst r, (show_status_request (awaited r) st1)\<lparr>openDialog := False\<rparr>)))"

subsection \<open>The detail and history pages\<close>

text \<open>
  \<open>pages/detail\<close>: the escrow shown starts as the blank record of lines 26-36 and
  the spinner on (line 16); \<open>initalescrowDataList\<close> (lines 54-63) searches the
  client's partial bundles and shows the one whose hash is the query's, turning
  the spinner off; an \<open>undefined\<close> result or a rejected search changes nothing.
\<close>

record detail_state =
  d_ui :: page_state
  escrowData :: escrow_record

definition blank_record :: escrow_record where
  "blank_record = \<lparr>er_recipientAddress = [], er_signerAddress = Some [], er_blockCreateTime = 0,
     er_expirationTime = Some 0, er_mosaicId = [], er_amount = 0, er_price = 0, er_message = [],
     er_hash = []\<rparr>"

definition detail_init :: detail_state where
  "detail_init = \<lparr>d_ui = page_init\<lparr>progress := True\<rparr>, escrowData = blank_record\<rparr>"

definition detail_load :: "config \<Rightarrow> ledger \<Rightarrow> string \<Rightarrow> hash \<Rightarrow> detail_state \<Rightarrow> detail_state" where
  "detail_load cfg l clientAddress escrowHash st =
     (case searchEscrow cfg l clientAddress Partial of
        Inr (Some result) \<Rightarrow>
          foldl (\<lambda>s escrow. if escrowHash = er_hash escrow
                            then s\<lparr>escrowData := escrow, d_ui := (d_ui s)\<lparr>progress := False\<rparr>\<rparr>
                            else s) st result
      | _ \<Rightarrow> st)"

text \<open>\<open>handleAgreeClick\<close> of the detail page (lines 66-91): cosign the shown escrow.\<close>

definition detail_agree :: "env \<Rightarrow> string \<Rightarrow> detail_state \<Rightarrow> action list \<times> detail_state" where
  "detail_agree env clientAddress st =
     (let r = cosignedEscrow env clientAddress (er_hash (escrowData st))
      in (fst r, st\<lparr>d_ui := show_status (awaited r) ((d_ui st)\<lparr>progress := True\<rparr>)\<rparr>))"

text \<open>
  \<open>pages/history\<close> (lines 34-44): the load is started without being awaited and the
  spinner is turned off at once; the list is replaced when the search of confirmed
  bundles gives one.
\<close>

record history_state =
  h_progress :: bool
  escrowDataList :: "escrow_record list"

definition history_load :: "config \<Rightarrow> ledger \<Rightarrow> string \<Rightarrow> history_state \<Rightarrow> history_state" where
  "history_load cfg l clientAddress st =
     (case searchEscrow cfg l clientAddress Confirmed of
        Inr (Some result) \<Rightarrow> st\<lparr>escrowDataList := result, h_progress := False\<rparr>
      | _ \<Rightarrow> st\<lparr>h_progress := False\<rparr>)"

subsection \<open>Escrow cards\<close>

text \<open>
  \<open>CardEscrowPartial\<close> and \<open>CardEscrowConfirmed\<close> (line 17, 15): an escrow is
  shown as requested by the client when the client is the signer of its first
  transfer (\<open>clientAddress === escrowData.signerAddress\<close>); otherwise as requested
  of the client, and the partial card offers the button to its detail page
  (lines 107-124), where it is cosigned.
\<close>

definition card_is_requester :: "string \<Rightarrow> escrow_record \<Rightarrow> bool" where
  "card_is_requester clientAddress escrow \<longleftrightarrow> er_signerAddress escrow = Some clientAddress"

definition card_offers_detail :: "string \<Rightarrow> escrow_record \<Rightarrow> bool" where
  "card_offers_detail clientAddress escrow \<longleftrightarrow> \<not> card_is_requester clientAddress escrow"

subsection \<open>Facts about the handlers\<close>

lemma detail_fold_found:
  "\<exists>r \<in> set rs. er_hash r = h \<Longrightarrow>
   er_hash (escrowData (foldl (\<lambda>s escrow. if h = er_hash escrow
       then s\<lparr>escrowData := escrow, d_ui := (d_ui s)\<lparr>progress := False\<rparr>\<rparr> else s) st rs)) = h
   \<and> \<not> progress (d_ui (foldl (\<lambda>s escrow. if h = er_hash escrow
       then s\<lparr>escrowData := escrow, d_ui := (d_ui s)\<lparr>progress := False\<rparr>\<rparr> else s) st rs))"
proof (induction rs arbitrary: st rule: rev_induct)
  case (snoc r rs)
  then show ?case by (cases "\<exists>r \<in> set rs. er_hash r = h") auto
qed simp

lemma detail_fold_missing:
  "\<forall>r \<in> set rs. er_hash r \<noteq> h \<Longrightarrow>
   foldl (\<lambda>s escrow. if h = er_hash escrow
       then s\<lparr>escrowData := escrow, d_ui := (d_ui s)\<lparr>progress := False\<rparr>\<rparr> else s) st rs = st"
  by (induction rs arbitrary: st) auto

lemma form_errors_Nil_iff:
  "form_errors inp = [] \<longleftrightarrow>
     text_rule 39 (in_targetAddress inp) = None \<and> text_rule 16 (in_mosaicId inp) = None \<and>
     positive_rule (in_amount inp) = None \<and> positive_rule (in_price inp) = None \<and>
     message_rule (in_message inp) = None"
  by (simp add: form_errors_def List.map_filter_def split: option.splits)

subsection \<open>Properties of the pages\<close>

text \<open>
  The \<open>/escrow\<close> page shows a success snackbar only when the
  orchestrator returned a status with code \<open>Success\<close>, and the message names that
  status's group.
\<close>

theorem escrow_agree_success_snack:
  assumes "snackbarSeverity st = SevError"
    and "snackbarSeverity (snd (escrow_agree cfg env c st)) = SevSuccess"
  shows "\<exists>inp ts. inputData st = Some inp \<and> is_success ts \<and>
           awaited (requestEscrow cfg env c (in_targetAddress inp) (in_mosaicId inp) (in_amount inp)
             (in_price inp) (in_message inp)) = Returned ts \<and>
           snackbarMessage (snd (escrow_agree cfg env c st)) = TxDetected (st_group ts)"
  using assms
  by (auto simp: escrow_agree_def show_status_def is_success_def Let_def
      split: option.splits outcome.splits if_splits)

text \<open>
  Claim C17: inputs that pass the form's validation never make the builder throw
  \<open>NegativeUInt\<close> (for a non-negative fee rate): the positivity rules guard every
  \<open>UInt64.fromUint\<close> of the bundle.
\<close>

theorem form_valid_never_negative:
  assumes "form_errors inp = []" and "0 \<le> servieFee cfg"
  shows "build_escrow_aggregate cfg client target admin (in_mosaicId inp) (in_amount inp) (in_price inp)
           message expiry \<noteq> Inl NegativeUInt"
proof
  assume "build_escrow_aggregate cfg client target admin (in_mosaicId inp) (in_amount inp) (in_price inp)
            message expiry = Inl NegativeUInt"
  then have "in_price inp < 0 \<or> in_amount inp < 0 \<or> in_price inp * servieFee cfg < 0"
    by (rule build_escrow_aggregate_NegativeUInt)
  moreover have "0 < in_price inp" and "0 < in_amount inp"
    using assms(1) by (simp_all add: form_errors_Nil_iff positive_rule_def split: if_splits)
  moreover have "0 \<le> in_price inp * servieFee cfg"
    using \<open>0 < in_price inp\<close> assms(2) by simp
  ultimately show False by linarith
qed

text \<open>
  When the search of the client's partial bundles lists an escrow with the page's
  hash, the detail page shows that escrow and turns its spinner off.
\<close>

theorem detail_load_shows_match:
  assumes "searchEscrow cfg l c Partial = Inr (Some rs)" and "r \<in> set rs" and "er_hash r = h"
  shows "er_hash (escrowData (detail_load cfg l c h st)) = h \<and> \<not> progress (d_ui (detail_load cfg l c h st))"
  using assms detail_fold_found [of rs h st] by (auto simp: detail_load_def)

text \<open>
  Claim C34: when no partial escrow of the client has the page's hash (a bundle
  already confirmed, a foreign hash, a failed search), the detail page keeps its blank
  escrow and its spinner for ever: nothing reports the miss.
\<close>

theorem detail_load_unknown_hash:
  assumes "\<forall>rs. searchEscrow cfg l c Partial = Inr (Some rs) \<longrightarrow> (\<forall>r \<in> set rs. er_hash r \<noteq> h)"
  shows "detail_load cfg l c h detail_init = detail_init \<and> progress (d_ui (detail_load cfg l c h detail_init))"
proof -
  have "detail_load cfg l c h detail_init = detail_init"
    using assms detail_fold_missing by (auto simp: detail_load_def split: sum.splits option.splits)
  then show ?thesis by (simp add: detail_init_def page_init_def)
qed

text \<open>
  An amount or a price that is not positive is rejected by the form's
  validation before any handler runs: submitting it changes nothing, so the
  confirmation dialog (and with it the builder) is never reached with it.
\<close>

theorem submit_form_rejects_nonpositive:
  assumes "in_amount inp \<le> 0 \<or> in_price inp \<le> 0"
  shows "submit_form inp st = st"
  using assms by (auto simp: submit_form_def form_errors_Nil_iff positive_rule_def)

end
