(* ===== verification/Dialogs.thy ===== *)
theory Dialogs
  imports Pages
begin

text \<open>
  The confirmation dialog of the \<open>/escrow-request\<close> page
  (\<open>components/AlertsDialogEscrowRequest.tsx\<close>): what it shows of the submitted
  inputs and of the fees, its footnotes, and its three ways out (cancel, dismiss,
  agree). Also the
  agree handler of the home page, which sends a message through
  \<open>sendMessageWithSSS\<close>; that function is not among the sources, so its outcome is
  a parameter of the handler.
\<close>

subsection \<open>The confirmation dialog\<close>

text \<open>The values the dialog's template strings interpolate (lines 45-117).\<close>

record dialog_view =
  dv_price :: jsnum
  dv_mosaicId :: string
  dv_amount :: jsnum
  dv_target :: string
  dv_message :: string
  dv_fee :: jsnum
  dv_deposit :: jsnum
  dv_total :: jsnum

text \<open>
  The page hands the dialog its kept inputs, or these defaults before any submit
  (line 151 of \<open>pages/escrow-request\<close>).
\<close>

definition default_inputs :: escrow_inputs where
  "default_inputs = \<lparr>in_targetAddress = [], in_mosaicId = [], in_amount = 1, in_price = 1, in_message = []\<rparr>"

definition dialog_inputs :: "page_state \<Rightarrow> escrow_inputs" where
  "dialog_inputs st = (case inputData st of Some inp \<Rightarrow> inp | None \<Rightarrow> default_inputs)"

text \<open>
  The service fee is printed as \<open>amount*0.1\<close> (line 88), labelled as 10 percent of
  the trade price; the deposit as 10 XYM (line 102); the total as
  \<open>amount*(1+0.1)+10\<close> (line 117).
\<close>

definition escrow_dialog :: "escrow_inputs \<Rightarrow> dialog_view" where
  "escrow_dialog inp =
     \<lparr>dv_price = in_price inp, dv_mosaicId = in_mosaicId inp, dv_amount = in_amount inp,
      dv_target = in_targetAddress inp, dv_message = in_message inp,
      dv_fee = in_amount inp * (1/10), dv_deposit = 10,
      dv_total = in_amount inp * (1 + 1/10) + 10\<rparr>"

datatype dialog_event = DialogCancel | DialogDismiss | DialogAgree

text \<open>
  Cancel (line 135) and dismissal (\<open>onClose\<close>, line 19) close the dialog; agree
  (line 138) runs the page's \<open>handleAgreeClickSendMessage\<close> and closes it
  (lines 147-150 of \<open>pages/escrow-request\<close>). A closed dialog has no buttons.
\<close>

definition request_dialog_event ::
  "env \<Rightarrow> string \<Rightarrow> dialog_event \<Rightarrow> page_state \<Rightarrow> action list \<times> page_state" where
  "request_dialog_event env clientAddress ev st =
     (if \<not> openDialog st then ([], st)
      else case ev of
        DialogAgree \<Rightarrow> escrowRequest_agree env clientAddress st
      | _ \<Rightarrow> ([], st\<lparr>openDialog := False\<rparr>))"

text \<open>The fee a bundle pays the service, in currency units: its third transfer's amount.\<close>

definition fee_paid :: "aggregate_tx \<Rightarrow> jsnum" where
  "fee_paid agg = (case innerTransactions agg ! 2 of
      TransferInner t \<Rightarrow> of_nat (unat (mosaic_amount (hd (mosaics t)))) / 1000000
    | OtherInner \<Rightarrow> 0)"

text \<open>
  The dialog's four footnotes (lines 121-132): *1 the 10 XYM deposit is refunded
  when the trade succeeds, but not when it is not completed within 48 hours; *2 the
  transaction fee is shown by the signer; *3 a signature cannot be withdrawn; *4 two
  signatures follow each other, the trade's and then the hash lock's.
\<close>

datatype dialog_note = NoteDepositRefund nat | NoteNetworkFee | NoteIrrevocable | NoteTwoSignatures

definition dialog_notes :: "dialog_note list" where
  "dialog_notes = [NoteDepositRefund 48, NoteNetworkFee, NoteIrrevocable, NoteTwoSignatures]"

text \<open>
  The validity of a hash lock in hours, with the code's own block time of 30
  seconds (\<open>hashLockTxDuration * 30 * 1000\<close>, line 56 of
  \<open>requestEscrowWithSSS.ts\<close>).
\<close>

definition lock_hours :: "hash_lock_tx \<Rightarrow> jsnum" where
  "lock_hours lock = of_nat (unat (lock_duration lock)) * 30 / 3600"

subsection \<open>The home page's message handler\<close>

text \<open>
  \<open>handleAgreeClickSendMessage\<close> of \<open>pages/index.tsx\<close> (lines 51-76) and the
  dialog's agree callback (lines 91-94): the same outcome handling as the
  \<open>/escrow-request\<close> page, on the outcome of \<open>sendMessageWithSSS\<close>. The button
  that would open this dialog is commented out (lines 222-232).
\<close>

definition home_agree :: "outcome \<Rightarrow> page_state \<Rightarrow> page_state" where
  "home_agree oc st = (show_status_request oc (st\<lparr>progress := True\<rparr>))\<lparr>openDialog := False\<rparr>"

subsection \<open>Lemmas\<close>

lemma fee_paid_legacy:
  assumes "build_escrow_aggregate_legacy client target admin mid amount price message = Inr agg"
    and "price * 100000 = of_nat p" and "p < 2 ^ 64"
  shows "fee_paid agg = price / 10"
proof -
  have "price * (1/10) * 1000000 = of_nat p" using assms(2) by simp
  moreover have "unat (word_of_nat p :: u64) = p"
    using assms(3) by (simp add: unat_word_of_nat_u64)
  ultimately have "fee_paid agg = of_nat p / 1000000"
    using assms(1) by (auto simp: build_escrow_aggregate_legacy_eq_Inr fee_paid_def simp del: of_nat_unat)
  then show ?thesis using assms(2) by simp
qed

subsection \<open>Properties of the dialogs\<close>



text \<open>
  Claim C31: the legacy flow the \<open>/escrow-request\<close> dialog leads to signs, as its
  note *4 says, the trade and then the hash lock, but the lock it signs is valid for
  480 blocks, 4 hours: a twelfth of the 48 hours after which note *1 says the
  deposit is forfeited.
\<close>

theorem legacy_deposit_window:
  assumes "escrowRequest_prepare env c t mid amount price msg = (acts, Inr (client, sa, sl))"
  shows "\<exists>agg lock. acts = [SignRequest (AggregateTx agg), Wait 1000, SignRequest (HashLockTx lock)]
           \<and> signed_of sl = HashLockTx lock \<and> lock_hash lock = signed_hash sa \<and> lock_hours lock = 4
           \<and> (\<forall>h. NoteDepositRefund h \<in> set dialog_notes \<longrightarrow> of_nat h = 12 * lock_hours lock)"
proof -
  obtain agg lock where acts: "acts = [SignRequest (AggregateTx agg), Wait 1000, SignRequest (HashLockTx lock)]"
    and sl: "signed_of sl = HashLockTx lock" and lk: "build_hash_lock legacy_currency 480 sa = Inr lock"
    using escrowRequest_prepare_Inr [OF assms] by blast
  from lk have "lock_hash lock = signed_hash sa" and d: "unat (lock_duration lock) = 480"
    by (auto simp: build_hash_lock_eq_Inr unat_word_of_nat_u64)
  moreover have "lock_hours lock = 4"
    by (simp add: lock_hours_def d del: of_nat_unat)
  ultimately show ?thesis using acts sl by (auto simp: dialog_notes_def)
qed

end
