(* ===== verification/Forms.thy ===== *)
theory Forms
  imports Dialogs
begin

text \<open>
  The two request pages (\<open>pages/escrow\<close> and \<open>pages/escrow-request\<close>) as event
  systems: a submit of the form, rendered only while no spinner is shown, and the
  events of the confirmation dialog. The pages differ only in the handler their
  dialog's agree button runs, so the page step is stated over that handler and its
  invariant over any handler that neither edits the kept inputs nor reopens the
  dialog; both pages' handlers are shown to be such.
\<close>

datatype form_event = FormSubmit escrow_inputs | FormDialog dialog_event

text \<open>
  The dialog of \<open>pages/escrow\<close> (lines 139-151): a closed dialog has no buttons,
  cancel and dismissal close it, agree runs \<open>handleAgreeClick\<close> and closes it.
\<close>

definition escrow_dialog_event ::
  "config \<Rightarrow> env \<Rightarrow> string \<Rightarrow> dialog_event \<Rightarrow> page_state \<Rightarrow> action list \<times> page_state" where
  "escrow_dialog_event cfg env clientAddress ev st =
     (if \<not> openDialog st then ([], st)
      else case ev of
        DialogAgree \<Rightarrow> escrow_agree cfg env clientAddress st
      | _ \<Rightarrow> ([], st\<lparr>openDialog := False\<rparr>))"

text \<open>
  One event of a request page, with the actions it performs appended to the log:
  the form (and its \<open>handleSubmit(onSubmit)\<close>) is rendered only while
  \<open>progress\<close> is false; the dialog is rendered whatever the spinner.
\<close>

fun form_step ::
  "(dialog_event \<Rightarrow> page_state \<Rightarrow> action list \<times> page_state)
     \<Rightarrow> page_state \<times> action list \<Rightarrow> form_event \<Rightarrow> page_state \<times> action list" where
  "form_step dlg (st, acts) (FormSubmit inp) = (if progress st then (st, acts) else (submit_form inp st, acts))"
| "form_step dlg (st, acts) (FormDialog ev) = (case dlg ev st of (a, st') \<Rightarrow> (st', acts @ a))"

inductive form_reach ::
  "(dialog_event \<Rightarrow> page_state \<Rightarrow> action list \<times> page_state) \<Rightarrow> page_state \<times> action list \<Rightarrow> bool"
  for dlg where
  start: "form_reach dlg (page_init, [])"
| step: "form_reach dlg s \<Longrightarrow> form_reach dlg (form_step dlg s ev)"

text \<open>
  The invariant: kept inputs passed the form's validation, and the dialog is open
  only over kept inputs.
\<close>

definition form_inv :: "page_state \<Rightarrow> bool" where
  "form_inv st \<longleftrightarrow> (case inputData st of None \<Rightarrow> \<not> openDialog st | Some inp \<Rightarrow> form_errors inp = [])"

subsection \<open>Lemmas\<close>

lemma show_status_keeps [simp]:
  "inputData (show_status oc st) = inputData st" "openDialog (show_status oc st) = openDialog st"
  by (simp_all add: show_status_def split: outcome.splits)

lemma show_status_request_keeps [simp]:
  "inputData (show_status_request oc st) = inputData st"
  "openDialog (show_status_request oc st) = openDialog st"
  by (simp_all add: show_status_request_def split: outcome.splits)

lemma escrow_agree_keeps:
  "inputData (snd (escrow_agree cfg env c st)) = inputData st \<and> \<not> openDialog (snd (escrow_agree cfg env c st))"
  by (simp add: escrow_agree_def Let_def split: option.splits)

lemma escrowRequest_agree_keeps:
  "inputData (snd (escrowRequest_agree env c st)) = inputData st \<and> \<not> openDialog (snd (escrowRequest_agree env c st))"
  by (simp add: escrowRequest_agree_def Let_def split: option.splits)

lemma escrow_dialog_event_keeps:
  "inputData (snd (escrow_dialog_event cfg env c ev st)) = inputData st
   \<and> (openDialog (snd (escrow_dialog_event cfg env c ev st)) \<longrightarrow> openDialog st)"
  using escrow_agree_keeps [of cfg env c st]
  by (auto simp: escrow_dialog_event_def split: dialog_event.splits)

lemma request_dialog_event_keeps:
  "inputData (snd (request_dialog_event env c ev st)) = inputData st
   \<and> (openDialog (snd (request_dialog_event env c ev st)) \<longrightarrow> openDialog st)"
  using escrowRequest_agree_keeps [of env c st]
  by (auto simp: request_dialog_event_def split: dialog_event.splits)

lemma submit_form_inv: "form_inv st \<Longrightarrow> form_inv (submit_form inp st)"
  by (simp add: submit_form_def onSubmit_def form_inv_def)

lemma form_step_inv:
  assumes keeps: "\<And>ev st. inputData (snd (dlg ev st)) = inputData st
                      \<and> (openDialog (snd (dlg ev st)) \<longrightarrow> openDialog st)"
    and "form_inv (fst s)"
  shows "form_inv (fst (form_step dlg s ev))"
proof (cases ev)
  case (FormSubmit inp)
  then show ?thesis using assms(2) by (cases s) (simp add: submit_form_inv)
next
  case (FormDialog d)
  obtain st acts where s: "s = (st, acts)" by fastforce
  obtain a st' where d: "dlg d st = (a, st')" by fastforce
  from keeps [of d st] d have "inputData st' = inputData st" and "openDialog st' \<longrightarrow> openDialog st"
    by simp_all
  with assms(2) show ?thesis
    by (auto simp: FormDialog s d form_inv_def split: option.splits)
qed

lemma form_reach_inv:
  assumes "form_reach dlg s"
    and "\<And>ev st. inputData (snd (dlg ev st)) = inputData st \<and> (openDialog (snd (dlg ev st)) \<longrightarrow> openDialog st)"
  shows "form_inv (fst s)"
  using assms(1)
proof induction
  case start
  then show ?case by (simp add: form_inv_def page_init_def)
next
  case (step s ev)
  from assms(2) step.IH show ?case by (rule form_step_inv)
qed

lemma form_inv_open:
  assumes "form_inv st" and "openDialog st"
  obtains inp where "inputData st = Some inp" and "form_errors inp = []" and "dialog_inputs st = inp"
  using assms by (auto simp: form_inv_def dialog_inputs_def split: option.splits)

subsection \<open>Properties of the request pages\<close>

text \<open>
  Claim C22: in every reachable state of the \<open>/escrow\<close> page whose dialog is open,
  the dialog shows inputs that passed the form's validation (never the defaults), and
  its agree button runs \<open>requestEscrowWithSSS\<close> on exactly those inputs: the
  \<open>inputData!\<close> assertion of the handler cannot fail.
\<close>

theorem escrow_page_agree_validated:
  assumes "form_reach (escrow_dialog_event cfg env c) (st, acts)" and "openDialog st"
  shows "\<exists>inp. inputData st = Some inp \<and> dialog_inputs st = inp \<and> form_errors inp = []
           \<and> fst (escrow_dialog_event cfg env c DialogAgree st)
               = fst (requestEscrow cfg env c (in_targetAddress inp) (in_mosaicId inp) (in_amount inp)
                        (in_price inp) (in_message inp))"
proof -
  have "form_inv (fst (st, acts))"
    using assms(1) escrow_dialog_event_keeps by (rule form_reach_inv)
  then obtain inp where "inputData st = Some inp" "form_errors inp = []" "dialog_inputs st = inp"
    using assms(2) by (auto elim: form_inv_open)
  with assms(2) show ?thesis by (simp add: escrow_dialog_event_def escrow_agree_def Let_def)
qed

text \<open>
  Claim C23: in every reachable state of the \<open>/escrow-request\<close> page whose dialog
  is open, the terms the dialog asks the user to confirm are validated inputs, and
  agreeing runs the legacy \<open>escrowRequestWithSSS\<close> on exactly those terms.
\<close>

theorem escrowRequest_page_confirms_sent_terms:
  assumes "form_reach (request_dialog_event env c) (st, acts)" and "openDialog st"
  shows "\<exists>inp. form_errors inp = [] \<and> escrow_dialog (dialog_inputs st) = escrow_dialog inp
           \<and> fst (request_dialog_event env c DialogAgree st)
               = fst (escrowRequest env c (in_targetAddress inp) (in_mosaicId inp) (in_amount inp)
                        (in_price inp) (in_message inp))"
proof -
  have "form_inv (fst (st, acts))"
    using assms(1) request_dialog_event_keeps by (rule form_reach_inv)
  then obtain inp where "inputData st = Some inp" "form_errors inp = []" "dialog_inputs st = inp"
    using assms(2) by (auto elim: form_inv_open)
  with assms(2) show ?thesis
    by (intro exI [of _ inp]) (simp add: request_dialog_event_def escrowRequest_agree_def Let_def)
qed

end
