(* ===== verification/Protocol.thy ===== *)
theory Protocol
  imports Orchestrator
begin

text \<open>
  The escrow-creation state machine of the specification (section 4.3), as a labelled
  step relation, and the observable trace of \<open>requestEscrowWithSSS\<close> in its terms.
  The labels are what an observer of the flow sees: the two signature requests and
  the spacing delay between them, the lock's announcement and the status its race
  settles to, the settling delay, the bundle's announcement and its status.
\<close>

datatype spec_state =
    Built | BundleSigned | Spaced | LockSigned | AwaitingLockConfirmation | LockConfirmed
  | Settled | AwaitingBundleConfirmation | Resolved

datatype spec_label =
    LSignBundle | LSpacing | LSignLock | LAnnounceLock | LLockStatus tx_status
  | LSettle | LAnnounceBundle | LBundleStatus tx_status

text \<open>
  Only a \<open>Success\<close> status of the lock advances the machine; any other status
  resolves the flow, after which nothing happens.
\<close>

inductive spec_step :: "spec_state \<Rightarrow> spec_label \<Rightarrow> spec_state \<Rightarrow> bool" where
  sign_bundle: "spec_step Built LSignBundle BundleSigned"
| spacing: "spec_step BundleSigned LSpacing Spaced"
| sign_lock: "spec_step Spaced LSignLock LockSigned"
| announce_lock: "spec_step LockSigned LAnnounceLock AwaitingLockConfirmation"
| lock_ok: "is_success st \<Longrightarrow> spec_step AwaitingLockConfirmation (LLockStatus st) LockConfirmed"
| lock_failed: "\<not> is_success st \<Longrightarrow> spec_step AwaitingLockConfirmation (LLockStatus st) Resolved"
| settle: "spec_step LockConfirmed LSettle Settled"
| announce_bundle: "spec_step Settled LAnnounceBundle AwaitingBundleConfirmation"
| bundle_status: "spec_step AwaitingBundleConfirmation (LBundleStatus st) Resolved"

inductive spec_steps :: "spec_state \<Rightarrow> spec_label list \<Rightarrow> spec_state \<Rightarrow> bool" where
  refl: "spec_steps s [] s"
| step: "spec_step s l t \<Longrightarrow> spec_steps t ls u \<Longrightarrow> spec_steps s (l # ls) u"

inductive_cases spec_steps_ConsE: "spec_steps s (l # ls) u"
inductive_cases spec_step_ResolvedE: "spec_step Resolved l t"

inductive_simps spec_steps_Nil [simp]: "spec_steps s [] u"
inductive_simps spec_steps_Cons [simp]: "spec_steps s (l # ls) u"

text \<open>
  What an observer sees of one action of the code: the settled status of a
  subscription's race (none while it never settles), the kind of every other action.
\<close>

definition observe :: "env \<Rightarrow> action \<Rightarrow> spec_label list" where
  "observe env a = (case a of
      SignRequest (AggregateTx _) \<Rightarrow> [LSignBundle]
    | SignRequest (HashLockTx _) \<Rightarrow> [LSignLock]
    | Wait n \<Rightarrow> (if n = 1000 then [LSpacing] else [LSettle])
    | Announce _ \<Rightarrow> [LAnnounceLock]
    | AnnounceBonded _ \<Rightarrow> [LAnnounceBundle]
    | Subscribe w \<Rightarrow>
        (case track w (race_events env w) of
           None \<Rightarrow> []
         | Some st \<Rightarrow> if w_channel w = ConfirmedAdded then [LLockStatus st] else [LBundleStatus st])
    | _ \<Rightarrow> [])"

definition request_trace ::
  "config \<Rightarrow> env \<Rightarrow> string \<Rightarrow> string \<Rightarrow> string \<Rightarrow> jsnum \<Rightarrow> jsnum \<Rightarrow> string \<Rightarrow> spec_label list" where
  "request_trace cfg env c t mid amount price msg =
     concat (map (observe env) (fst (requestEscrow cfg env c t mid amount price msg)))"

subsection \<open>The cosignature-completion machine\<close>

text \<open>
  The shorter machine of section 4.3 for \<open>cosignedEscrowWithSSS\<close>:
  \<open>Located \<rightarrow> Cosigned \<rightarrow> AwaitingConfirmation \<rightarrow> Resolved\<close>. Every state and
  label carries the hash it is about, so that the machine requires the cosignature,
  its announcement and the watched confirmation to concern the located bundle.
\<close>

datatype cosign_state = CLocated hash | CCosigned hash | CAwaiting hash | CResolved

datatype cosign_label = LCosign hash | LAnnounceCosig hash | LParentStatus hash tx_status

inductive cosign_step :: "cosign_state \<Rightarrow> cosign_label \<Rightarrow> cosign_state \<Rightarrow> bool" where
  cosign: "cosign_step (CLocated h) (LCosign h) (CCosigned h)"
| announce: "cosign_step (CCosigned h) (LAnnounceCosig h) (CAwaiting h)"
| status: "cosign_step (CAwaiting h) (LParentStatus h st) CResolved"

inductive cosign_steps :: "cosign_state \<Rightarrow> cosign_label list \<Rightarrow> cosign_state \<Rightarrow> bool" where
  refl: "cosign_steps s [] s"
| step: "cosign_step s l t \<Longrightarrow> cosign_steps t ls u \<Longrightarrow> cosign_steps s (l # ls) u"

inductive_simps cosign_step_simps: "cosign_step s l t"
inductive_simps cosign_steps_Nil [simp]: "cosign_steps s [] u"
inductive_simps cosign_steps_Cons [simp]: "cosign_steps s (l # ls) u"

text \<open>
  What an observer sees of an action of the cosignature flow: the hash of the
  cosignature request and of its announcement, and the watched hash with the status
  its race settles to.
\<close>

definition observe_cosign :: "env \<Rightarrow> action \<Rightarrow> cosign_label list" where
  "observe_cosign env a = (case a of
      CosignRequest x \<Rightarrow> [LCosign x]
    | AnnounceCosignature x \<Rightarrow> [LAnnounceCosig x]
    | Subscribe w \<Rightarrow>
        (case track w (race_events env w) of None \<Rightarrow> [] | Some st \<Rightarrow> [LParentStatus (w_hash w) st])
    | _ \<Rightarrow> [])"

definition cosign_trace :: "env \<Rightarrow> string \<Rightarrow> hash \<Rightarrow> cosign_label list" where
  "cosign_trace env c h = concat (map (observe_cosign env) (fst (cosignedEscrow env c h)))"

lemma spec_steps_Resolved: "spec_steps Resolved ls u \<longleftrightarrow> ls = [] \<and> u = Resolved"
  by (cases ls) (auto elim: spec_step_ResolvedE)

lemma request_prepare_Inr:
  assumes "request_prepare cfg env c t mid amount price msg = (acts, Inr (client, sa, sl))"
  shows "\<exists>agg lock. acts = [SignRequest (AggregateTx agg), Wait 1000, SignRequest (HashLockTx lock)]
           \<and> signed_of sa = AggregateTx agg \<and> signed_of sl = HashLockTx lock"
  using assms
  by (auto simp: request_prepare_def Let_def bindR_eq_Inr liftE_eq_Inr sign_eq_Inr emit_def
      build_hash_lock_eq_Inr split: if_splits)

lemma request_trace_eq:
  assumes "request_prepare cfg env c t mid amount price msg = (acts, Inr (client, sa, sl))"
    and "announce_ok env (signed_hash sl)" and "announce_ok env (signed_hash sa)"
    and "track (lock_watch client sl) (race_events env (lock_watch client sl)) = Some st"
  shows "request_trace cfg env c t mid amount price msg =
           [LSignBundle, LSpacing, LSignLock, LAnnounceLock, LLockStatus st, LSettle, LAnnounceBundle]
           @ (case track (bundle_watch client sa) (race_events env (bundle_watch client sa)) of
                None \<Rightarrow> [] | Some st' \<Rightarrow> [LBundleStatus st'])"
  using request_prepare_Inr [OF assms(1)] assms
  by (auto simp: request_trace_def requestEscrow_def bindR_continue request_announce_def announce_with_def
      await_race_def emit_eq observe_def split: option.splits)

subsection \<open>The code against the specification\<close>

text \<open>
  Claim C11: refinement on the successful path: when the lock is accepted and its race
  settles to \<open>Success\<close>, the observable trace of \<open>requestEscrowWithSSS\<close> is a
  run of the specification's state machine from \<open>Built\<close>, which reaches
  \<open>Resolved\<close> exactly when the bundle's race settles.
\<close>

theorem request_trace_refines_spec:
  assumes "request_prepare cfg env c t mid amount price msg = (acts, Inr (client, sa, sl))"
    and "announce_ok env (signed_hash sl)" and "announce_ok env (signed_hash sa)"
    and "track (lock_watch client sl) (race_events env (lock_watch client sl)) = Some st"
    and "is_success st"
  shows "\<exists>s. spec_steps Built (request_trace cfg env c t mid amount price msg) s
           \<and> (s = Resolved \<longleftrightarrow>
                track (bundle_watch client sa) (race_events env (bundle_watch client sa)) \<noteq> None)"
  using assms
  by (auto simp: request_trace_eq [OF assms(1-4)] spec_step.simps split: option.splits)

text \<open>
  Claim C12: divergence on the failure path: when the lock's race settles to a status
  other than \<open>Success\<close>, no run of the specification's state machine produces the
  code's trace, since the code goes on to announce the bundle of a failed lock.
\<close>

theorem request_trace_violates_spec:
  assumes "request_prepare cfg env c t mid amount price msg = (acts, Inr (client, sa, sl))"
    and "announce_ok env (signed_hash sl)" and "announce_ok env (signed_hash sa)"
    and "track (lock_watch client sl) (race_events env (lock_watch client sl)) = Some st"
    and "\<not> is_success st"
  shows "\<not> spec_steps Built (request_trace cfg env c t mid amount price msg) s"
  using assms
  by (auto simp: request_trace_eq [OF assms(1-4)] spec_step.simps spec_steps_Resolved)


lemma cosign_trace_eq:
  assumes "node_url (env_ledger env) \<noteq> []" and "getAccountInfo (env_ledger env) c = Inr client"
    and "tx_detail (env_ledger env) Partial h \<noteq> None" and "sss_cosign env h" and "announce_ok env h"
  shows "cosign_trace env c h =
           [LCosign h, LAnnounceCosig h]
           @ (case track \<lparr>w_channel = ConfirmedAdded, w_address = client, w_hash = h\<rparr>
                     (race_events env \<lparr>w_channel = ConfirmedAdded, w_address = client, w_hash = h\<rparr>) of
                None \<Rightarrow> [] | Some st \<Rightarrow> [LParentStatus h st])"
  using assms
  by (auto simp: cosign_trace_def cosignedEscrow_def Let_def bindR_def liftE_def getTransaction_def
      await_race_def observe_cosign_def split: option.splits)

text \<open>
  Claim C13: refinement of the cosignature flow: when the node, the client's account
  and the partial bundle are found and the signer and the node accept the cosignature,
  the observable trace of \<open>cosignedEscrowWithSSS\<close> is a run of the specification's
  cosignature machine from the located bundle, which reaches \<open>Resolved\<close> exactly
  when the race on the parent bundle's confirmation settles.
\<close>

theorem cosign_trace_refines_spec:
  assumes "node_url (env_ledger env) \<noteq> []" and "getAccountInfo (env_ledger env) c = Inr client"
    and "tx_detail (env_ledger env) Partial h \<noteq> None" and "sss_cosign env h" and "announce_ok env h"
  shows "\<exists>s. cosign_steps (CLocated h) (cosign_trace env c h) s
           \<and> (s = CResolved \<longleftrightarrow>
                track \<lparr>w_channel = ConfirmedAdded, w_address = client, w_hash = h\<rparr>
                  (race_events env \<lparr>w_channel = ConfirmedAdded, w_address = client, w_hash = h\<rparr>) \<noteq> None)"
  by (auto simp: cosign_trace_eq [OF assms] cosign_step_simps split: option.splits)

end
