(* ===== verification/Navigation.thy ===== *)
theory Navigation
  imports Ledger
begin

text \<open>
  Navigation between the pages: the routes of the staged pages, the effect every
  page runs when the SSS signer's session state changes (\<open>useEffect\<close> on
  \<open>sssState\<close>), the left drawer's menu (\<open>components/LeftDrawer.tsx\<close>), and the
  detail page's button back to the list. The app state is the current route, the
  page's drawer flag and the client address the page derived from the signer's key.
  A push to another route mounts that page with its initial state. The \<open>/sss\<close>
  page is not among the sources: it is a route without transitions of its own. No
  page renders \<open>CardEscrowPartial\<close>, whose button is the only link to
  \<open>/detail\<close>, and no menu links to \<open>/escrow-request\<close>.
\<close>

datatype route = RHome | REscrow | REscrowRequest | RHistory | RDetail hash | RSss

datatype drawer_item = HomeItem | EscrowItem | HistoryItem

text \<open>The drawer's three entries (lines 44-86): \<open>router.push\<close> of their routes.\<close>

definition drawer_target :: "drawer_item \<Rightarrow> route" where
  "drawer_target i = (case i of HomeItem \<Rightarrow> RHome | EscrowItem \<Rightarrow> REscrow | HistoryItem \<Rightarrow> RHistory)"

record app_state =
  current :: route
  openLeftDrawer :: bool
  clientAddress :: string

text \<open>\<open>router.push(r)\<close>: the new page mounts with its initial state.\<close>

definition push :: "route \<Rightarrow> app_state \<Rightarrow> app_state" where
  "push r st = \<lparr>current = r, openLeftDrawer = False, clientAddress = []\<rparr>"

text \<open>
  The effect of every staged page (lines 38-46 of \<open>pages/index.tsx\<close>, 35-43 of
  \<open>pages/escrow\<close>, 36-44 of \<open>pages/escrow-request\<close>, 38-45 of \<open>pages/detail\<close>,
  24-31 of \<open>pages/history\<close>): an active session sets the client address (the
  plain address of the signer's public key, given here), an inactive or absent one
  sends the user to \<open>/sss\<close>, any other state (loading) does nothing.
\<close>

definition sss_effect :: "string \<Rightarrow> address \<Rightarrow> app_state \<Rightarrow> app_state" where
  "sss_effect sssState addr st =
     (if sssState = ''ACTIVE'' then st\<lparr>clientAddress := addr\<rparr>
      else if sssState = ''INACTIVE'' \<or> sssState = ''NONE'' then push RSss st
      else st)"

text \<open>
  What the user and the session can do on a staged page: the session state changes,
  the header's menu button opens the drawer, the drawer is dismissed or one of its
  entries is clicked, or the detail page's back button is pressed (line 160).
\<close>

datatype ui_event =
    SssUpdate string address
  | MenuButton
  | DrawerClose
  | DrawerClick drawer_item
  | BackToList

definition app_init :: app_state where
  "app_init = \<lparr>current = RHome, openLeftDrawer = False, clientAddress = []\<rparr>"

fun app_step :: "app_state \<Rightarrow> ui_event \<Rightarrow> app_state" where
  "app_step st (SssUpdate s a) = (if current st = RSss then st else sss_effect s a st)"
| "app_step st MenuButton = (if current st = RSss then st else st\<lparr>openLeftDrawer := True\<rparr>)"
| "app_step st DrawerClose = st\<lparr>openLeftDrawer := False\<rparr>"
| "app_step st (DrawerClick i) =
     (if openLeftDrawer st \<and> current st \<noteq> RSss then push (drawer_target i) st else st)"
| "app_step st BackToList = (case current st of RDetail h \<Rightarrow> push RHome st | _ \<Rightarrow> st)"

definition app_run :: "app_state \<Rightarrow> ui_event list \<Rightarrow> app_state" where
  "app_run st evs = foldl app_step st evs"

inductive app_reach :: "app_state \<Rightarrow> bool" where
  start: "app_reach app_init"
| step: "app_reach st \<Longrightarrow> app_reach (app_step st e)"

text \<open>The routes a user reaches from the entry page through the pages' own controls.\<close>

definition menu_route :: "route \<Rightarrow> bool" where
  "menu_route r \<longleftrightarrow> r \<in> {RHome, REscrow, RHistory, RSss}"

subsection \<open>Lemmas\<close>

lemma app_run_Cons [simp]: "app_run st (e # evs) = app_run (app_step st e) evs"
  by (simp add: app_run_def)

lemma app_run_Nil [simp]: "app_run st [] = st"
  by (simp add: app_run_def)

lemma app_reach_run: "app_reach st \<Longrightarrow> app_reach (app_run st evs)"
  by (induction evs arbitrary: st) (auto intro: app_reach.step)

lemma menu_route_push [simp]: "menu_route (current (push r st)) \<longleftrightarrow> menu_route r"
  by (simp add: push_def)

lemma app_step_menu_route: "menu_route (current st) \<Longrightarrow> menu_route (current (app_step st e))"
  by (cases e) (auto simp: sss_effect_def menu_route_def drawer_target_def push_def
      split: drawer_item.splits route.splits)

subsection \<open>Properties of the navigation\<close>

text \<open>
  Claim C29: every state reached from the entry page through the pages' controls
  and the session's changes shows the home, escrow, history or \<open>/sss\<close> page: the
  legacy \<open>/escrow-request\<close> page and the \<open>/detail\<close> page, where a counterparty
  cosigns, are reachable only by typing their URL.
\<close>

theorem app_reach_menu_routes:
  assumes "app_reach st"
  shows "menu_route (current st) \<and> current st \<noteq> REscrowRequest \<and> (\<forall>h. current st \<noteq> RDetail h)"
proof -
  from assms have "menu_route (current st)"
  proof induction
    case start
    then show ?case by (simp add: app_init_def menu_route_def)
  next
    case (step st e)
    from step.IH show ?case by (rule app_step_menu_route)
  qed
  then show ?thesis by (auto simp: menu_route_def)
qed

end
