(* ===== verification/Screens.thy ===== *)
theory Screens
  imports Pages
begin

text \<open>
  What the pages render, as the values their markup interpolates: a page shows the
  spinner (\<open>progress ? <Backdrop/> : ...\<close>) or its content; an escrow card shows
  the role label, the escrow's fields, the explorer link and, on a partial card, the
  button to the detail page. The detail page's events (the search's result arriving,
  the sign button) form a small state machine whose reachable states are
  characterised below. Formatting helpers (\<open>unixTimeToDateTime\<close>, not among the
  sources) are left as the values they receive.
\<close>

subsection \<open>Screens and cards\<close>

datatype 'a screen = Spinner | Shown 'a

datatype card_role = RequestedByMe | RequestedOfMe

record card_view =
  cv_role :: card_role
  cv_mosaicId :: string
  cv_amount :: nat
  cv_price :: jsnum
  cv_message :: string
  cv_time :: "nat option"
  cv_link :: string
  cv_detail :: "hash option"

text \<open>The explorer link of every card and page (\<open>window.open\<close>).\<close>

definition explorer_url :: "hash \<Rightarrow> string" where
  "explorer_url h = ''https://testnet.symbol.fyi/transactions/'' @ h"

definition card_role_of :: "string \<Rightarrow> escrow_record \<Rightarrow> card_role" where
  "card_role_of clientAddress escrow =
     (if card_is_requester clientAddress escrow then RequestedByMe else RequestedOfMe)"

text \<open>
  \<open>CardEscrowPartial\<close> (lines 14-127): the expiration time, and the detail button
  for the party that did not request the escrow.
\<close>

definition partial_card :: "string \<Rightarrow> escrow_record \<Rightarrow> card_view" where
  "partial_card clientAddress escrow =
     \<lparr>cv_role = card_role_of clientAddress escrow, cv_mosaicId = er_mosaicId escrow,
      cv_amount = er_amount escrow, cv_price = er_price escrow, cv_message = er_message escrow,
      cv_time = er_expirationTime escrow, cv_link = explorer_url (er_hash escrow),
      cv_detail = (if card_offers_detail clientAddress escrow then Some (er_hash escrow) else None)\<rparr>"

text \<open>\<open>CardEscrowConfirmed\<close> (lines 12-106): the block's time, no button.\<close>

definition confirmed_card :: "string \<Rightarrow> escrow_record \<Rightarrow> card_view" where
  "confirmed_card clientAddress escrow =
     \<lparr>cv_role = card_role_of clientAddress escrow, cv_mosaicId = er_mosaicId escrow,
      cv_amount = er_amount escrow, cv_price = er_price escrow, cv_message = er_message escrow,
      cv_time = Some (er_blockCreateTime escrow), cv_link = explorer_url (er_hash escrow),
      cv_detail = None\<rparr>"

text \<open>\<open>pages/history\<close> (lines 51-77): the spinner, or one confirmed card per escrow.\<close>

definition history_screen :: "string \<Rightarrow> history_state \<Rightarrow> card_view list screen" where
  "history_screen clientAddress st =
     (if h_progress st then Spinner else Shown (map (confirmed_card clientAddress) (escrowDataList st)))"

text \<open>
  \<open>pages/detail\<close> (lines 104-167): the trade offered to the counterparty (its asset,
  amount and price), the requester, the message, and the two buttons.
\<close>

record detail_view =
  dt_mosaicId :: string
  dt_amount :: nat
  dt_price :: jsnum
  dt_requester :: "address option"
  dt_message :: string

definition detail_screen :: "detail_state \<Rightarrow> detail_view screen" where
  "detail_screen st =
     (if progress (d_ui st) then Spinner
      else Shown \<lparr>dt_mosaicId = er_mosaicId (escrowData st), dt_amount = er_amount (escrowData st),
                  dt_price = er_price (escrowData st), dt_requester = er_signerAddress (escrowData st),
                  dt_message = er_message (escrowData st)\<rparr>)"

text \<open>
  The request pages' form (lines 151-253 of \<open>pages/escrow\<close>): the spinner, or the
  form with, for each field, the rule react-hook-form reported (\<open>error\<close> and
  \<open>helperText\<close>).
\<close>

definition request_screen ::
  "(form_field \<times> rule_error) list \<Rightarrow> page_state \<Rightarrow> (form_field \<Rightarrow> rule_error option) screen" where
  "request_screen errs st = (if progress st then Spinner else Shown (map_of errs))"

text \<open>
  The home page's list (lines 98-221 of \<open>pages/index.tsx\<close>): one entry whose
  every value is a literal of the source, whatever the client and the ledger. Its
  Japanese texts (the status \<open>requesting\<close>, the message, the unit after the
  amount) are named by constructors.
\<close>

datatype home_text = HomeRequesting | HomeMockMessage

record home_entry =
  he_status :: home_text
  he_message :: home_text
  he_deadline :: string
  he_mosaicId :: string
  he_amount :: nat
  he_price :: string
  he_hash :: hash
  he_link :: string

definition home_mock :: home_entry where
  "home_mock =
     \<lparr>he_status = HomeRequesting, he_message = HomeMockMessage, he_deadline = ''2021/10/10 10:10:10'',
      he_mosaicId = ''69601B95CF27C9C3'', he_amount = 1, he_price = ''400xym'',
      he_hash = ''0FCCAED8BC13BFC62465F1501D857E8C3FE99DBBA3FA31A99EE6DDB6F2130E79'',
      he_link = explorer_url ''0FCCAED8BC13BFC62465F1501D857E8C3FE99DBBA3FA31A99EE6DDB6F2130E79''\<rparr>"

definition home_screen :: "page_state \<Rightarrow> home_entry list screen" where
  "home_screen st = (if progress st then Spinner else Shown [home_mock])"

subsection \<open>The detail page's events\<close>

text \<open>
  The search's result arrives (\<open>initalescrowDataList\<close>, run by the effect whenever
  the client address or session state changes), or the user presses the sign
  button, which exists only while the page shows its content. The state pairs the
  page's React state with the actions its handlers have performed.
\<close>

datatype detail_event = DetailLoaded | SignClicked

fun detail_step ::
  "config \<Rightarrow> env \<Rightarrow> string \<Rightarrow> hash \<Rightarrow> detail_state \<times> action list \<Rightarrow> detail_event
     \<Rightarrow> detail_state \<times> action list" where
  "detail_step cfg env c h (st, acts) DetailLoaded = (detail_load cfg (env_ledger env) c h st, acts)"
| "detail_step cfg env c h (st, acts) SignClicked =
     (case detail_screen st of
        Spinner \<Rightarrow> (st, acts)
      | Shown _ \<Rightarrow> (case detail_agree env c st of (acts', st') \<Rightarrow> (st', acts @ acts')))"

inductive detail_reach :: "config \<Rightarrow> env \<Rightarrow> string \<Rightarrow> hash \<Rightarrow> detail_state \<times> action list \<Rightarrow> bool"
  for cfg env c h where
  start: "detail_reach cfg env c h (detail_init, [])"
| step: "detail_reach cfg env c h s \<Longrightarrow> detail_reach cfg env c h (detail_step cfg env c h s e)"

definition detail_inv :: "hash \<Rightarrow> detail_state \<times> action list \<Rightarrow> bool" where
  "detail_inv h s \<longleftrightarrow> (\<not> progress (d_ui (fst s)) \<longrightarrow> er_hash (escrowData (fst s)) = h)
     \<and> (\<forall>x. CosignRequest x \<in> set (snd s) \<longrightarrow> x = h)"

subsection \<open>The history page's events\<close>

text \<open>
  \<open>pages/history\<close> (lines 15-22, 34-44): the page starts with the spinner on and
  an empty list. Its effect, once the client's address is known, starts
  \<open>initalescrowDataList()\<close> without awaiting it and turns the spinner off at
  once; the search's completion later replaces the list when it gives one. The
  boolean beside the state records a search in flight.
\<close>

definition history_init :: history_state where
  "history_init = \<lparr>h_progress = True, escrowDataList = []\<rparr>"

datatype history_event = HistEffect | HistSearchDone

fun history_step ::
  "config \<Rightarrow> ledger \<Rightarrow> string \<Rightarrow> history_state \<times> bool \<Rightarrow> history_event \<Rightarrow> history_state \<times> bool" where
  "history_step cfg l c (st, busy) HistEffect =
     (if c = [] then (st, busy) else (st\<lparr>h_progress := False\<rparr>, True))"
| "history_step cfg l c (st, busy) HistSearchDone =
     (if \<not> busy then (st, busy)
      else (case searchEscrow cfg l c Confirmed of
              Inr (Some result) \<Rightarrow> st\<lparr>escrowDataList := result\<rparr>
            | _ \<Rightarrow> st, False))"

inductive history_reach :: "config \<Rightarrow> ledger \<Rightarrow> string \<Rightarrow> history_state \<times> bool \<Rightarrow> bool"
  for cfg l c where
  start: "history_reach cfg l c (history_init, False)"
| step: "history_reach cfg l c s \<Longrightarrow> history_reach cfg l c (history_step cfg l c s e)"

subsection \<open>Lemmas\<close>

lemma detail_fold_inv:
  "(\<not> progress (d_ui st) \<longrightarrow> er_hash (escrowData st) = h) \<Longrightarrow>
   (\<not> progress (d_ui (foldl (\<lambda>s escrow. if h = er_hash escrow
       then s\<lparr>escrowData := escrow, d_ui := (d_ui s)\<lparr>progress := False\<rparr>\<rparr> else s) st rs))
    \<longrightarrow> er_hash (escrowData (foldl (\<lambda>s escrow. if h = er_hash escrow
       then s\<lparr>escrowData := escrow, d_ui := (d_ui s)\<lparr>progress := False\<rparr>\<rparr> else s) st rs)) = h)"
  by (induction rs arbitrary: st) auto

lemma detail_load_inv:
  "(\<not> progress (d_ui st) \<longrightarrow> er_hash (escrowData st) = h) \<Longrightarrow>
   \<not> progress (d_ui (detail_load cfg l c h st)) \<Longrightarrow> er_hash (escrowData (detail_load cfg l c h st)) = h"
  using detail_fold_inv [of st h] by (auto simp: detail_load_def split: sum.splits option.splits)

lemma cosignedEscrow_cosigns:
  "CosignRequest x \<in> set (fst (cosignedEscrow env c h)) \<Longrightarrow> x = h"
  by (auto simp: cosignedEscrow_def Let_def bindR_def liftE_def announce_with_def await_race_def stop_def
      split: sum.splits prod.splits if_splits option.splits)

lemma detail_agree_eq:
  "detail_agree env c st = (fst (cosignedEscrow env c (er_hash (escrowData st))),
     st\<lparr>d_ui := show_status (awaited (cosignedEscrow env c (er_hash (escrowData st))))
                              ((d_ui st)\<lparr>progress := True\<rparr>)\<rparr>)"
  by (simp add: detail_agree_def Let_def)

lemma detail_step_inv: "detail_inv h s \<Longrightarrow> detail_inv h (detail_step cfg env c h s e)"
proof (cases s)
  case (Pair st acts)
  assume inv: "detail_inv h s"
  show ?thesis
  proof (cases e)
    case DetailLoaded
    with inv Pair show ?thesis by (auto simp: detail_inv_def intro: detail_load_inv)
  next
    case SignClicked
    show ?thesis
    proof (cases "progress (d_ui st)")
      case True
      with inv Pair SignClicked show ?thesis by (simp add: detail_screen_def)
    next
      case False
      with inv Pair have h: "er_hash (escrowData st) = h" by (simp add: detail_inv_def)
      with inv Pair SignClicked False show ?thesis
        by (auto simp: detail_inv_def detail_screen_def detail_agree_eq dest: cosignedEscrow_cosigns)
    qed
  qed
qed

lemma history_step_busy: "snd s \<longrightarrow> \<not> h_progress (fst s) \<Longrightarrow>
    snd (history_step cfg l c s e) \<longrightarrow> \<not> h_progress (fst (history_step cfg l c s e))"
  by (cases s; cases e) (auto split: sum.splits option.splits)

lemma history_steps_load:
  "c \<noteq> [] \<Longrightarrow>
   fst (history_step cfg l c (history_step cfg l c (st, b) HistEffect) HistSearchDone) = history_load cfg l c st"
  by (simp add: history_load_def split: sum.splits option.splits)

subsection \<open>Properties of the screens\<close>

text \<open>
  Claim C21: in every state the detail page reaches, its content (and with it the
  sign button) is shown only for the escrow whose hash the URL names, and every
  cosignature it requests is for that hash: the blank record it starts with is never
  cosigned, and neither is another escrow of the client.
\<close>

theorem detail_page_cosigns_named_escrow:
  assumes "detail_reach cfg env c h (st, acts)"
  shows "(\<not> progress (d_ui st) \<longrightarrow> er_hash (escrowData st) = h) \<and> (\<forall>x. CosignRequest x \<in> set acts \<longrightarrow> x = h)"
proof -
  from assms have "detail_inv h (st, acts)"
  proof induction
    case start
    then show ?case by (simp add: detail_inv_def detail_init_def page_init_def)
  next
    case (step s e)
    from step.IH show ?case by (rule detail_step_inv)
  qed
  then show ?thesis by (simp add: detail_inv_def)
qed


text \<open>
  Claim C35: in every state the history page reaches while its search is still in
  flight, no spinner is shown: the page already displays the cards of the list it
  holds, which on the first load is the empty initial list, indistinguishable from
  a client without confirmed escrows.
\<close>

theorem history_no_spinner_while_searching:
  assumes "history_reach cfg l c (st, True)"
  shows "history_screen c st = Shown (map (confirmed_card c) (escrowDataList st))"
proof -
  have "snd (st, True) \<longrightarrow> \<not> h_progress (fst (st, True))"
    using assms
  proof induction
    case start
    then show ?case by (simp add: history_init_def)
  next
    case (step s e)
    from step.IH show ?case by (rule history_step_busy)
  qed
  then show ?thesis by (simp add: history_screen_def)
qed

end
