(* ===== verification/Sessions.thy ===== *)
theory Sessions
  imports Screens
begin

text \<open>
  The pages that load from the ledger (\<open>pages/history\<close>, \<open>pages/detail\<close>) under
  changes of the SSS session: their two effects and the completions of the searches
  they start, as events of one step function, stated over what a page does when it
  starts a search and when a search completes. The first effect (deps
  \<open>[clientPublicKey, sssState]\<close>) sets the client address from an active session
  and leaves for \<open>/sss\<close> on an inactive or absent one. The second (deps
  \<open>[clientAddress, sssState]\<close>) starts \<open>initalescrowDataList()\<close> without
  awaiting it, when the session is active and the address known. React runs both
  effects of a render in order on the state of that render, so the second effect
  sees a new session state with the old address, and sees a new address only on the
  render that \<open>setClientAddress\<close> causes. The searches in flight are kept in start
  order with the address each was started for; the network may complete them in any
  order.
\<close>

record 'p page_session =
  ps_sss :: string
  ps_client :: string
  ps_page :: 'p
  ps_pending :: "string list"
  ps_left :: bool

text \<open>The session state before the signer has answered is the empty string.\<close>

definition session_init :: "'p \<Rightarrow> 'p page_session" where
  "session_init p = \<lparr>ps_sss = [], ps_client = [], ps_page = p, ps_pending = [], ps_left = False\<rparr>"

datatype session_event = SssChange string address | SearchDone nat

text \<open>The second effect, run on the state of one render.\<close>

definition data_effect :: "('p \<Rightarrow> 'p) \<Rightarrow> 'p page_session \<Rightarrow> 'p page_session" where
  "data_effect start s =
     (if ps_sss s = ''ACTIVE'' \<and> ps_client s \<noteq> []
      then s\<lparr>ps_pending := ps_pending s @ [ps_client s], ps_page := start (ps_page s)\<rparr>
      else s)"

fun session_step ::
  "('p \<Rightarrow> 'p) \<Rightarrow> (string \<Rightarrow> 'p \<Rightarrow> 'p) \<Rightarrow> 'p page_session \<Rightarrow> session_event \<Rightarrow> 'p page_session" where
  "session_step start finish s (SssChange sss a) =
     (if ps_left s then s else
      let s1 = s\<lparr>ps_sss := sss\<rparr>;
          s2 = (if sss \<noteq> ps_sss s then data_effect start s1 else s1)
      in if sss = ''ACTIVE'' then (if a \<noteq> ps_client s then data_effect start (s2\<lparr>ps_client := a\<rparr>) else s2)
         else if sss = ''INACTIVE'' \<or> sss = ''NONE'' then s2\<lparr>ps_left := True\<rparr>
         else s2)"
| "session_step start finish s (SearchDone i) =
     (if i < length (ps_pending s)
      then s\<lparr>ps_pending := take i (ps_pending s) @ drop (Suc i) (ps_pending s),
             ps_page := finish (ps_pending s ! i) (ps_page s)\<rparr>
      else s)"

inductive session_reach ::
  "'p \<Rightarrow> ('p \<Rightarrow> 'p) \<Rightarrow> (string \<Rightarrow> 'p \<Rightarrow> 'p) \<Rightarrow> 'p page_session \<Rightarrow> bool"
  for p0 start finish where
  init: "session_reach p0 start finish (session_init p0)"
| step: "session_reach p0 start finish s \<Longrightarrow> session_reach p0 start finish (session_step start finish s e)"

text \<open>
  The history page (lines 33-44): starting a search drops the spinner at once
  (\<open>setProgress(false)\<close> after the unawaited call); a completion replaces the
  list when the search gives one. The detail page (lines 48-63) does nothing when it
  starts a search, and a completion is \<open>detail_load\<close> for the address the search
  was started with.
\<close>

definition history_start :: "history_state \<Rightarrow> history_state" where
  "history_start st = st\<lparr>h_progress := False\<rparr>"

definition history_done :: "config \<Rightarrow> ledger \<Rightarrow> string \<Rightarrow> history_state \<Rightarrow> history_state" where
  "history_done cfg l c st =
     (case searchEscrow cfg l c Confirmed of Inr (Some result) \<Rightarrow> st\<lparr>escrowDataList := result\<rparr> | _ \<Rightarrow> st)"

subsection \<open>Lemmas\<close>

lemma session_reach_steps:
  "session_reach p0 start finish s \<Longrightarrow> session_reach p0 start finish (foldl (session_step start finish) s evs)"
  by (induction evs arbitrary: s) (auto intro: session_reach.step)

text \<open>
  Two activations in a row, then the completion of the newer search before the
  older one.
\<close>

lemma session_switch_done:
  assumes "a1 \<noteq> []" and "a2 \<noteq> []" and "a1 \<noteq> a2"
  shows "foldl (session_step start finish) (session_init p0)
           [SssChange ''ACTIVE'' a1, SssChange ''ACTIVE'' a2, SearchDone 1, SearchDone 0]
           = \<lparr>ps_sss = ''ACTIVE'', ps_client = a2, ps_page = finish a1 (finish a2 (start (start p0))),
              ps_pending = [], ps_left = False\<rparr>"
  using assms by (simp add: session_init_def data_effect_def Let_def)

text \<open>
  Without a change of account the history page's session agrees with
  \<open>history_load\<close>: one activation and the completion of the one search it starts.
\<close>

lemma history_session_single_load:
  assumes "a \<noteq> []"
  shows "ps_page (foldl (session_step history_start (history_done cfg l)) (session_init history_init)
           [SssChange ''ACTIVE'' a, SearchDone 0]) = history_load cfg l a history_init"
  using assms
  by (simp add: session_init_def data_effect_def history_start_def history_done_def history_init_def
      history_load_def Let_def split: sum.splits option.splits)

subsection \<open>Properties of the sessions\<close>

text \<open>
  Claim C36: a switch of the signer's account while the history page is open can
  leave it showing the previous account's confirmed escrows, with no search left in
  flight and the session active on the new account: both searches run, nothing
  discards the stale one, and the network may complete the new account's search
  first.
\<close>

theorem history_shows_previous_account:
  assumes "a1 \<noteq> []" and "a2 \<noteq> []" and "a1 \<noteq> a2" and "searchEscrow cfg l a1 Confirmed = Inr (Some r1)"
  shows "\<exists>s. session_reach history_init history_start (history_done cfg l) s \<and> \<not> ps_left s
           \<and> ps_sss s = ''ACTIVE'' \<and> ps_client s = a2 \<and> ps_pending s = []
           \<and> history_screen a2 (ps_page s) = Shown (map (confirmed_card a2) r1)"
proof -
  let ?p = "history_done cfg l a1 (history_done cfg l a2 (history_start (history_start history_init)))"
  have "session_reach history_init history_start (history_done cfg l)
          (foldl (session_step history_start (history_done cfg l)) (session_init history_init)
             [SssChange ''ACTIVE'' a1, SssChange ''ACTIVE'' a2, SearchDone 1, SearchDone 0])"
    by (rule session_reach_steps [OF session_reach.init])
  then have reach: "session_reach history_init history_start (history_done cfg l)
      \<lparr>ps_sss = ''ACTIVE'', ps_client = a2, ps_page = ?p, ps_pending = [], ps_left = False\<rparr>"
    by (simp only: session_switch_done [OF assms(1-3)])
  have "history_screen a2 ?p = Shown (map (confirmed_card a2) r1)"
    using assms(4)
    by (simp add: history_done_def history_start_def history_init_def history_screen_def
        split: sum.splits option.splits)
  with reach show ?thesis by fastforce
qed


text \<open>
  Claim C37: after a switch of the signer's account, the detail page can end with
  the session active on the new account, no search in flight, and the sign button
  shown for a bundle found only among the previous account's partial bundles;
  clicking it runs \<open>cosignedEscrowWithSSS\<close> for that bundle as the new account.
\<close>

theorem detail_shows_previous_account:
  assumes "a1 \<noteq> []" and "a2 \<noteq> []" and "a1 \<noteq> a2"
    and "searchEscrow cfg l a1 Partial = Inr (Some rs)" and "r \<in> set rs" and "er_hash r = h"
    and "\<forall>rs'. searchEscrow cfg l a2 Partial = Inr (Some rs') \<longrightarrow> (\<forall>r' \<in> set rs'. er_hash r' \<noteq> h)"
  shows "\<exists>s. session_reach detail_init id (\<lambda>c. detail_load cfg l c h) s
           \<and> ps_sss s = ''ACTIVE'' \<and> ps_client s = a2 \<and> ps_pending s = []
           \<and> (\<exists>v. detail_screen (ps_page s) = Shown v) \<and> er_hash (escrowData (ps_page s)) = h
           \<and> fst (detail_agree env a2 (ps_page s)) = fst (cosignedEscrow env a2 h)"
proof -
  let ?p = "detail_load cfg l a1 h (detail_load cfg l a2 h (id (id detail_init)))"
  have "session_reach detail_init id (\<lambda>c. detail_load cfg l c h)
          (foldl (session_step id (\<lambda>c. detail_load cfg l c h)) (session_init detail_init)
             [SssChange ''ACTIVE'' a1, SssChange ''ACTIVE'' a2, SearchDone 1, SearchDone 0])"
    by (rule session_reach_steps [OF session_reach.init])
  then have reach: "session_reach detail_init id (\<lambda>c. detail_load cfg l c h)
      \<lparr>ps_sss = ''ACTIVE'', ps_client = a2, ps_page = ?p, ps_pending = [], ps_left = False\<rparr>"
    by (simp only: session_switch_done [OF assms(1-3)])
  have "detail_load cfg l a2 h detail_init = detail_init"
    using assms(7) detail_fold_missing by (auto simp: detail_load_def split: sum.splits option.splits)
  then have "er_hash (escrowData ?p) = h \<and> \<not> progress (d_ui ?p)"
    using detail_load_shows_match [OF assms(4-6)] by simp
  then have "er_hash (escrowData ?p) = h" and "\<exists>v. detail_screen ?p = Shown v"
    and "fst (detail_agree env a2 ?p) = fst (cosignedEscrow env a2 h)"
    by (auto simp: detail_screen_def detail_agree_def Let_def)
  with reach show ?thesis by fastforce
qed

end
