(* ===== verification/Examples.thy ===== *)
theory Examples
  imports Reconstructor Forms Protocol Navigation Sessions
begin

text \<open>
  Sample values of the model's types (a configuration, a ledger holding one escrow
  bundle, a signer, watches and statuses) and the closed instances of the
  development's properties at these values: each shows that the hypotheses of a
  property can hold together, and what it concludes there.
\<close>

subsection \<open>Sample values\<close>

definition addr_client :: address where "addr_client = replicate 39 (CHR ''C'')"
definition addr_target :: address where "addr_target = replicate 39 (CHR ''T'')"
definition addr_admin :: address where "addr_admin = replicate 39 (CHR ''A'')"

definition sample_config :: config where
  "sample_config = \<lparr>currencyMosaicID = ''0000000000000007'', epochAdjustment = 1667250467,
     hashLockTxDuration = 480, servieFee = 1/10, servieName = ''escrow''\<rparr>"

definition sample_pay :: transfer_tx where
  "sample_pay = \<lparr>recipientAddress = addr_target, mosaics = [\<lparr>mosaic_id = 7, mosaic_amount = 100000000\<rparr>],
     message_payload = ''123'', tx_signer = Some addr_client\<rparr>"

definition sample_asset :: transfer_tx where
  "sample_asset = \<lparr>recipientAddress = addr_client, mosaics = [\<lparr>mosaic_id = 58, mosaic_amount = 5\<rparr>],
     message_payload = ''m'', tx_signer = Some addr_target\<rparr>"

definition sample_fee :: transfer_tx where
  "sample_fee = \<lparr>recipientAddress = addr_admin, mosaics = [\<lparr>mosaic_id = 7, mosaic_amount = 10000000\<rparr>],
     message_payload = ''escrow'', tx_signer = Some addr_client\<rparr>"

definition sample_bundle :: aggregate_tx where
  "sample_bundle = \<lparr>agg_type = AggregateBonded,
     innerTransactions = [TransferInner sample_pay, TransferInner sample_asset, TransferInner sample_fee]\<rparr>"

definition sample_entry :: tx_entry where
  "sample_entry = \<lparr>entry_hash = ''H1'', entry_height = 0\<rparr>"

definition sample_ledger :: ledger where
  "sample_ledger = \<lparr>node_url = ''http://node'', accounts = (\<lambda>a. Some a), chain_height = 10,
     block_timestamp = (\<lambda>h. Some 1000),
     bonded_search = (\<lambda>g a. [sample_entry]),
     tx_detail = (\<lambda>g h. if h = ''H1'' then Some sample_bundle else None),
     admin_address = addr_admin\<rparr>"

definition sample_record :: escrow_record where
  "sample_record = \<lparr>er_recipientAddress = addr_target, er_signerAddress = Some addr_client,
     er_blockCreateTime = 0, er_expirationTime = Some 123, er_mosaicId = ''000000000000003A'',
     er_amount = 5, er_price = 100, er_message = ''m'', er_hash = ''H1''\<rparr>"

definition sample_watch :: watch where
  "sample_watch = \<lparr>w_channel = ConfirmedAdded, w_address = addr_client, w_hash = ''L1''\<rparr>"

definition sample_ok :: tx_status where
  "sample_ok = \<lparr>st_code = ''Success'', st_group = ''confirmed'', st_hash = ''L1''\<rparr>"

definition sample_failure :: tx_status where
  "sample_failure = \<lparr>st_code = ''Failure_Core_Insufficient_Balance'', st_group = ''failed'',
     st_hash = ''L1''\<rparr>"

definition sample_env :: env where
  "sample_env = \<lparr>env_ledger = sample_ledger,
     sss_sign = (\<lambda>tx. case tx of AggregateTx _ \<Rightarrow> Some ''A1'' | HashLockTx _ \<Rightarrow> Some ''L1''),
     sss_cosign = (\<lambda>h. True), announce_ok = (\<lambda>h. True),
     race_events = (\<lambda>w. [Message (w_channel w) (w_address w) (w_hash w), HandlerReply (Fetched sample_ok)])\<rparr>"

definition sample_bundle_until :: "nat \<Rightarrow> aggregate_tx" where
  "sample_bundle_until n = sample_bundle\<lparr>innerTransactions :=
     [TransferInner (sample_pay\<lparr>message_payload := num_toString n\<rparr>), TransferInner sample_asset,
      TransferInner sample_fee]\<rparr>"

definition sample_signed_bundle :: signed_tx where
  "sample_signed_bundle = \<lparr>signed_hash = ''A1'', signed_of = AggregateTx sample_bundle\<rparr>"

definition sample_lock :: hash_lock_tx where
  "sample_lock = \<lparr>lock_mosaic = \<lparr>mosaic_id = 7, mosaic_amount = 10000000\<rparr>, lock_duration = 480,
     lock_hash = ''A1''\<rparr>"

definition sample_signed_lock :: signed_tx where
  "sample_signed_lock = \<lparr>signed_hash = ''L1'', signed_of = HashLockTx sample_lock\<rparr>"

definition sample_bundle_watch :: watch where
  "sample_bundle_watch = \<lparr>w_channel = AggregateBondedAdded, w_address = addr_client, w_hash = ''A1''\<rparr>"

definition sample_inputs :: escrow_inputs where
  "sample_inputs = \<lparr>in_targetAddress = addr_target, in_mosaicId = ''000000000000003A'', in_amount = 5,
     in_price = 100, in_message = ''m''\<rparr>"

definition sample_page :: page_state where
  "sample_page = page_init\<lparr>inputData := Some sample_inputs\<rparr>"

definition bad_mosaic_inputs :: escrow_inputs where
  "bad_mosaic_inputs = sample_inputs\<lparr>in_mosaicId := ''ZZZZZZZZZZZZZZZZ''\<rparr>"

definition failing_events :: "watch \<Rightarrow> race_event list" where
  "failing_events w = [Message (w_channel w) (w_address w) (w_hash w), HandlerReply (Fetched sample_failure)]"

subsection \<open>Evaluation facts\<close>

lemma fixed_digits_numeral:
  "fixed_digits b (numeral k) n = fixed_digits b (pred_numeral k) (n div b) @ [n mod b]"
  by (simp add: numeral_eq_Suc)

lemmas sample_eval = fixed_digits_numeral hex_char_def char_of_def bit_0 js_Number_def dec_val_def
  mosaicId_toHex_def compact_u64_def

lemma sample_watch_message:
  "Message (w_channel sample_watch) (w_address sample_watch) (w_hash sample_watch) =
   Message ConfirmedAdded addr_client ''L1''"
  by (simp add: sample_watch_def)

lemma sample_ok_settles:
  "track sample_watch [Message ConfirmedAdded addr_client ''L1'', HandlerReply (Fetched sample_ok)] = Some sample_ok"
  by (simp add: track_def race_init_def race_defs sample_watch_def)

lemma sample_reconstruct:
  "reconstruct_entry sample_config sample_ledger g sample_entry = Inr (Some sample_record)"
proof -
  have "reconstruct_entry sample_config sample_ledger g sample_entry = Inr (Some
          \<lparr>er_recipientAddress = recipientAddress sample_pay, er_signerAddress = tx_signer sample_pay,
           er_blockCreateTime = 0, er_expirationTime = js_Number (message_payload sample_pay),
           er_mosaicId = mosaicId_toHex (mosaic_id \<lparr>mosaic_id = 58, mosaic_amount = 5\<rparr>),
           er_amount = unat (mosaic_amount \<lparr>mosaic_id = 58, mosaic_amount = (5::u64)\<rparr>),
           er_price = of_nat (unat (mosaic_amount \<lparr>mosaic_id = 7, mosaic_amount = (100000000::u64)\<rparr>)) / 1000000,
           er_message = message_payload sample_asset, er_hash = entry_hash sample_entry\<rparr>)"
    by (rule reconstruct_entry_wellformed [of sample_ledger g sample_entry sample_bundle
          sample_pay sample_asset sample_fee "[]" "\<lparr>mosaic_id = 7, mosaic_amount = 100000000\<rparr>" "[]"
          "\<lparr>mosaic_id = 58, mosaic_amount = 5\<rparr>" "[]" sample_config 0])
       (simp_all add: sample_ledger_def sample_entry_def sample_bundle_def sample_pay_def
          sample_asset_def sample_fee_def sample_config_def block_create_time_def)
  also have "\<dots> = Inr (Some sample_record)"
    by (simp add: sample_record_def sample_pay_def sample_asset_def sample_entry_def sample_eval)
  finally show ?thesis .
qed

lemma sample_ledger_account: "getAccountInfo sample_ledger addr_client = Inr addr_client"
  by (simp add: getAccountInfo_def address_create_def addr_client_def sample_ledger_def)

lemma sample_ledger_simps [simp]:
  "node_url sample_ledger = ''http://node''"
  "bonded_search sample_ledger g a = [sample_entry]"
  "tx_detail sample_ledger g ''H1'' = Some sample_bundle"
  by (simp_all add: sample_ledger_def)

lemma sample_search:
  "searchEscrow sample_config sample_ledger addr_client Partial = Inr (Some [sample_record])"
  by (simp add: searchEscrow_def sample_reconstruct sample_ledger_account)

lemma sample_search_confirmed:
  "searchEscrow sample_config sample_ledger addr_client Confirmed = Inr (Some [sample_record])"
  by (simp add: searchEscrow_def sample_reconstruct sample_ledger_account)

lemma sample_currency: "mosaicId_create ''0000000000000007'' = Inr 7"
  by (simp add: mosaicId_create_def hex_val_def)

lemma sample_asset_id: "mosaicId_create ''000000000000003A'' = Inr 58"
  by (simp add: mosaicId_create_def hex_val_def)

lemma sample_build:
  "build_escrow_aggregate sample_config addr_client addr_target addr_admin ''000000000000003A'' 5 100 ''m'' 123
     = Inr sample_bundle"
  by (simp add: build_escrow_aggregate_def sample_config_def sample_currency sample_asset_id fromUint_def
      addr_admin_def transfer_create_def toAggregate_def sample_bundle_def sample_pay_def sample_asset_def
      sample_fee_def num_toString_def dec_digits.simps sample_eval addr_client_def addr_target_def
      address_create_def)

lemma sample_build_lock:
  "build_hash_lock ''0000000000000007'' 480 sample_signed_bundle = Inr sample_lock"
  by (simp add: build_hash_lock_def sample_currency fromUint_def sample_signed_bundle_def is_bonded_def
      sample_bundle_def sample_lock_def)

lemma sample_build_until:
  "build_escrow_aggregate sample_config addr_client addr_target addr_admin ''000000000000003A'' 5 100 ''m'' n
     = Inr (sample_bundle_until n)"
  by (simp add: build_escrow_aggregate_def sample_config_def sample_currency sample_asset_id fromUint_def
      addr_admin_def transfer_create_def toAggregate_def sample_bundle_until_def sample_bundle_def
      sample_pay_def sample_asset_def sample_fee_def addr_client_def addr_target_def address_create_def)

lemma sample_env_track:
  "track w (race_events sample_env w) = Some sample_ok"
  by (simp add: sample_env_def track_def race_init_def race_defs)

lemma sample_env_simps [simp]:
  "env_ledger sample_env = sample_ledger" "announce_ok sample_env h" "sss_cosign sample_env h"
  "sss_sign sample_env (AggregateTx a) = Some ''A1''" "sss_sign sample_env (HashLockTx k) = Some ''L1''"
  by (simp_all add: sample_env_def)

lemma sample_ledger_more [simp]:
  "chain_height sample_ledger = 10" "block_timestamp sample_ledger h = Some 1000"
  "admin_address sample_ledger = addr_admin"
  "getAccountInfo sample_ledger addr_target = Inr addr_target"
  by (simp_all add: sample_ledger_def getAccountInfo_def addr_target_def address_create_def)

lemma sample_config_simps [simp]:
  "hashLockTxDuration sample_config = 480" "epochAdjustment sample_config = 1667250467"
  "currencyMosaicID sample_config = ''0000000000000007''"
  by (simp_all add: sample_config_def)

lemma sample_prepare:
  "request_prepare sample_config sample_env addr_client addr_target ''000000000000003A'' 5 100 ''m'' =
     ([SignRequest (AggregateTx (sample_bundle_until 1667264868000)), Wait 1000, SignRequest (HashLockTx sample_lock)],
      Inr (addr_client, \<lparr>signed_hash = ''A1'', signed_of = AggregateTx (sample_bundle_until 1667264868000)\<rparr>,
           sample_signed_lock))"
  by (simp add: request_prepare_def Let_def bindR_continue emit_eq sign_def getBlockTimestamp_def
      escrow_expiration_def compact_u64_def sample_ledger_account sample_build_until build_hash_lock_def
      sample_currency fromUint_def is_bonded_def sample_bundle_until_def sample_bundle_def sample_lock_def
      sample_signed_lock_def)

lemma sample_request:
  "awaited (requestEscrow sample_config sample_env addr_client addr_target ''000000000000003A'' 5 100 ''m'')
     = Returned sample_ok"
  by (simp add: awaited_def requestEscrow_def sample_prepare bindR_continue request_announce_def
      announce_with_def await_race_def sample_env_track emit_eq)

lemma sample_inputs_valid: "form_errors sample_inputs = []"
  by (simp add: form_errors_def sample_inputs_def text_rule_def fixed_alnum_def is_upper_alnum_def
      addr_target_def positive_rule_def message_rule_def List.map_filter_def list_all_iff)

lemma sample_build_record:
  "tx_detail sample_ledger Partial (entry_hash sample_entry) = Some sample_bundle"
  "block_create_time sample_config sample_ledger sample_entry = Inr 0"
  "\<forall>c \<in> set ''000000000000003A''. is_upper_hex c"
  by (simp_all add: sample_entry_def block_create_time_def is_upper_hex_def)

lemma sample_legacy_build:
  "\<exists>agg. build_escrow_aggregate_legacy addr_client addr_target addr_admin ''000000000000003A'' 5 100 ''m'' = Inr agg"
proof -
  have "mosaicId_create legacy_currency = Inr 0x72C0212E67A08BCE"
    by (simp add: legacy_currency_def mosaicId_create_def hex_val_def)
  then show ?thesis
    by (simp add: build_escrow_aggregate_legacy_def sample_asset_id fromUint_def addr_admin_def address_create_def)
qed

lemma sample_detail_load:
  "detail_load sample_config sample_ledger addr_client ''H1'' detail_init =
     detail_init\<lparr>escrowData := sample_record, d_ui := (d_ui detail_init)\<lparr>progress := False\<rparr>\<rparr>"
  by (simp add: detail_load_def sample_search sample_record_def)

lemma sample_detail_sign:
  "CosignRequest ''H1'' \<in> set (snd (detail_step sample_config sample_env addr_client ''H1''
          (detail_step sample_config sample_env addr_client ''H1'' (detail_init, []) DetailLoaded) SignClicked))"
  by (simp add: sample_detail_load detail_screen_def detail_agree_def Let_def
      cosignedEscrow_def sample_record_def bindR_def liftE_def sample_ledger_account getTransaction_def
      split: prod.splits)

subsection \<open>Instances of the tracker's properties\<close>

theorem track_poll_failure_witness:
  "track sample_watch [TimerFires, PollReply (Fetched sample_failure)] = Some sample_failure"
  using track_poll_failure [of sample_failure sample_watch "[]"]
  by (simp add: sample_failure_def is_success_def)

theorem track_result_was_fetched_witness:
  "track sample_watch [Message ConfirmedAdded addr_client ''L1'', HandlerReply (Fetched sample_ok)] = Some sample_ok
   \<and> HandlerReply (Fetched sample_ok) \<in> set [Message ConfirmedAdded addr_client ''L1'', HandlerReply (Fetched sample_ok)]"
  using track_result_was_fetched [OF sample_ok_settles] sample_ok_settles
  by (simp add: sample_ok_def sample_failure_def is_success_def)

theorem track_settled_value_final_witness:
  "track sample_watch [Message ConfirmedAdded addr_client ''L1'', HandlerReply (Fetched sample_ok),
     TimerFires, PollReply (Fetched sample_failure)] = Some sample_ok"
  using track_settled_value_final [OF sample_ok_settles, of "[TimerFires, PollReply (Fetched sample_failure)]"]
  by simp

theorem track_hangs_without_event_witness:
  "track sample_watch [Message AggregateBondedAdded addr_client ''L1'', TimerFires,
     PollReply (Fetched sample_ok), HandlerReply (Fetched sample_failure)] = None"
  using track_hangs_without_event [of "[Message AggregateBondedAdded addr_client ''L1'', TimerFires,
     PollReply (Fetched sample_ok), HandlerReply (Fetched sample_failure)]" sample_watch]
  by (simp add: quiet_for_def sample_watch_def sample_ok_def is_success_def)

theorem race_reach_closed_iff_settled_witness:
  "(outcome (race_run (race_init sample_watch) [Message ConfirmedAdded addr_client ''L1''])= None
      \<longleftrightarrow> listening (race_run (race_init sample_watch) [Message ConfirmedAdded addr_client ''L1'']))
   \<and> (outcome (race_run (race_init sample_watch) [Message ConfirmedAdded addr_client ''L1'']) = None
      \<longleftrightarrow> closes (race_run (race_init sample_watch) [Message ConfirmedAdded addr_client ''L1'']) = 0)"
proof -
  have "race_reach sample_watch (race_run (race_init sample_watch) [Message ConfirmedAdded addr_client ''L1''])"
    by (rule race_reach_run [OF race_reach.start])
  then show ?thesis by (rule race_reach_closed_iff_settled)
qed


subsection \<open>Instances of the reconstructor's properties\<close>

theorem searchEscrow_undefined_iff_witness:
  "searchEscrow sample_config (sample_ledger\<lparr>node_url := []\<rparr>) addr_client Partial = Inr None"
  using searchEscrow_undefined_iff [of sample_config "sample_ledger\<lparr>node_url := []\<rparr>" addr_client Partial]
  by simp

theorem searchEscrow_records_marked_witness:
  "\<exists>addr e agg t3. getAccountInfo sample_ledger addr_client = Inr addr \<and>
     e \<in> set (take 100 (bonded_search sample_ledger Partial addr)) \<and>
     er_hash sample_record = entry_hash e \<and> tx_detail sample_ledger Partial (entry_hash e) = Some agg \<and>
     2 < length (innerTransactions agg) \<and> innerTransactions agg ! 2 = TransferInner t3 \<and>
     message_payload t3 = servieName sample_config"
  using searchEscrow_records_marked [OF sample_search, of sample_record] by simp

theorem searchEscrow_page_order_witness:
  "length [sample_record] \<le> 100 \<and>
   (\<exists>addr. getAccountInfo sample_ledger addr_client = Inr addr \<and>
      subseq (map er_hash [sample_record]) (map entry_hash (bonded_search sample_ledger Partial addr)))"
  by (rule searchEscrow_page_order [OF sample_search])

theorem searchEscrow_finds_wellformed_witness:
  "\<exists>rs. searchEscrow sample_config sample_ledger addr_client Partial = Inr (Some rs) \<and>
     \<lparr>er_recipientAddress = recipientAddress sample_pay, er_signerAddress = tx_signer sample_pay,
      er_blockCreateTime = 0, er_expirationTime = js_Number (message_payload sample_pay),
      er_mosaicId = mosaicId_toHex (mosaic_id \<lparr>mosaic_id = 58, mosaic_amount = 5\<rparr>),
      er_amount = unat (mosaic_amount \<lparr>mosaic_id = 58, mosaic_amount = (5::u64)\<rparr>),
      er_price = of_nat (unat (mosaic_amount \<lparr>mosaic_id = 7, mosaic_amount = (100000000::u64)\<rparr>)) / 1000000,
      er_message = message_payload sample_asset, er_hash = entry_hash sample_entry\<rparr> \<in> set rs"
  by (rule searchEscrow_finds_wellformed [of sample_ledger addr_client addr_client sample_entry Partial
      sample_bundle sample_pay sample_asset sample_fee "[]" "\<lparr>mosaic_id = 7, mosaic_amount = 100000000\<rparr>" "[]"
      "\<lparr>mosaic_id = 58, mosaic_amount = 5\<rparr>" "[]" sample_config 0])
     (simp_all add: sample_ledger_account sample_entry_def sample_bundle_def sample_pay_def
      sample_asset_def sample_fee_def sample_config_def block_create_time_def)

subsection \<open>Instances of the builder's properties\<close>



theorem build_hash_lock_names_bundle_witness:
  "build_hash_lock ''0000000000000007'' 480 sample_signed_bundle = Inr sample_lock
   \<and> lock_hash sample_lock = signed_hash sample_signed_bundle
   \<and> unat (mosaic_amount (lock_mosaic sample_lock)) = 10000000"
  using build_hash_lock_names_bundle [OF sample_build_lock] sample_build_lock by simp

subsection \<open>Instances of the orchestrator's properties\<close>


theorem request_announce_log_witness:
  "request_announce sample_env addr_client sample_signed_bundle sample_signed_lock =
     ([Announce ''L1'', Subscribe sample_watch, Wait 5000, AnnounceBonded ''A1'', Subscribe sample_bundle_watch],
      Inl (Returned sample_ok))"
  using request_announce_log [of sample_env sample_signed_lock sample_signed_bundle addr_client sample_ok]
  by (simp add: sample_env_track sample_signed_bundle_def sample_signed_lock_def sample_watch_def
      sample_bundle_watch_def)

theorem escrowRequest_announce_log_witness:
  "escrowRequest_announce sample_env addr_client sample_signed_bundle sample_signed_lock =
     ([Announce ''L1'', Subscribe sample_watch, AnnounceBonded ''A1'', Subscribe sample_bundle_watch],
      Inl (Returned sample_ok))"
  using escrowRequest_announce_log [of sample_env sample_signed_lock sample_signed_bundle addr_client sample_ok]
  by (simp add: sample_env_track sample_signed_bundle_def sample_signed_lock_def sample_watch_def
      sample_bundle_watch_def)


theorem cosignedEscrow_watches_parent_witness:
  "fst (cosignedEscrow sample_env addr_client ''H1'') =
     [CosignRequest ''H1'', AnnounceCosignature ''H1'',
      Subscribe \<lparr>w_channel = ConfirmedAdded, w_address = addr_client, w_hash = ''H1''\<rparr>]"
proof -
  have "Subscribe \<lparr>w_channel = ConfirmedAdded, w_address = addr_client, w_hash = ''H1''\<rparr>
          \<in> set (fst (cosignedEscrow sample_env addr_client ''H1''))"
    by (simp add: cosignedEscrow_def Let_def bindR_continue liftE_def sample_ledger_account getTransaction_def
        announce_with_def await_race_def sample_env_track)
  from cosignedEscrow_watches_parent [OF this] show ?thesis by simp
qed

subsection \<open>Instances of the pages' properties\<close>

theorem escrow_agree_success_snack_witness:
  "snackbarSeverity (snd (escrow_agree sample_config sample_env addr_client sample_page)) = SevSuccess
   \<and> snackbarMessage (snd (escrow_agree sample_config sample_env addr_client sample_page)) = TxDetected ''confirmed''"
proof -
  have sev: "snackbarSeverity (snd (escrow_agree sample_config sample_env addr_client sample_page)) = SevSuccess"
    using sample_request
    by (simp add: escrow_agree_def sample_page_def sample_inputs_def show_status_def sample_ok_def page_init_def)
  have "snackbarSeverity sample_page = SevError" by (simp add: sample_page_def page_init_def)
  from escrow_agree_success_snack [OF this sev] sample_request
  show ?thesis using sev by (auto simp: sample_page_def sample_inputs_def sample_ok_def)
qed

theorem form_valid_never_negative_witness:
  "form_errors sample_inputs = [] \<and>
   build_escrow_aggregate sample_config addr_client addr_target addr_admin (in_mosaicId sample_inputs)
     (in_amount sample_inputs) (in_price sample_inputs) ''m'' 123 \<noteq> Inl NegativeUInt"
  using form_valid_never_negative [OF sample_inputs_valid, of sample_config addr_client addr_target addr_admin
      "''m''" 123] sample_inputs_valid
  by (simp add: sample_config_def)

lemma sample_form_submit:
  "form_step dlg (page_init, []) (FormSubmit sample_inputs)
     = (page_init\<lparr>inputData := Some sample_inputs, openDialog := True\<rparr>, [])"
  by (simp add: page_init_def submit_form_def onSubmit_def sample_inputs_valid)

lemma sample_form_reach:
  "form_reach dlg (page_init\<lparr>inputData := Some sample_inputs, openDialog := True\<rparr>, [])"
  using form_reach.step [OF form_reach.start, of dlg "FormSubmit sample_inputs"]
  by (simp only: sample_form_submit)

theorem escrow_page_agree_validated_witness:
  "fst (escrow_dialog_event sample_config sample_env addr_client DialogAgree
          (page_init\<lparr>inputData := Some sample_inputs, openDialog := True\<rparr>))
     = fst (requestEscrow sample_config sample_env addr_client addr_target ''000000000000003A'' 5 100 ''m'')"
  using escrow_page_agree_validated [OF sample_form_reach]
  by (simp add: sample_inputs_def)

theorem escrowRequest_page_confirms_sent_terms_witness:
  "\<exists>inp. form_errors inp = []
     \<and> fst (request_dialog_event sample_env addr_client DialogAgree
              (page_init\<lparr>inputData := Some sample_inputs, openDialog := True\<rparr>))
        = fst (escrowRequest sample_env addr_client (in_targetAddress inp) (in_mosaicId inp)
                 (in_amount inp) (in_price inp) (in_message inp))"
  using escrowRequest_page_confirms_sent_terms [OF sample_form_reach] by auto

theorem history_no_spinner_while_searching_witness:
  "history_screen addr_client (history_init\<lparr>h_progress := False\<rparr>) = Shown []"
proof -
  have "history_reach sample_config sample_ledger addr_client (history_init\<lparr>h_progress := False\<rparr>, True)"
    using history_reach.step [OF history_reach.start, of sample_config sample_ledger addr_client HistEffect]
    by (simp add: addr_client_def)
  from history_no_spinner_while_searching [OF this] show ?thesis by (simp add: history_init_def)
qed

theorem history_shows_previous_account_witness:
  "\<exists>s. session_reach history_init history_start (history_done sample_config sample_ledger) s
     \<and> ps_client s = addr_target
     \<and> history_screen addr_target (ps_page s) = Shown [confirmed_card addr_target sample_record]"
  using history_shows_previous_account [OF _ _ _ sample_search_confirmed, of addr_target]
  by (auto simp: addr_client_def addr_target_def)

text \<open>A ledger where only the client has the escrow bundle among its bonded transactions.\<close>

definition split_ledger :: ledger where
  "split_ledger = sample_ledger\<lparr>bonded_search := (\<lambda>g a. if a = addr_client then [sample_entry] else [])\<rparr>"

lemma reconstruct_entry_split:
  "reconstruct_entry cfg split_ledger g e = reconstruct_entry cfg sample_ledger g e"
  by (simp add: split_ledger_def reconstruct_entry_def block_create_time_def getTransaction_def
      getBlockTimestamp_def Let_def)

lemma split_ledger_simps:
  "node_url split_ledger = ''http://node''"
  "getAccountInfo split_ledger addr_client = Inr addr_client"
  "getAccountInfo split_ledger addr_target = Inr addr_target"
  "bonded_search split_ledger g addr_client = [sample_entry]"
  "bonded_search split_ledger g addr_target = []"
  by (simp_all add: split_ledger_def getAccountInfo_def address_create_def addr_client_def addr_target_def
      sample_ledger_def)

lemma split_ledger_searches:
  "searchEscrow sample_config split_ledger addr_client Partial = Inr (Some [sample_record])"
  "searchEscrow sample_config split_ledger addr_target Partial = Inr (Some [])"
  by (simp_all add: searchEscrow_def split_ledger_simps reconstruct_entry_split sample_reconstruct)

theorem detail_shows_previous_account_witness:
  "\<exists>s. session_reach detail_init id (\<lambda>c. detail_load sample_config split_ledger c ''H1'') s
     \<and> ps_client s = addr_target \<and> er_hash (escrowData (ps_page s)) = ''H1''
     \<and> fst (detail_agree sample_env addr_target (ps_page s)) = fst (cosignedEscrow sample_env addr_target ''H1'')"
proof -
  have ne: "addr_client \<noteq> []" "addr_target \<noteq> []" "addr_client \<noteq> addr_target"
    by (simp_all add: addr_client_def addr_target_def)
  have miss: "\<forall>rs'. searchEscrow sample_config split_ledger addr_target Partial = Inr (Some rs')
      \<longrightarrow> (\<forall>r' \<in> set rs'. er_hash r' \<noteq> ''H1'')"
    by (simp add: split_ledger_searches(2))
  have "sample_record \<in> set [sample_record]" and "er_hash sample_record = ''H1''"
    by (simp_all add: sample_record_def)
  from detail_shows_previous_account [OF ne split_ledger_searches(1) this miss, of sample_env]
  show ?thesis by blast
qed


theorem detail_load_shows_match_witness:
  "er_hash (escrowData (detail_load sample_config sample_ledger addr_client ''H1'' detail_init)) = ''H1''
   \<and> \<not> progress (d_ui (detail_load sample_config sample_ledger addr_client ''H1'' detail_init))"
  by (rule detail_load_shows_match [OF sample_search, of sample_record]) (simp_all add: sample_record_def)

theorem detail_load_unknown_hash_witness:
  "detail_load sample_config sample_ledger addr_client ''H9'' detail_init = detail_init
   \<and> progress (d_ui (detail_load sample_config sample_ledger addr_client ''H9'' detail_init))"
  by (rule detail_load_unknown_hash) (simp add: sample_search sample_record_def)

theorem submit_form_rejects_nonpositive_witness:
  "submit_form (sample_inputs\<lparr>in_amount := 0\<rparr>) page_init = page_init"
  by (rule submit_form_rejects_nonpositive) simp

subsection \<open>Instances of the protocol's properties\<close>

lemma sample_trace_prepare:
  "request_prepare sample_config (sample_env\<lparr>race_events := x\<rparr>) addr_client addr_target ''000000000000003A'' 5 100 ''m'' =
     ([SignRequest (AggregateTx (sample_bundle_until 1667264868000)), Wait 1000, SignRequest (HashLockTx sample_lock)],
      Inr (addr_client, \<lparr>signed_hash = ''A1'', signed_of = AggregateTx (sample_bundle_until 1667264868000)\<rparr>,
           sample_signed_lock))"
  by (simp add: request_prepare_race_events sample_prepare)

theorem request_trace_refines_spec_witness:
  "\<exists>s. spec_steps Built (request_trace sample_config sample_env addr_client addr_target ''000000000000003A'' 5 100 ''m'') s
     \<and> s = Resolved"
proof -
  have "track (lock_watch addr_client sample_signed_lock) (race_events sample_env (lock_watch addr_client sample_signed_lock))
          = Some sample_ok"
    by (rule sample_env_track)
  from request_trace_refines_spec [OF sample_prepare _ _ this]
  show ?thesis by (simp add: sample_env_track sample_ok_def is_success_def)
qed

theorem cosign_trace_refines_spec_witness:
  "\<exists>s. cosign_steps (CLocated ''H1'') (cosign_trace sample_env addr_client ''H1'') s \<and> s = CResolved"
proof -
  have "node_url (env_ledger sample_env) \<noteq> []" by (simp add: sample_ledger_def)
  with cosign_trace_refines_spec [of sample_env addr_client addr_client "''H1''"]
  show ?thesis by (simp add: sample_ledger_account sample_env_track)
qed

theorem request_trace_violates_spec_witness:
  "\<not> spec_steps Built (request_trace sample_config (sample_env\<lparr>race_events := failing_events\<rparr>)
      addr_client addr_target ''000000000000003A'' 5 100 ''m'') Resolved"
proof -
  have quiet: "track (lock_watch addr_client sample_signed_lock)
      (race_events (sample_env\<lparr>race_events := failing_events\<rparr>) (lock_watch addr_client sample_signed_lock))
      = Some sample_failure"
    by (simp add: failing_events_def track_def race_init_def race_defs)
  have "\<not> is_success sample_failure" by (simp add: sample_failure_def is_success_def)
  from request_trace_violates_spec [OF sample_trace_prepare [of failing_events] _ _ quiet this]
  show ?thesis by simp
qed

subsection \<open>Further instances\<close>

theorem searchEscrow_records_typed_witness:
  "length (er_mosaicId sample_record) = 16 \<and> er_amount sample_record < 2 ^ 53"
  using searchEscrow_records_typed [OF sample_search, of sample_record] by simp

theorem requestEscrow_terminates_witness:
  "snd (requestEscrow sample_config sample_env addr_client addr_target ''000000000000003A'' 5 100 ''m'')
     = Inl (Returned sample_ok)"
  by (rule requestEscrow_terminates [OF sample_prepare])
     (simp_all add: sample_env_def sample_signed_lock_def)

theorem app_reach_menu_routes_witness:
  "current (app_run app_init [SssUpdate ''ACTIVE'' addr_client, MenuButton, DrawerClick EscrowItem]) = REscrow
   \<and> current (app_run app_init [SssUpdate ''ACTIVE'' addr_client, MenuButton, DrawerClick EscrowItem])
       \<noteq> REscrowRequest"
  using app_reach_menu_routes [OF app_reach_run [OF app_reach.start,
      of "[SssUpdate ''ACTIVE'' addr_client, MenuButton, DrawerClick EscrowItem]"]]
  by (simp add: app_init_def sss_effect_def push_def drawer_target_def)

lemma sample_legacy_prepare:
  "\<exists>acts sa sl. escrowRequest_prepare sample_env addr_client addr_target ''000000000000003A'' 5 100 ''m''
     = (acts, Inr (addr_client, sa, sl))"
proof -
  obtain agg where agg: "build_escrow_aggregate_legacy addr_client addr_target addr_admin
      ''000000000000003A'' 5 100 ''m'' = Inr agg"
    using sample_legacy_build by blast
  have "agg_type agg = AggregateBonded"
    using agg by (auto simp: build_escrow_aggregate_legacy_eq_Inr)
  then obtain lock where lock: "build_hash_lock legacy_currency 480 \<lparr>signed_hash = ''A1'', signed_of = AggregateTx agg\<rparr> = Inr lock"
    by (simp add: build_hash_lock_def is_bonded_def legacy_currency_def mosaicId_create_def hex_val_def fromUint_def)
  show ?thesis
    by (simp add: escrowRequest_prepare_def Let_def bindR_continue sign_def sample_ledger_account emit_eq agg lock)
qed

theorem legacy_deposit_window_witness:
  "\<exists>acts sa sl lock. escrowRequest_prepare sample_env addr_client addr_target ''000000000000003A'' 5 100 ''m''
       = (acts, Inr (addr_client, sa, sl)) \<and> signed_of sl = HashLockTx lock \<and> lock_hours lock = 4"
proof -
  obtain acts sa sl where p: "escrowRequest_prepare sample_env addr_client addr_target ''000000000000003A'' 5 100 ''m''
      = (acts, Inr (addr_client, sa, sl))"
    using sample_legacy_prepare by blast
  from legacy_deposit_window [OF p] p show ?thesis by blast
qed


theorem detail_page_cosigns_named_escrow_witness:
  "{a \<in> set (snd (detail_step sample_config sample_env addr_client ''H1''
          (detail_step sample_config sample_env addr_client ''H1'' (detail_init, []) DetailLoaded) SignClicked)).
      \<exists>x. a = CosignRequest x} = {CosignRequest ''H1''}"
proof -
  have "detail_reach sample_config sample_env addr_client ''H1''
     (detail_step sample_config sample_env addr_client ''H1''
       (detail_step sample_config sample_env addr_client ''H1'' (detail_init, []) DetailLoaded) SignClicked)"
    by (intro detail_reach.step detail_reach.start)
  then have "detail_reach sample_config sample_env addr_client ''H1''
     (fst (detail_step sample_config sample_env addr_client ''H1''
       (detail_step sample_config sample_env addr_client ''H1'' (detail_init, []) DetailLoaded) SignClicked),
      snd (detail_step sample_config sample_env addr_client ''H1''
       (detail_step sample_config sample_env addr_client ''H1'' (detail_init, []) DetailLoaded) SignClicked))"
    by simp
  from detail_page_cosigns_named_escrow [OF this] sample_detail_sign show ?thesis by auto
qed

end
