(* ===== verification/Spec2Isabelle.thy ===== *)
theory Spec2Isabelle
  imports Examples
begin

text \<open>
  \<^bold>\<open>A verification library for the Symbol escrow dApp\<close>
  (\<open>src/src\<close>: a Next.js front end that lets two parties swap a mosaic for a price
  in the settlement currency through a bonded aggregate transaction).

  \<^bold>\<open>The program.\<close> The request pages (\<open>pages/escrow\<close>, \<open>pages/escrow-request\<close>)
  validate a form and call an orchestrator in \<open>utils/\<close>:
  \<open>requestEscrowWithSSS\<close> (or the older \<open>escrowRequestWithSSS\<close>) builds three
  transfers into a bonded aggregate, has the SSS browser signer sign it, builds,
  signs and announces a hash lock, races a WebSocket listener against a one-second
  status poll until the lock is confirmed, waits five seconds, announces the bundle
  and races again for its arrival in the partial pool. \<open>searchEscrow\<close> replays
  the ledger: it lists the bonded aggregates involving an address and rebuilds an
  \<open>escrowAggregateTransaction\<close> record from each bundle marked with the service
  name. The list, detail and history pages show these records on cards; the detail
  page calls \<open>cosignedEscrowWithSSS\<close>, which cosigns a partial bundle and races for
  its confirmation.

  \<^bold>\<open>Theories.\<close>
  \<^item> \<open>Prelude\<close>: the model's types (\<open>jsnum\<close> = \<open>rat\<close> for JavaScript numbers,
    \<open>u64\<close> = \<open>64 word\<close> for \<open>UInt64\<close>, strings for addresses and hashes), the
    \<open>error\<close> datatype of every exception the code can raise, \<open>bindE\<close> for
    \<open>await\<close>/\<open>throw\<close> on \<open>error + 'a\<close>, \<open>js_at\<close> for \<open>xs[i].field\<close>, and the
    symbol-sdk conversions \<open>fromUint\<close> (throws below 0, truncates, wraps modulo
    2^64) and \<open>compact_u64\<close> (throws at 2^53).
  \<^item> \<open>Codec\<close>: \<open>toString\<close>/\<open>Number\<close> on naturals and \<open>new MosaicId\<close>/\<open>toHex\<close>,
    with their round trips.
  \<^item> \<open>Ledger\<close>: the symbol-sdk transactions the code builds and reads, the
    constants of \<open>consts/blockchainProperty\<close> as a \<open>config\<close> record, and the
    node's answers as a \<open>ledger\<close> record of functions (\<open>getAccountInfo\<close>,
    \<open>getBlockTimestamp\<close>, \<open>getTransaction\<close>).
  \<^item> \<open>Builder\<close>: \<open>build_escrow_aggregate\<close> (lines 72-117 of
    \<open>requestEscrowWithSSS.ts\<close>), \<open>build_escrow_aggregate_legacy\<close> (lines 61-111
    of \<open>escrowRequestWithSSS.ts\<close>), \<open>build_hash_lock\<close>, \<open>escrow_expiration\<close>;
    the lemmas characterise success and every error path in source order.
  \<^item> \<open>Tracker\<close>: the listener/poll race as a record state and an event-driven
    step function \<open>race_step\<close>, its runs \<open>race_run\<close>, the settled value
    \<open>track\<close>, and the reachable states \<open>race_reach\<close> with an invariant proved by
    rule induction. The order of events is the interleaving of the two branches.
  \<^item> \<open>Orchestrator\<close>: the three async functions as runs, an action log (sign,
    wait, announce, subscribe) with an outcome (\<open>Undefined\<close>, \<open>Threw\<close>,
    \<open>Pending\<close>, \<open>Returned\<close>), over an environment that fixes the ledger, the
    signer, the acceptance of announcements and the events each subscription sees.
  \<^item> \<open>Protocol\<close>: the specification's escrow-creation state machine (section 4.3
    of the design) as a labelled step relation \<open>spec_step\<close>, the observable trace
    of \<open>requestEscrowWithSSS\<close> (\<open>request_trace\<close>), a refinement theorem for
    the runs whose lock succeeds and the divergence of the runs whose lock fails;
    the shorter cosignature machine (\<open>cosign_step\<close>) with the trace of
    \<open>cosignedEscrowWithSSS\<close> (\<open>cosign_trace\<close>) and its refinement theorem.
  \<^item> \<open>Reconstructor\<close>: \<open>reconstruct_entry\<close> (the \<open>try\<close> body of lines 47-79
    of \<open>searchEscrow.ts\<close>), \<open>search_loop\<close> (the loop with its \<open>catch\<close>),
    \<open>searchEscrow\<close>.
  \<^item> \<open>Pages\<close>: the form's \<open>validationRules\<close> (\<open>form_errors\<close>), the page state
    records and the handlers \<open>onSubmit\<close>, \<open>escrow_agree\<close>,
    \<open>escrowRequest_agree\<close>, \<open>detail_load\<close>, \<open>detail_agree\<close>,
    \<open>history_load\<close>, and the card's role test.
  \<^item> \<open>Navigation\<close>: the routes, the left drawer's menu, the session redirect every
    page runs and the detail page's back button, as a step function
    \<open>app_step\<close> with reachable states \<open>app_reach\<close>.
  \<^item> \<open>Dialogs\<close>: what the \<open>/escrow-request\<close> confirmation dialog shows and its
    buttons, and the home page's agree handler.
  \<^item> \<open>Screens\<close>: what the pages and cards render (\<open>partial_card\<close>,
    \<open>confirmed_card\<close>, \<open>history_screen\<close>, \<open>detail_screen\<close>,
    \<open>request_screen\<close>, and \<open>home_screen\<close>, the home page's hard-coded
    one-entry list), the detail page's events as a step function
    \<open>detail_step\<close> with reachable states \<open>detail_reach\<close>, and the history
    page's effect and the later completion of its unawaited search as separate
    events (\<open>history_step\<close>, \<open>history_reach\<close>); completing both gives
    \<open>history_load\<close> of \<open>Pages\<close>.
  \<^item> \<open>Sessions\<close>: the history and detail pages under changes of the SSS
    session, over what a page does when it starts a search and when one completes
    (\<open>session_step\<close>, \<open>session_reach\<close>): the session effect and the data
    effect in React's render order, and the completions of the searches in any
    order. The history page is the instance \<open>history_start\<close>,
    \<open>history_done\<close> (without a change of account it agrees with
    \<open>history_load\<close>), the detail page the instance \<open>id\<close>,
    \<open>detail_load\<close>.
  \<^item> \<open>Forms\<close>: both request pages as event systems (\<open>form_step\<close>: a submit of
    the form, hidden while the spinner shows, and the dialog's buttons), stated over
    the handler the dialog's agree runs (\<open>escrow_dialog_event\<close>,
    \<open>request_dialog_event\<close>), with reachable states \<open>form_reach\<close> and
    the invariant \<open>form_inv\<close>.
  \<^item> \<open>Examples\<close>: sample values (a ledger holding one bundle, a signer, an
    environment) and the instances of the component properties at them.
  \<^item> This theory: properties across components (the round trip of the escrow terms
    through the ledger, the cards, the legacy flow, the pages' reaction to failures).

  \<^bold>\<open>What is proved.\<close> For the builder: the exact shape of the bundle and of the
  lock, and each error path. For the tracker: settling by either branch, finality of
  the settled value, the reachable-state invariant (open listener exactly while
  pending), and the defects the code has (a race that never settles without the
  event, a timer never cancelled, a listener closed twice). For the orchestrator: the
  exact action sequence, that the bundle is announced whatever the lock's status,
  that \<open>undefined\<close> means exactly no node, and that both flows refine the
  specification's machines on their successful paths (the cosignature, its
  announcement and the watched confirmation all concern the located bundle). For the reconstructor: records only
  from marked bundles of the first page, in ledger order, failures skipped, and
  every well-formed bundle found; the loop equals the reference filter-map of the
  reconstruction, and every record it returns is well formed (a 16-digit upper-case
  hex id, amounts below 2^53). The flow returns once both races see their message
  and reply. No in-app navigation reaches \<open>/escrow-request\<close> or
  \<open>/detail\<close>, and the legacy dialog announces a fee computed from the amount
  instead of the price. The detail page shows its sign button, and cosigns, only for
  the escrow its URL names; the cards show a built escrow's terms unchanged. On both
  request pages an open dialog shows validated inputs and its agree sends exactly
  them, so the handlers' \<open>inputData!\<close> assertion never fails. The history page drops
  its spinner before its search returns and shows an empty list meanwhile. After a switch
  of the signer's account, it can end showing the previous account's escrows, and
  the detail page can end offering, and cosigning as the new account, a bundle of
  the previous account. The
  legacy flow's hash lock lasts 4 hours where the dialog promises 48.
  Across components: built terms are read back
  unchanged, legacy bundles are invisible, and the pages either show the outcome,
  show nothing (a thrown error), or spin for ever (a race that never settles).

  \<^bold>\<open>Bounds.\<close> Amounts and micro-unit prices are read back through
  \<open>UInt64.compact()\<close>, exact below 2^53, so the round trip assumes them
  below 2^53; \<open>fromUint\<close> wraps modulo 2^64 above. The search reads
  one page of 100 entries. No function of the model needs fuel: every loop of the
  code runs over a finite list, and an \<open>await\<close> that never returns is the outcome
  \<open>Pending\<close> of a race whose finite event list never settles it, so the
  non-termination the code has is a value the theorems talk about.

  \<^bold>\<open>Not modelled.\<close> JavaScript floating point (numbers are rationals; the
  products \<open>price * 1000000\<close> are exact here), the string-to-number coercion of
  the form's text fields, \<open>connectNode\<close> and the constants file (not among the
  sources: a \<open>node_url\<close> field and the \<open>config\<close> record stand for them),
  deadlines, fees, signatures and key material, address checksums and public-key
  derivation, the SSS session hook itself (its state is an input of
  \<open>sss_effect\<close>), the \<open>/sss\<close> page, the \<open>Header\<close> and snackbar components,
  \<open>unixTimeToDateTime\<close>, the layout and styling of the cards and pages, and
  \<open>sendMessageWithSSS\<close> (not among the sources: the home page's handler takes
  its outcome as a parameter).
\<close>

section \<open>Facts across components\<close>

lemma reconstruct_built_bundle:
  assumes build: "build_escrow_aggregate cfg client target admin mid amount price message expiry = Inr agg"
    and found: "tx_detail l g (entry_hash e) = Some agg" and time: "block_create_time cfg l e = Inr bt"
    and hex: "\<forall>c \<in> set mid. is_upper_hex c"
    and amt: "amount = of_nat k" "k < 2 ^ 53"
    and pr: "price * 1000000 = of_nat p" "p < 2 ^ 53"
  shows "reconstruct_entry cfg l g e = Inr (Some
           \<lparr>er_recipientAddress = target, er_signerAddress = Some client, er_blockCreateTime = bt,
            er_expirationTime = Some expiry, er_mosaicId = mid, er_amount = k, er_price = price,
            er_message = message, er_hash = entry_hash e\<rparr>)"
proof -
  from build obtain cur m where cur: "mosaicId_create (currencyMosaicID cfg) = Inr cur"
    and m: "mosaicId_create mid = Inr m"
    and agg: "agg = \<lparr>agg_type = AggregateBonded, innerTransactions =
         [TransferInner \<lparr>recipientAddress = target,
            mosaics = [\<lparr>mosaic_id = cur, mosaic_amount = word_of_nat (nat \<lfloor>price * 1000000\<rfloor>)\<rparr>],
            message_payload = num_toString expiry, tx_signer = Some client\<rparr>,
          TransferInner \<lparr>recipientAddress = client,
            mosaics = [\<lparr>mosaic_id = m, mosaic_amount = word_of_nat (nat \<lfloor>amount\<rfloor>)\<rparr>],
            message_payload = message, tx_signer = Some target\<rparr>,
          TransferInner \<lparr>recipientAddress = admin,
            mosaics = [\<lparr>mosaic_id = cur,
                        mosaic_amount = word_of_nat (nat \<lfloor>price * servieFee cfg * 1000000\<rfloor>)\<rparr>],
            message_payload = servieName cfg, tx_signer = Some client\<rparr>]\<rparr>"
    unfolding build_escrow_aggregate_eq_Inr by blast
  have ua: "unat (word_of_nat (nat \<lfloor>amount\<rfloor>) :: u64) = k"
    using amt by (simp only: unat_fromUint_nat)
  have up: "unat (word_of_nat (nat \<lfloor>price * 1000000\<rfloor>) :: u64) = p"
    using pr by (simp only: unat_fromUint_nat)
  have "reconstruct_entry cfg l g e = Inr (Some
           \<lparr>er_recipientAddress = target, er_signerAddress = Some client, er_blockCreateTime = bt,
            er_expirationTime = js_Number (num_toString expiry), er_mosaicId = mosaicId_toHex m,
            er_amount = unat (word_of_nat (nat \<lfloor>amount\<rfloor>) :: u64),
            er_price = of_nat (unat (word_of_nat (nat \<lfloor>price * 1000000\<rfloor>) :: u64)) / 1000000,
            er_message = message, er_hash = entry_hash e\<rparr>)"
    using found time amt(2) pr(2)
    by (simp add: agg reconstruct_entry_def transfer_at_def as_transfer_def getTransaction_def Let_def
        js_at_def compact_u64_def ua up)
  also have "\<dots> = Inr (Some
           \<lparr>er_recipientAddress = target, er_signerAddress = Some client, er_blockCreateTime = bt,
            er_expirationTime = Some expiry, er_mosaicId = mid, er_amount = k, er_price = price,
            er_message = message, er_hash = entry_hash e\<rparr>)"
  proof -
    have "of_nat p / 1000000 = price" using pr(1) by simp
    then show ?thesis
      unfolding ua up by (simp add: js_Number_num_toString mosaicId_toHex_create [OF m hex])
  qed
  finally show ?thesis .
qed

lemma requestEscrow_throws_on_mosaic:
  assumes "node_url (env_ledger env) \<noteq> []" and "isl (mosaicId_create mid)"
  shows "\<exists>e. awaited (requestEscrow cfg env c t mid amount price msg) = Threw e"
  using assms(1)
  by (auto simp: build_fails_on_mosaic [OF assms(2)] awaited_def requestEscrow_def request_prepare_def Let_def bindR_def liftE_def isl_def
      split: sum.splits prod.splits)

section \<open>Properties across components\<close>



text \<open>
  Claim C15: a bundle of the legacy \<open>escrowRequestWithSSS\<close> (used by the
  \<open>/escrow-request\<close> page) has an empty fee message, so \<open>searchEscrow\<close> never
  lists it when the service name is not empty: such escrows never appear in the
  lists, the detail page or the history.
\<close>

theorem legacy_bundle_invisible:
  assumes "build_escrow_aggregate_legacy client target admin mid amount price message = Inr agg"
    and "tx_detail l g (entry_hash e) = Some agg" and "servieName cfg \<noteq> []"
  shows "\<forall>r. reconstruct_entry cfg l g e \<noteq> Inr (Some r)"
  using build_legacy_tx3 [OF assms(1)] assms(2,3)
  by (auto simp: reconstruct_entry_def getTransaction_def transfer_at_def as_transfer_def Let_def
      bindE_eq_Inr_iff js_at_def eval_nat_numeral)

text \<open>
  Claim C18: when a node is reachable and the asset id is not a valid \<open>MosaicId\<close>, the
  \<open>/escrow\<close> page's agree handler ends with the spinner off, the dialog closed and
  no snackbar: the exception is only logged.
\<close>

theorem escrow_page_silent_on_bad_mosaic:
  assumes "inputData st = Some inp" and "node_url (env_ledger env) \<noteq> []"
    and "isl (mosaicId_create (in_mosaicId inp))"
  shows "snd (escrow_agree cfg env c st) = st\<lparr>progress := False, openDialog := False\<rparr>"
  using requestEscrow_throws_on_mosaic [OF assms(2,3), of cfg c "in_targetAddress inp" "in_amount inp"
      "in_price inp" "in_message inp"] assms(1)
  by (auto simp: escrow_agree_def show_status_def Let_def)

text \<open>
  Claim C10: when the hash lock's race never settles, the \<open>/escrow\<close> page's spinner stays
  on for ever, no snackbar is shown and the bundle is never announced.
\<close>

theorem escrow_page_stuck_on_pending_lock:
  assumes "inputData st = Some inp"
    and "request_prepare cfg env c (in_targetAddress inp) (in_mosaicId inp) (in_amount inp) (in_price inp)
           (in_message inp) = (acts, Inr (client, sa, sl))"
    and "announce_ok env (signed_hash sl)"
    and "track \<lparr>w_channel = ConfirmedAdded, w_address = client, w_hash = signed_hash sl\<rparr>
           (race_events env \<lparr>w_channel = ConfirmedAdded, w_address = client, w_hash = signed_hash sl\<rparr>) = None"
  shows "progress (snd (escrow_agree cfg env c st)) \<and> openSnackbar (snd (escrow_agree cfg env c st)) = openSnackbar st
         \<and> (\<forall>h. AnnounceBonded h \<notin> set (fst (escrow_agree cfg env c st)))"
proof -
  have "\<forall>h. AnnounceBonded h \<notin> set acts"
    using request_prepare_log [of cfg env c "in_targetAddress inp" "in_mosaicId inp" "in_amount inp"
        "in_price inp" "in_message inp"] assms(2) by auto
  with assms show ?thesis
    by (simp add: escrow_agree_def requestEscrow_def bindR_continue request_announce_def announce_with_def
        await_race_def awaited_def show_status_def)
qed


text \<open>
  The end-to-end example of the specification: the terms (counterparty,
  asset 0x3A, amount 5, price 100, message m) give a payment of 100 units (in
  micro-units) to the counterparty, the asset transfer of 5 to the requester with
  the message, and a fee of 10 units to the service address with the service tag; the
  bundle is read back as the record with amount 5, price 100 and message m.
\<close>

theorem spec_end_to_end_example:
  "build_escrow_aggregate sample_config addr_client addr_target addr_admin ''000000000000003A'' 5 100 ''m'' 123
     = Inr sample_bundle
   \<and> map (\<lambda>t. case t of TransferInner x \<Rightarrow> (recipientAddress x, map (unat \<circ> mosaic_amount) (mosaics x),
                                                message_payload x) | OtherInner \<Rightarrow> ([], [], []))
         (innerTransactions sample_bundle)
       = [(addr_target, [100000000], ''123''), (addr_client, [5], ''m''), (addr_admin, [10000000], ''escrow'')]
   \<and> searchEscrow sample_config sample_ledger addr_client Partial = Inr (Some [sample_record])
   \<and> er_amount sample_record = 5 \<and> er_price sample_record = 100 \<and> er_message sample_record = ''m''"
  by (simp add: sample_build sample_search sample_bundle_def sample_pay_def sample_asset_def sample_fee_def
      sample_record_def)

section \<open>Instances of the properties across components\<close>



theorem legacy_bundle_invisible_witness:
  "\<exists>agg. build_escrow_aggregate_legacy addr_client addr_target addr_admin ''000000000000003A'' 5 100 ''m'' = Inr agg
     \<and> (\<forall>r. reconstruct_entry sample_config (sample_ledger\<lparr>tx_detail := \<lambda>g h. Some agg\<rparr>) Partial sample_entry
            \<noteq> Inr (Some r))"
proof -
  obtain agg where agg: "build_escrow_aggregate_legacy addr_client addr_target addr_admin
      ''000000000000003A'' 5 100 ''m'' = Inr agg"
    using sample_legacy_build by blast
  have "servieName sample_config \<noteq> []" by (simp add: sample_config_def)
  from legacy_bundle_invisible [OF agg _ this, of "sample_ledger\<lparr>tx_detail := \<lambda>g h. Some agg\<rparr>" Partial sample_entry]
  show ?thesis using agg by auto
qed

theorem escrow_page_silent_on_bad_mosaic_witness:
  "form_errors bad_mosaic_inputs = [] \<and>
   snd (escrow_agree sample_config sample_env addr_client (page_init\<lparr>inputData := Some bad_mosaic_inputs\<rparr>))
     = page_init\<lparr>inputData := Some bad_mosaic_inputs, progress := False, openDialog := False\<rparr>"
proof
  show "form_errors bad_mosaic_inputs = []"
    by (simp add: form_errors_def bad_mosaic_inputs_def sample_inputs_def text_rule_def fixed_alnum_def
      is_upper_alnum_def addr_target_def positive_rule_def message_rule_def List.map_filter_def list_all_iff)
  have "isl (mosaicId_create (in_mosaicId bad_mosaic_inputs))"
    by (simp add: bad_mosaic_inputs_def mosaicId_create_def hex_val_def)
  from escrow_page_silent_on_bad_mosaic [of "page_init\<lparr>inputData := Some bad_mosaic_inputs\<rparr>" _ sample_env,
      OF _ _ this]
  show "snd (escrow_agree sample_config sample_env addr_client (page_init\<lparr>inputData := Some bad_mosaic_inputs\<rparr>))
     = page_init\<lparr>inputData := Some bad_mosaic_inputs, progress := False, openDialog := False\<rparr>"
    by simp
qed

theorem escrow_page_stuck_on_pending_lock_witness:
  "progress (snd (escrow_agree sample_config (sample_env\<lparr>race_events := \<lambda>w. []\<rparr>) addr_client sample_page))
   \<and> \<not> openSnackbar (snd (escrow_agree sample_config (sample_env\<lparr>race_events := \<lambda>w. []\<rparr>) addr_client sample_page))"
proof -
  have inp: "inputData sample_page = Some sample_inputs" by (simp add: sample_page_def)
  have prep: "request_prepare sample_config (sample_env\<lparr>race_events := \<lambda>w. []\<rparr>) addr_client
      (in_targetAddress sample_inputs) (in_mosaicId sample_inputs) (in_amount sample_inputs)
      (in_price sample_inputs) (in_message sample_inputs) =
     ([SignRequest (AggregateTx (sample_bundle_until 1667264868000)), Wait 1000, SignRequest (HashLockTx sample_lock)],
      Inr (addr_client, \<lparr>signed_hash = ''A1'', signed_of = AggregateTx (sample_bundle_until 1667264868000)\<rparr>,
           sample_signed_lock))"
    by (simp add: sample_inputs_def request_prepare_race_events sample_prepare)
  have ok: "announce_ok (sample_env\<lparr>race_events := \<lambda>w. []\<rparr>) (signed_hash sample_signed_lock)" by simp
  have quiet: "track \<lparr>w_channel = ConfirmedAdded, w_address = addr_client, w_hash = signed_hash sample_signed_lock\<rparr>
      (race_events (sample_env\<lparr>race_events := \<lambda>w. []\<rparr>)
        \<lparr>w_channel = ConfirmedAdded, w_address = addr_client, w_hash = signed_hash sample_signed_lock\<rparr>) = None"
    by (simp add: track_def race_init_def race_defs)
  from escrow_page_stuck_on_pending_lock [OF inp prep ok quiet]
  show ?thesis by (simp add: sample_page_def page_init_def)
qed

end
